theory Spec2Isabelle
  imports Complex_Main "HOL-Library.Multiset"
begin

section \<open>Heat loss calculation service\<close>

text \<open>
  A shallow embedding of \<^verbatim>\<open>HeatLossService\<close> (heatLoss.service.ts): input validation,
  transmission and ventilation loss, the per-room result, the building aggregate and the
  radiator sizing.

  Numbers. A TypeScript \<^verbatim>\<open>number\<close> is an IEEE binary64 value: \<open>jsnum\<close> is a finite
  value, one of the two infinities, or \<^verbatim>\<open>NaN\<close>. Every arithmetic operation of the source
  is an operation on \<open>jsnum\<close> that rounds its exact result to the nearest binary64 value,
  a tie going to the even one (\<open>binary64\<close>), overflows to an infinity and follows the
  IEEE rules for the special values; a comparison with \<^verbatim>\<open>NaN\<close> is false. The two zeros
  of binary64 are one value here: the service divides by a variable in one place only,
  by a result of \<^verbatim>\<open>Math.pow\<close>, which is never the negative zero.

  Effects. \<^verbatim>\<open>Date.now()\<close> is a read of a clock held in an explicit \<open>world\<close>; a
  rejected promise or a thrown \<^verbatim>\<open>Error\<close> is the \<open>Inl\<close> branch of a sum. The calls of
  \<^verbatim>\<open>logger\<close> write a log and change no returned value; they are left out.
\<close>

subsection \<open>Numbers\<close>

datatype jsnum = Num real | PosInfinity | NegInfinity | NaN

text \<open>
  Rounding to the nearest integer, a tie going to the even one: the rule for the last
  bit of a binary64 result.
\<close>

definition round_even :: "real \<Rightarrow> int" where
  "round_even m =
     (let f = \<lfloor>m\<rfloor>; d = m - of_int f
      in if d < 1 / 2 then f else if 1 / 2 < d then f + 1 else if even f then f else f + 1)"

text \<open>
  The binary exponent of \<open>x\<close>, not below that of the smallest normal number, and the
  distance of neighbouring binary64 values at \<open>x\<close>: 52 bits follow the leading one.
\<close>

definition expo :: "real \<Rightarrow> int" where
  "expo x = (if x = 0 then - 1022 else max \<lfloor>log 2 \<bar>x\<bar>\<rfloor> (- 1022))"

definition ulp :: "real \<Rightarrow> real" where
  "ulp x = 2 powr of_int (expo x - 52)"

definition nearest :: "real \<Rightarrow> real" where
  "nearest x = of_int (round_even (x / ulp x)) * ulp x"

text \<open>
  The binary64 value of an exact result: the nearest multiple of the distance, and an
  infinity from \<open>2 ^ 1024\<close> on.
\<close>

definition binary64 :: "real \<Rightarrow> jsnum" where
  "binary64 x =
     (let y = nearest x
      in if 2 ^ 1024 \<le> y then PosInfinity
         else if y \<le> - (2 ^ 1024) then NegInfinity
         else Num y)"

text \<open>The operators \<^verbatim>\<open>+\<close>, \<^verbatim>\<open>-\<close>, \<^verbatim>\<open>*\<close> and \<^verbatim>\<open>/\<close>.\<close>

fun js_add :: "jsnum \<Rightarrow> jsnum \<Rightarrow> jsnum" where
  "js_add NaN b = NaN"
| "js_add a NaN = NaN"
| "js_add (Num x) (Num y) = binary64 (x + y)"
| "js_add PosInfinity NegInfinity = NaN"
| "js_add NegInfinity PosInfinity = NaN"
| "js_add PosInfinity b = PosInfinity"
| "js_add a PosInfinity = PosInfinity"
| "js_add NegInfinity b = NegInfinity"
| "js_add a NegInfinity = NegInfinity"

fun js_neg :: "jsnum \<Rightarrow> jsnum" where
  "js_neg (Num x) = Num (- x)"
| "js_neg PosInfinity = NegInfinity"
| "js_neg NegInfinity = PosInfinity"
| "js_neg NaN = NaN"

definition js_sub :: "jsnum \<Rightarrow> jsnum \<Rightarrow> jsnum" where
  "js_sub a b = js_add a (js_neg b)"

text \<open>The sign of a number that is not \<^verbatim>\<open>NaN\<close>: \<open>1\<close>, \<open>0\<close> or \<open>-1\<close>.\<close>

fun js_sign :: "jsnum \<Rightarrow> int" where
  "js_sign (Num x) = (if 0 < x then 1 else if x < 0 then - 1 else 0)"
| "js_sign PosInfinity = 1"
| "js_sign NegInfinity = - 1"
| "js_sign NaN = 0"

fun js_mul :: "jsnum \<Rightarrow> jsnum \<Rightarrow> jsnum" where
  "js_mul NaN b = NaN"
| "js_mul a NaN = NaN"
| "js_mul (Num x) (Num y) = binary64 (x * y)"
| "js_mul a b =
     (if js_sign a * js_sign b = 0 then NaN
      else if 0 < js_sign a * js_sign b then PosInfinity
      else NegInfinity)"

text \<open>
  A zero divisor is the positive zero (see above): a finite number divided by it is an
  infinity of the sign of the number, and zero divided by it is \<^verbatim>\<open>NaN\<close>.
\<close>

fun js_div :: "jsnum \<Rightarrow> jsnum \<Rightarrow> jsnum" where
  "js_div NaN b = NaN"
| "js_div a NaN = NaN"
| "js_div (Num x) (Num y) =
     (if y \<noteq> 0 then binary64 (x / y)
      else if 0 < x then PosInfinity
      else if x < 0 then NegInfinity
      else NaN)"
| "js_div (Num x) b = Num 0"
| "js_div PosInfinity (Num y) = (if y < 0 then NegInfinity else PosInfinity)"
| "js_div NegInfinity (Num y) = (if y < 0 then PosInfinity else NegInfinity)"
| "js_div a b = NaN"

text \<open>\<^verbatim>\<open>Math.sqrt\<close>, the correctly rounded square root.\<close>

fun Math_sqrt :: "jsnum \<Rightarrow> jsnum" where
  "Math_sqrt (Num x) = (if x < 0 then NaN else binary64 (sqrt x))"
| "Math_sqrt PosInfinity = PosInfinity"
| "Math_sqrt NegInfinity = NaN"
| "Math_sqrt NaN = NaN"

text \<open>The comparisons \<^verbatim>\<open><\<close>, \<^verbatim>\<open><=\<close> and \<^verbatim>\<open>>\<close>.\<close>

fun js_lt :: "jsnum \<Rightarrow> jsnum \<Rightarrow> bool" where
  "js_lt NaN b = False"
| "js_lt a NaN = False"
| "js_lt (Num x) (Num y) = (x < y)"
| "js_lt a NegInfinity = False"
| "js_lt PosInfinity b = False"
| "js_lt a b = True"

fun js_le :: "jsnum \<Rightarrow> jsnum \<Rightarrow> bool" where
  "js_le NaN b = False"
| "js_le a NaN = False"
| "js_le (Num x) (Num y) = (x \<le> y)"
| "js_le NegInfinity b = True"
| "js_le a PosInfinity = True"
| "js_le a b = False"

definition js_gt :: "jsnum \<Rightarrow> jsnum \<Rightarrow> bool" where
  "js_gt a b = js_lt b a"

text \<open>
  \<^verbatim>\<open>Math.round\<close>: the nearest integer, a tie going up; the result is exact. An infinity
  and \<^verbatim>\<open>NaN\<close> are returned as they are.
\<close>

fun Math_round :: "jsnum \<Rightarrow> jsnum" where
  "Math_round (Num x) = Num (of_int \<lfloor>x + 1 / 2\<rfloor>)"
| "Math_round a = a"

text \<open>
  \<^verbatim>\<open>Math.pow(10, precision)\<close>, for the two precisions the service uses (2 and 3): the
  exact power.
\<close>

definition Math_pow_10 :: "nat \<Rightarrow> jsnum" where
  "Math_pow_10 precision = Num (10 ^ precision)"

text \<open>
  \<^verbatim>\<open>Math.pow(x, 1.3)\<close>. The language fixes the result at the special bases: \<^verbatim>\<open>NaN\<close>
  for \<^verbatim>\<open>NaN\<close> and for a negative finite base (the exponent is not an integer), zero at
  zero, \<^verbatim>\<open>Infinity\<close> at both infinities. At a positive finite base the result is an
  approximation of the power that the language leaves to the engine: the function
  \<open>approx\<close>, a parameter.
\<close>

fun Math_pow_1_3 :: "(real \<Rightarrow> jsnum) \<Rightarrow> jsnum \<Rightarrow> jsnum" where
  "Math_pow_1_3 approx (Num x) =
     (if x < 0 then NaN else if x = 0 then Num 0 else approx x)"
| "Math_pow_1_3 approx PosInfinity = PosInfinity"
| "Math_pow_1_3 approx NegInfinity = PosInfinity"
| "Math_pow_1_3 approx NaN = NaN"

text \<open>
  The correctly rounded power, one function that \<open>approx\<close> can be, and the values of
  the language among the values of \<open>jsnum\<close>: a finite number is one that the rounding
  leaves as it is.
\<close>

definition pow_rounded :: "real \<Rightarrow> jsnum" where
  "pow_rounded x = binary64 (x powr 1.3)"

definition is_double :: "jsnum \<Rightarrow> bool" where
  "is_double a = (case a of Num x \<Rightarrow> binary64 x = Num x | _ \<Rightarrow> True)"

subsection \<open>Types\<close>

text \<open>
  Two field names carry a prime: \<open>id'\<close> of \<open>Room\<close> is the source's \<^verbatim>\<open>id\<close> and
  \<open>method'\<close> of \<open>CalculationResult\<close> is its \<^verbatim>\<open>method\<close>.
\<close>

record Room =
  id' :: string
  name :: string
  area :: jsnum
  volume :: jsnum
  ceilingHeight :: jsnum
  exteriorWalls :: jsnum
  windowArea :: jsnum
  doorCount :: jsnum
  targetTemp :: jsnum

record CalculationParams =
  outdoorTemp :: jsnum
  indoorTemp :: jsnum
  wallUValue :: jsnum
  windowUValue :: jsnum
  floorUValue :: jsnum
  ceilingUValue :: jsnum
  airChangeRate :: jsnum

record CalculationResult =
  transmissionLoss :: jsnum
  ventilationLoss :: jsnum
  totalHeatLoss :: jsnum
  designHeatLoad :: jsnum
  safetyFactor :: jsnum
  method' :: string
  calculationTimeMs :: int

text \<open>\<^verbatim>\<open>new Error(message)\<close>.\<close>

datatype error = Error (message: string)

text \<open>The element type of the array \<^verbatim>\<open>rooms\<close> in the building result.\<close>

record RoomEntry =
  roomId :: string
  result :: CalculationResult

text \<open>
  The building result. Its fields carry the suffix \<open>_bldg\<close>: the source calls one of
  them \<^verbatim>\<open>totalHeatLoss\<close>, the name of a field of \<open>CalculationResult\<close>.
\<close>

record BuildingResult =
  rooms_bldg :: "RoomEntry list"
  totalHeatLoss_bldg :: jsnum
  totalDesignLoad_bldg :: jsnum

record EmitterSizing =
  requiredOutput :: jsnum
  meanWaterTemp :: jsnum
  correction :: jsnum

subsection \<open>Constants\<close>

text \<open>A decimal literal is the binary64 value nearest to it.\<close>

definition AIR_DENSITY :: jsnum where "AIR_DENSITY = binary64 1.2"
definition SPECIFIC_HEAT_AIR :: jsnum where "SPECIFIC_HEAT_AIR = Num 1005"
definition SAFETY_FACTOR :: jsnum where "SAFETY_FACTOR = binary64 1.15"
definition MIN_OUTDOOR_TEMP :: jsnum where "MIN_OUTDOOR_TEMP = Num (- 20)"
definition MAX_OUTDOOR_TEMP :: jsnum where "MAX_OUTDOOR_TEMP = Num 15"
definition MIN_INDOOR_TEMP :: jsnum where "MIN_INDOOR_TEMP = Num 15"
definition MAX_INDOOR_TEMP :: jsnum where "MAX_INDOOR_TEMP = Num 25"

subsection \<open>The clock\<close>

record world =
  clock :: "nat \<Rightarrow> int"
  ticks :: nat

text \<open>\<^verbatim>\<open>Date.now()\<close>: the next reading of the clock.\<close>

definition Date_now :: "world \<Rightarrow> int \<times> world" where
  "Date_now w = (clock w (ticks w), w\<lparr>ticks := Suc (ticks w)\<rparr>)"

subsection \<open>Rounding\<close>

text \<open>
  \<^verbatim>\<open>round(value, precision = 2)\<close>; a call that leaves the precision out passes 2 here.
  The product and the quotient are binary64 operations.
\<close>

definition round_num :: "jsnum \<Rightarrow> nat \<Rightarrow> jsnum" where
  "round_num val precision =
     (let multiplier = Math_pow_10 precision
      in js_div (Math_round (js_mul val multiplier)) multiplier)"

subsection \<open>Validation\<close>

text \<open>
  \<^verbatim>\<open>validateInputs\<close> throws at the first check that fails and returns nothing otherwise.
  The template literals of four messages print a constant (\<^verbatim>\<open>-20\<close>, \<^verbatim>\<open>15\<close>, \<^verbatim>\<open>15\<close>,
  \<^verbatim>\<open>25\<close>); the degree sign and the superscript two are the code units 0xB0 and 0xB2.
\<close>

definition validateInputs :: "Room \<Rightarrow> CalculationParams \<Rightarrow> error + unit" where
  "validateInputs room params =
     (if js_le (area room) (Num 0) then Inl (Error ''Room area must be greater than 0'')
      else if js_le (volume room) (Num 0)
        then Inl (Error ''Room volume must be greater than 0'')
      else if js_le (ceilingHeight room) (Num 0)
        then Inl (Error ''Ceiling height must be greater than 0'')
      else if js_lt (outdoorTemp params) MIN_OUTDOOR_TEMP
        then Inl (Error (''Outdoor temperature too low (min: -20'' @ [CHR 0xB0] @ ''C)''))
      else if js_gt (outdoorTemp params) MAX_OUTDOOR_TEMP
        then Inl (Error (''Outdoor temperature too high (max: 15'' @ [CHR 0xB0] @ ''C)''))
      else if js_lt (indoorTemp params) MIN_INDOOR_TEMP
        then Inl (Error (''Indoor temperature too low (min: 15'' @ [CHR 0xB0] @ ''C)''))
      else if js_gt (indoorTemp params) MAX_INDOOR_TEMP
        then Inl (Error (''Indoor temperature too high (max: 25'' @ [CHR 0xB0] @ ''C)''))
      else if js_le (indoorTemp params) (outdoorTemp params)
        then Inl (Error ''Indoor temperature must be greater than outdoor temperature'')
      else if js_le (wallUValue params) (Num 0) \<or> js_gt (wallUValue params) (Num 10)
        then Inl (Error (''Invalid wall U-value (must be 0-10 W/m'' @ [CHR 0xB2] @ ''K)''))
      else if js_le (windowUValue params) (Num 0) \<or> js_gt (windowUValue params) (Num 10)
        then Inl (Error (''Invalid window U-value (must be 0-10 W/m'' @ [CHR 0xB2] @ ''K)''))
      else if js_le (floorUValue params) (Num 0) \<or> js_gt (floorUValue params) (Num 10)
        then Inl (Error (''Invalid floor U-value (must be 0-10 W/m'' @ [CHR 0xB2] @ ''K)''))
      else if js_le (ceilingUValue params) (Num 0) \<or> js_gt (ceilingUValue params) (Num 10)
        then Inl (Error (''Invalid ceiling U-value (must be 0-10 W/m'' @ [CHR 0xB2] @ ''K)''))
      else if js_lt (airChangeRate params) (Num 0) \<or> js_gt (airChangeRate params) (Num 10)
        then Inl (Error ''Invalid air change rate (must be 0-10 ACH)'')
      else Inr ())"

subsection \<open>The two losses\<close>

definition calculateTransmissionLoss :: "Room \<Rightarrow> CalculationParams \<Rightarrow> jsnum \<Rightarrow> jsnum" where
  "calculateTransmissionLoss room params tempDiff =
     (let floorArea = area room;
          ceilingArea = area room;
          roomPerimeter = js_mul (Num 4) (Math_sqrt floorArea);
          totalWallArea = js_mul roomPerimeter (ceilingHeight room);
          wallArea = js_sub totalWallArea (windowArea room);
          exteriorWallFactor = js_div (exteriorWalls room) (Num 4);
          effectiveWallArea = js_mul wallArea exteriorWallFactor;
          effectiveWindowArea = js_mul (windowArea room) exteriorWallFactor;
          wallLoss = js_mul (js_mul (wallUValue params) effectiveWallArea) tempDiff;
          windowLoss = js_mul (js_mul (windowUValue params) effectiveWindowArea) tempDiff;
          floorLoss =
            js_mul (js_mul (js_mul (floorUValue params) floorArea) tempDiff) (Num (1 / 2));
          ceilingLoss = js_mul (js_mul (ceilingUValue params) ceilingArea) tempDiff
      in js_add (js_add (js_add wallLoss windowLoss) floorLoss) ceilingLoss)"

definition calculateVentilationLoss :: "Room \<Rightarrow> CalculationParams \<Rightarrow> jsnum \<Rightarrow> jsnum" where
  "calculateVentilationLoss room params tempDiff =
     (let volumeFlowRate = js_mul (volume room) (airChangeRate params);
          volumeFlowRatePerSecond = js_div volumeFlowRate (Num 3600);
          massFlowRate = js_mul volumeFlowRatePerSecond AIR_DENSITY;
          ventilationLoss = js_mul (js_mul massFlowRate SPECIFIC_HEAT_AIR) tempDiff
      in ventilationLoss)"

subsection \<open>One room\<close>

text \<open>
  The body of the \<^verbatim>\<open>try\<close>; the \<^verbatim>\<open>catch\<close> logs the error and throws it again. The
  clock is read once before the validation and once more after the arithmetic.
\<close>

definition calculateRoomHeatLoss ::
  "Room \<Rightarrow> CalculationParams \<Rightarrow> world \<Rightarrow> (error + CalculationResult) \<times> world" where
  "calculateRoomHeatLoss room params w =
     (let (startTime, w1) = Date_now w
      in case validateInputs room params of
           Inl e \<Rightarrow> (Inl e, w1)
         | Inr _ \<Rightarrow>
             (let tempDiff = js_sub (indoorTemp params) (outdoorTemp params);
                  transmissionLoss = calculateTransmissionLoss room params tempDiff;
                  ventilationLoss = calculateVentilationLoss room params tempDiff;
                  totalHeatLoss = js_add transmissionLoss ventilationLoss;
                  designHeatLoad = js_mul totalHeatLoss SAFETY_FACTOR;
                  (endTime, w2) = Date_now w1;
                  calculationTimeMs = endTime - startTime
              in (Inr \<lparr>transmissionLoss = round_num transmissionLoss 2,
                        ventilationLoss = round_num ventilationLoss 2,
                        totalHeatLoss = round_num totalHeatLoss 2,
                        designHeatLoad = round_num designHeatLoad 2,
                        safetyFactor = SAFETY_FACTOR,
                        method' = ''EN_12831'',
                        calculationTimeMs = calculationTimeMs\<rparr>, w2)))"

subsection \<open>Radiator sizing\<close>

text \<open>
  The three temperatures have the defaults 75, 65 and 20: \<open>None\<close> is an argument left
  out. The second parameter is \<^verbatim>\<open>designHeatLoad\<close>, primed here to keep it apart from
  the field of that name; the first is the engine's \<^verbatim>\<open>Math.pow\<close> at a positive base.
  The body has no \<^verbatim>\<open>throw\<close>, so the result is always an \<open>Inr\<close>.
\<close>

definition calculateRadiatorSize ::
  "(real \<Rightarrow> jsnum) \<Rightarrow> jsnum \<Rightarrow> jsnum option \<Rightarrow> jsnum option \<Rightarrow> jsnum option \<Rightarrow>
     error + EmitterSizing" where
  "calculateRadiatorSize approx designHeatLoad' flowTempArg returnTempArg roomTempArg =
     (let flowTemp = (case flowTempArg of None \<Rightarrow> Num 75 | Some t \<Rightarrow> t);
          returnTemp = (case returnTempArg of None \<Rightarrow> Num 65 | Some t \<Rightarrow> t);
          roomTemp = (case roomTempArg of None \<Rightarrow> Num 20 | Some t \<Rightarrow> t);
          meanWaterTemp = js_div (js_add flowTemp returnTemp) (Num 2);
          tempDiff = js_sub meanWaterTemp roomTemp;
          standardTempDiff = Num 50;
          correction = Math_pow_1_3 approx (js_div tempDiff standardTempDiff);
          requiredOutput = js_div designHeatLoad' correction
      in Inr \<lparr>requiredOutput = round_num requiredOutput 2,
               meanWaterTemp = round_num meanWaterTemp 2,
               correction = round_num correction 3\<rparr>)"

subsection \<open>The building\<close>

text \<open>
  \<^verbatim>\<open>rooms.map(async (room) => ...)\<close>: every room is computed, in the order of the
  array, and each gives a promise that is fulfilled or rejected.
\<close>

fun map_rooms ::
  "Room list \<Rightarrow> CalculationParams \<Rightarrow> world \<Rightarrow> (error + RoomEntry) list \<times> world" where
  "map_rooms [] params w = ([], w)"
| "map_rooms (room # rest) params w =
     (let (r, w1) = calculateRoomHeatLoss room params w;
          (rs, w2) = map_rooms rest params w1
      in (map_sum (\<lambda>e. e) (\<lambda>res. \<lparr>roomId = id' room, result = res\<rparr>) r # rs, w2))"

text \<open>
  \<^verbatim>\<open>Promise.all\<close>: the values in order when every promise is fulfilled, and otherwise
  the error of the promise that is rejected first. The promises of \<open>map_rooms\<close> are all
  settled one step after they are made, in the order of the array, so that one is the
  first rejected promise of the list.
\<close>

fun Promise_all :: "(error + 'a) list \<Rightarrow> error + 'a list" where
  "Promise_all [] = Inr []"
| "Promise_all (Inl e # ps) = Inl e"
| "Promise_all (Inr v # ps) =
     (case Promise_all ps of Inl e \<Rightarrow> Inl e | Inr vs \<Rightarrow> Inr (v # vs))"

text \<open>The two \<^verbatim>\<open>reduce\<close> calls add from the left, starting at 0.\<close>

definition calculateBuildingHeatLoss ::
  "Room list \<Rightarrow> CalculationParams \<Rightarrow> world \<Rightarrow> (error + BuildingResult) \<times> world" where
  "calculateBuildingHeatLoss rooms params w =
     (let (promises, w1) = map_rooms rooms params w
      in case Promise_all promises of
           Inl e \<Rightarrow> (Inl e, w1)
         | Inr results \<Rightarrow>
             (let totalHeatLoss =
                    foldl (\<lambda>sum r. js_add sum (totalHeatLoss (result r))) (Num 0) results;
                  totalDesignLoad =
                    foldl (\<lambda>sum r. js_add sum (designHeatLoad (result r))) (Num 0) results
              in (Inr \<lparr>rooms_bldg = results,
                        totalHeatLoss_bldg = round_num totalHeatLoss 2,
                        totalDesignLoad_bldg = round_num totalDesignLoad 2\<rparr>, w1)))"

text \<open>
  Two notions for the statements about a building: a result without its measurement of
  the clock, and the two totals of a building when the call succeeds.
\<close>

definition timeless :: "CalculationResult \<Rightarrow> CalculationResult" where
  "timeless res = res\<lparr>calculationTimeMs := 0\<rparr>"

definition building_totals :: "Room list \<Rightarrow> CalculationParams \<Rightarrow> world \<Rightarrow> (jsnum \<times> jsnum) option" where
  "building_totals rooms params w =
     (case fst (calculateBuildingHeatLoss rooms params w) of
        Inl e \<Rightarrow> None
      | Inr agg \<Rightarrow> Some (totalHeatLoss_bldg agg, totalDesignLoad_bldg agg))"

text \<open>
  For the statement about monotonicity: the two effective areas, which are locals of
  \<^verbatim>\<open>calculateTransmissionLoss\<close>, and rooms and parameters whose numbers are finite
  values of the language.
\<close>

definition effectiveWallArea :: "Room \<Rightarrow> jsnum" where
  "effectiveWallArea room =
     js_mul
       (js_sub (js_mul (js_mul (Num 4) (Math_sqrt (area room))) (ceilingHeight room))
          (windowArea room))
       (js_div (exteriorWalls room) (Num 4))"

definition effectiveWindowArea :: "Room \<Rightarrow> jsnum" where
  "effectiveWindowArea room = js_mul (windowArea room) (js_div (exteriorWalls room) (Num 4))"

definition finite_number :: "jsnum \<Rightarrow> bool" where
  "finite_number a = (case a of Num x \<Rightarrow> binary64 x = Num x | _ \<Rightarrow> False)"

definition finite_room :: "Room \<Rightarrow> bool" where
  "finite_room room \<longleftrightarrow>
     finite_number (area room) \<and> finite_number (volume room) \<and>
     finite_number (ceilingHeight room) \<and> finite_number (exteriorWalls room) \<and>
     finite_number (windowArea room)"

definition finite_params :: "CalculationParams \<Rightarrow> bool" where
  "finite_params params \<longleftrightarrow>
     finite_number (outdoorTemp params) \<and> finite_number (indoorTemp params) \<and>
     finite_number (wallUValue params) \<and> finite_number (windowUValue params) \<and>
     finite_number (floorUValue params) \<and> finite_number (ceilingUValue params) \<and>
     finite_number (airChangeRate params)"

subsection \<open>Inputs of the examples\<close>

text \<open>
  The room and the parameters of the service's test, with the floor area 4 so that the
  square root is exact, a clock that advances by 3 at each reading, and the same room
  with the volume 2 and one exterior wall.
\<close>

definition room1 :: Room where
  "room1 = \<lparr>id' = ''room-1'', name = ''Living Room'', area = Num 4, volume = Num 10,
     ceilingHeight = Num (5 / 2), exteriorWalls = Num 2, windowArea = Num 4, doorCount = Num 1,
     targetTemp = Num 20\<rparr>"

definition params1 :: CalculationParams where
  "params1 = \<lparr>outdoorTemp = Num (- 3), indoorTemp = Num 20, wallUValue = binary64 0.3,
     windowUValue = binary64 1.4, floorUValue = Num (1 / 4), ceilingUValue = binary64 0.16,
     airChangeRate = Num (1 / 2)\<rparr>"

definition world0 :: world where
  "world0 = \<lparr>clock = (\<lambda>n. 1000 + 3 * int n), ticks = 0\<rparr>"

definition room2 :: Room where
  "room2 = room1\<lparr>volume := Num 2, exteriorWalls := Num 1\<rparr>"

text \<open>The room of the test with an area that is not a number.\<close>

definition room_nan :: Room where
  "room_nan = room1\<lparr>area := NaN\<rparr>"

text \<open>
  A room with no exterior wall and no window, and parameters one degree apart with no
  air change and all U-values 1: the unrounded total loss is one and a half times the
  floor area. \<open>room_small\<close> is the same room with a larger floor; the two areas are
  the squares of \<open>1 / 16\<close> and of \<open>307 / 1024\<close>.
\<close>

definition room_tiny :: Room where
  "room_tiny = \<lparr>id' = ''room-2'', name = ''Cupboard'', area = Num (1 / 256), volume = Num 1,
     ceilingHeight = Num 1, exteriorWalls = Num 0, windowArea = Num 0, doorCount = Num 1,
     targetTemp = Num 15\<rparr>"

definition room_small :: Room where
  "room_small = room_tiny\<lparr>area := Num (94249 / 1048576)\<rparr>"

definition params_tiny :: CalculationParams where
  "params_tiny = \<lparr>outdoorTemp = Num 14, indoorTemp = Num 15, wallUValue = Num 1,
     windowUValue = Num 1, floorUValue = Num 1, ceilingUValue = Num 1,
     airChangeRate = Num 0\<rparr>"

text \<open>
  Rooms like \<open>room_tiny\<close> with the floor areas \<open>2 ^ 54\<close> and 1: with \<open>params_tiny\<close>
  their total heat losses are \<open>3 * 2 ^ 53\<close>, where neighbouring binary64 values are 4
  apart, and 1.5.
\<close>

definition room_big :: Room where
  "room_big = room_tiny\<lparr>id' := ''room-3'', name := ''Hall'', area := Num 18014398509481984\<rparr>"

definition room_unit :: Room where
  "room_unit = room_tiny\<lparr>id' := ''room-4'', name := ''Store'', area := Num 1\<rparr>"

definition room_unit2 :: Room where
  "room_unit2 = room_unit\<lparr>id' := ''room-5'', name := ''Larder''\<rparr>"


text \<open>
  Variations of the parameters of the test: a higher wall U-value and air change rate;
  no air change, at two indoor temperatures; and the wall U-value that follows
  \<^verbatim>\<open>0.3\<close> in binary64.
\<close>

definition params2 :: CalculationParams where
  "params2 = params1\<lparr>wallUValue := Num (1 / 2), airChangeRate := Num 1\<rparr>"

definition params3 :: CalculationParams where
  "params3 = params1\<lparr>airChangeRate := Num 0\<rparr>"

definition params4 :: CalculationParams where
  "params4 = params3\<lparr>indoorTemp := Num 21\<rparr>"

definition params5 :: CalculationParams where
  "params5 = params1\<lparr>wallUValue := binary64 0.30000000000000004\<rparr>"

section \<open>Facts about binary64 rounding\<close>

lemma round_even_of_int [simp]: "round_even (of_int n) = n"
  by (simp add: round_even_def)

lemma round_even_lower: "of_int \<lfloor>m\<rfloor> \<le> (of_int (round_even m) :: real)"
  by (simp add: round_even_def Let_def)

lemma round_even_ge_floor: "\<lfloor>m\<rfloor> \<le> round_even m"
  by (simp add: round_even_def Let_def)

lemma round_even_le_floor1: "round_even m \<le> \<lfloor>m\<rfloor> + 1"
  by (simp add: round_even_def Let_def)

lemma round_even_mono:
  assumes "x \<le> y"
  shows "round_even x \<le> round_even y"
proof (cases "\<lfloor>x\<rfloor> = \<lfloor>y\<rfloor>")
  case True
  with assms have "x - of_int \<lfloor>x\<rfloor> \<le> y - of_int \<lfloor>y\<rfloor>" by simp
  with True show ?thesis by (auto simp add: round_even_def Let_def)
next
  case False
  with assms have "\<lfloor>x\<rfloor> < \<lfloor>y\<rfloor>" using floor_mono [of x y] by linarith
  then have "\<lfloor>x\<rfloor> + 1 \<le> \<lfloor>y\<rfloor>" by simp
  with round_even_le_floor1 [of x] round_even_ge_floor [of y] show ?thesis by linarith
qed

lemma round_even_uminus: "round_even (- x) = - round_even x"
proof (cases "x \<in> \<int>")
  case True
  then obtain n where "x = of_int n" by (auto elim: Ints_cases)
  then have "- x = of_int (- n)" by simp
  with \<open>x = of_int n\<close> show ?thesis by (simp only: round_even_of_int)
next
  case False
  then have "x \<noteq> of_int \<lfloor>x\<rfloor>" by (metis Ints_of_int)
  then have f: "\<lfloor>- x\<rfloor> = - \<lfloor>x\<rfloor> - 1"
    by (simp add: floor_minus ceiling_altdef)
  have d: "- x - of_int \<lfloor>- x\<rfloor> = 1 - (x - of_int \<lfloor>x\<rfloor>)"
    unfolding f by simp
  show ?thesis
    unfolding round_even_def Let_def d unfolding f
    by (auto simp add: algebra_simps)
qed


lemma expo_ge: "- 1022 \<le> expo x"
  by (simp add: expo_def)

lemma expo_uminus [simp]: "expo (- x) = expo x"
  by (simp add: expo_def)

lemma ulp_uminus [simp]: "ulp (- x) = ulp x"
  by (simp add: ulp_def)

lemma ulp_pos [simp]: "0 < ulp x"
  by (simp add: ulp_def)

lemma nearest_uminus: "nearest (- x) = - nearest x"
  by (simp add: nearest_def round_even_uminus)

lemma round_even_0 [simp]: "round_even 0 = 0"
  using round_even_of_int [of 0] by simp

lemma ulp_nonneg [simp]: "0 \<le> ulp x"
  by (simp add: ulp_def)

lemma nearest_0 [simp]: "nearest 0 = 0"
  by (simp add: nearest_def)

lemma abs_less_expo:
  assumes "x \<noteq> 0"
  shows "\<bar>x\<bar> < 2 powr of_int (expo x + 1)"
proof -
  have "log 2 \<bar>x\<bar> < of_int (\<lfloor>log 2 \<bar>x\<bar>\<rfloor> + 1)" by linarith
  also have "\<dots> \<le> of_int (expo x + 1)" using assms by (simp add: expo_def)
  finally have "2 powr log 2 \<bar>x\<bar> < 2 powr of_int (expo x + 1)"
    by (simp only: powr_less_cancel_iff) 
  with assms show ?thesis by simp
qed

lemma expo_le_abs:
  assumes "x \<noteq> 0" and "- 1022 < expo x"
  shows "2 powr of_int (expo x) \<le> \<bar>x\<bar>"
proof -
  from assms have "expo x = \<lfloor>log 2 \<bar>x\<bar>\<rfloor>" by (simp add: expo_def max_def split: if_splits)
  then have "of_int (expo x) \<le> log 2 \<bar>x\<bar>" by simp
  then have "2 powr of_int (expo x) \<le> 2 powr log 2 \<bar>x\<bar>"
    by (simp only: powr_le_cancel_iff)
  with assms(1) show ?thesis by simp
qed

lemma expo_mono:
  assumes "x \<noteq> 0" and "\<bar>x\<bar> \<le> \<bar>y\<bar>"
  shows "expo x \<le> expo y"
proof -
  from assms have "log 2 \<bar>x\<bar> \<le> log 2 \<bar>y\<bar>" by simp
  then have "\<lfloor>log 2 \<bar>x\<bar>\<rfloor> \<le> \<lfloor>log 2 \<bar>y\<bar>\<rfloor>" by (rule floor_mono)
  moreover from assms have "y \<noteq> 0" by auto
  ultimately show ?thesis using assms(1) by (simp add: expo_def)
qed

lemma ulp_scale: "(2::real) powr of_int (expo x + 1) = 2 ^ 53 * ulp x"
proof -
  have "(of_int (expo x + 1) :: real) = 53 + of_int (expo x - 52)" by simp
  then have "(2::real) powr of_int (expo x + 1) = 2 powr (53 + of_int (expo x - 52))"
    by (simp only:)
  also have "\<dots> = 2 powr 53 * 2 powr of_int (expo x - 52)" by (rule powr_add)
  finally show ?thesis by (simp add: ulp_def)
qed

lemma ulp_scale': "(2::real) powr of_int (expo x) = 2 ^ 52 * ulp x"
proof -
  have "(of_int (expo x) :: real) = 52 + of_int (expo x - 52)" by simp
  then have "(2::real) powr of_int (expo x) = 2 powr (52 + of_int (expo x - 52))"
    by (simp only:)
  also have "\<dots> = 2 powr 52 * 2 powr of_int (expo x - 52)" by (rule powr_add)
  finally show ?thesis by (simp add: ulp_def)
qed

lemma nearest_upper:
  assumes "0 < x"
  shows "nearest x \<le> 2 powr of_int (expo x + 1)"
proof -
  from assms abs_less_expo [of x] have "x < 2 ^ 53 * ulp x"
    unfolding ulp_scale by simp
  then have "x / ulp x \<le> of_int (2 ^ 53)" by (simp add: pos_divide_le_eq)
  then have "round_even (x / ulp x) \<le> round_even (of_int (2 ^ 53))" by (rule round_even_mono)
  then have "round_even (x / ulp x) \<le> 2 ^ 53" by (simp only: round_even_of_int)
  then have "(of_int (round_even (x / ulp x)) :: real) \<le> of_int (2 ^ 53)"
    by (simp only: of_int_le_iff)
  then have "of_int (round_even (x / ulp x)) * ulp x \<le> of_int (2 ^ 53) * ulp x"
    by (rule mult_right_mono) simp
  then show ?thesis unfolding nearest_def ulp_scale by simp
qed

lemma nearest_lower:
  assumes "0 < x" and "- 1022 < expo x"
  shows "2 powr of_int (expo x) \<le> nearest x"
proof -
  from assms expo_le_abs [of x] have "2 ^ 52 * ulp x \<le> x"
    unfolding ulp_scale' by simp
  then have "of_int (2 ^ 52) \<le> x / ulp x" by (simp add: pos_le_divide_eq)
  then have "round_even (of_int (2 ^ 52)) \<le> round_even (x / ulp x)" by (rule round_even_mono)
  then have "2 ^ 52 \<le> round_even (x / ulp x)" by (simp only: round_even_of_int)
  then have "(of_int (2 ^ 52) :: real) \<le> of_int (round_even (x / ulp x))"
    by (simp only: of_int_le_iff)
  then have "of_int (2 ^ 52) * ulp x \<le> of_int (round_even (x / ulp x)) * ulp x"
    by (rule mult_right_mono) simp
  then show ?thesis unfolding nearest_def ulp_scale' by simp
qed

lemma nearest_nonneg:
  assumes "0 \<le> x"
  shows "0 \<le> nearest x"
proof -
  from assms have "of_int 0 \<le> x / ulp x" by simp
  then have "round_even (of_int 0) \<le> round_even (x / ulp x)" by (rule round_even_mono)
  then have "0 \<le> round_even (x / ulp x)" by (simp only: round_even_of_int)
  then show ?thesis by (simp add: nearest_def)
qed

lemma nearest_mono_pos:
  assumes "0 < x" and "x \<le> y"
  shows "nearest x \<le> nearest y"
proof (cases "expo x = expo y")
  case True
  then have u: "ulp y = ulp x" by (simp add: ulp_def)
  from assms(2) have "x / ulp x \<le> y / ulp x" by (rule divide_right_mono) simp
  then have "round_even (x / ulp x) \<le> round_even (y / ulp x)" by (rule round_even_mono)
  then have "(of_int (round_even (x / ulp x)) :: real) \<le> of_int (round_even (y / ulp x))"
    by (simp only: of_int_le_iff)
  then show ?thesis by (simp add: nearest_def u)
next
  case False
  from assms have "expo x \<le> expo y" by (intro expo_mono) auto
  with False have l: "expo x + 1 \<le> expo y" by simp
  then have "- 1022 < expo y" using expo_ge [of x] by linarith
  with assms have "2 powr of_int (expo y) \<le> nearest y" by (intro nearest_lower) auto
  moreover from l have "2 powr of_int (expo x + 1) \<le> (2::real) powr of_int (expo y)"
    by (simp only: powr_le_cancel_iff of_int_le_iff)
  moreover from assms(1) have "nearest x \<le> 2 powr of_int (expo x + 1)" by (rule nearest_upper)
  ultimately show ?thesis by linarith
qed

lemma nearest_mono:
  assumes "x \<le> y"
  shows "nearest x \<le> nearest y"
proof -
  consider "0 < x" | "x \<le> 0" "0 \<le> y" | "y < 0" by linarith
  then show ?thesis
  proof cases
    case 1
    then show ?thesis using assms by (rule nearest_mono_pos)
  next
    case 2
    then have "0 \<le> nearest (- x)" "0 \<le> nearest y" by (simp_all add: nearest_nonneg)
    then show ?thesis by (simp add: nearest_uminus)
  next
    case 3
    with assms have "0 < - y" "- y \<le> - x" by simp_all
    then have "nearest (- y) \<le> nearest (- x)" by (rule nearest_mono_pos)
    then show ?thesis by (simp add: nearest_uminus)
  qed
qed


lemma expo_eqI:
  assumes "2 powr of_int e \<le> \<bar>x\<bar>" and "\<bar>x\<bar> < 2 powr of_int (e + 1)" and "- 1022 \<le> e"
  shows "expo x = e"
proof -
  from assms(1) have p: "0 < \<bar>x\<bar>"
    using powr_gt_zero [of 2 "of_int e"] by linarith
  have "\<lfloor>log 2 \<bar>x\<bar>\<rfloor> = e"
    using assms(1,2) floor_log_eq_powr_iff [of "\<bar>x\<bar>" 2 e] p by simp
  with assms(3) p show ?thesis by (simp add: expo_def)
qed

lemma expo_subnormal:
  assumes "\<bar>x\<bar> < 2 powr (- 1022)"
  shows "expo x = - 1022"
proof (cases "x = 0")
  case True
  then show ?thesis by (simp add: expo_def)
next
  case False
  then have "log 2 \<bar>x\<bar> < log 2 (2 powr (- 1022))" using assms by (intro log_less) auto
  then have "log 2 \<bar>x\<bar> < - 1022" by simp
  then have "\<lfloor>log 2 \<bar>x\<bar>\<rfloor> < - 1022" by linarith
  with False show ?thesis by (simp add: expo_def)
qed

lemma nearest_exact:
  assumes x: "x = of_int m * 2 powr of_int j" and m: "\<bar>m\<bar> < 2 ^ 53" and j: "- 1074 \<le> j"
  shows "nearest x = x"
proof (cases "m = 0")
  case True
  with x show ?thesis by simp
next
  case False
  with x have nz: "x \<noteq> 0" by simp
  have ax: "\<bar>x\<bar> = of_int \<bar>m\<bar> * 2 powr of_int j" unfolding x by (simp add: abs_mult)
  have k: "expo x - 52 \<le> j"
  proof (rule ccontr)
    assume "\<not> expo x - 52 \<le> j"
    then have l: "j + 53 \<le> expo x" by simp
    with j have "- 1022 < expo x" by simp
    with nz have "2 powr of_int (expo x) \<le> \<bar>x\<bar>" by (rule expo_le_abs)
    moreover from l have "(2::real) powr of_int (j + 53) \<le> 2 powr of_int (expo x)"
      by (simp only: powr_le_cancel_iff of_int_le_iff)
    moreover have "\<bar>x\<bar> < 2 powr of_int (j + 53)"
    proof -
      from m have "(of_int \<bar>m\<bar> :: real) < of_int (2 ^ 53)" by (simp only: of_int_less_iff)
      then have "of_int \<bar>m\<bar> * 2 powr of_int j < of_int (2 ^ 53) * (2::real) powr of_int j"
        by (rule mult_strict_right_mono) simp
      also have "\<dots> = 2 powr 53 * 2 powr of_int j" by simp
      also have "\<dots> = 2 powr (53 + of_int j)" by (rule powr_add [symmetric])
      also have "\<dots> = 2 powr of_int (j + 53)" by (simp add: add.commute)
      finally show ?thesis unfolding ax .
    qed
    ultimately show False by linarith
  qed
  define d where "d = nat (j - (expo x - 52))"
  define u where "u = ulp x"
  have up: "0 < u" by (simp add: u_def)
  from k have jd: "of_int j = of_int (expo x - 52) + (real d)" by (simp add: d_def)
  have p: "2 powr of_int j = u * 2 ^ d"
    unfolding jd u_def ulp_def by (simp add: powr_add powr_realpow)
  have q: "x = of_int (m * 2 ^ d) * u"
    by (simp only: x p) simp
  with up have "x / u = of_int (m * 2 ^ d)" by simp
  then have "of_int (round_even (x / u)) * u = x"
    using q by (simp only: round_even_of_int)
  then show ?thesis by (simp add: nearest_def u_def)
qed

lemma round_even_abs_le:
  assumes "\<bar>x\<bar> \<le> of_int n"
  shows "\<bar>round_even x\<bar> \<le> n"
proof -
  from assms have "x \<le> of_int n" "of_int (- n) \<le> x" by simp_all
  then have "round_even x \<le> round_even (of_int n)" "round_even (of_int (- n)) \<le> round_even x"
    by (simp_all only: round_even_mono)
  then show ?thesis by (simp only: round_even_of_int abs_le_iff) simp
qed

lemma nearest_nearest: "nearest (nearest x) = nearest x"
proof (cases "x = 0")
  case True
  then show ?thesis by simp
next
  case False
  define N where "N = round_even (x / ulp x)"
  have n: "nearest x = of_int N * 2 powr of_int (expo x - 52)"
    by (simp add: nearest_def N_def ulp_def)
  from False have "\<bar>x\<bar> < 2 powr of_int (expo x + 1)" by (rule abs_less_expo)
  then have "\<bar>x\<bar> < 2 ^ 53 * ulp x" unfolding ulp_scale .
  then have "\<bar>x / ulp x\<bar> \<le> of_int (2 ^ 53)" by (simp add: pos_divide_le_eq)
  then have b: "\<bar>N\<bar> \<le> 2 ^ 53" unfolding N_def by (rule round_even_abs_le)
  show ?thesis
  proof (cases "\<bar>N\<bar> = 2 ^ 53")
    case False
    with b have "\<bar>N\<bar> < 2 ^ 53" by simp
    moreover have "- 1074 \<le> expo x - 52" using expo_ge [of x] by simp
    ultimately show ?thesis using n by (intro nearest_exact)
  next
    case True
    define M where "M = N div 2"
    from True have "N = 2 ^ 53 \<or> N = - (2 ^ 53)" by (simp add: abs_if split: if_splits)
    then have N: "N = 2 * M" "\<bar>M\<bar> < 2 ^ 53" unfolding M_def by auto
    have "(of_int (expo x - 52 + 1) :: real) = 1 + of_int (expo x - 52)" by simp
    then have "(2::real) powr of_int (expo x - 52 + 1) = 2 powr (1 + of_int (expo x - 52))"
      by (simp only:)
    also have "\<dots> = 2 powr 1 * 2 powr of_int (expo x - 52)" by (rule powr_add)
    also have "\<dots> = 2 * 2 powr of_int (expo x - 52)" by simp
    finally have "nearest x = of_int M * 2 powr of_int (expo x - 52 + 1)"
      unfolding n N by simp
    moreover have "- 1074 \<le> expo x - 52 + 1" using expo_ge [of x] by simp
    ultimately show ?thesis using N(2) by (intro nearest_exact)
  qed
qed


lemma two_powr_nat: "(2::real) powr of_int (int k) = 2 ^ k"
  by (simp add: powr_realpow)

lemma two_powr_neg: "(2::real) powr of_int (- int k) = 1 / 2 ^ k"
  by (simp add: powr_minus powr_realpow inverse_eq_divide)

lemma two_powr_Suc: "(2::real) powr of_int (e + 1) = 2 * 2 powr of_int e"
proof -
  have "(of_int (e + 1) :: real) = 1 + of_int e" by simp
  then have "(2::real) powr of_int (e + 1) = 2 powr (1 + of_int e)" by (simp only:)
  also have "\<dots> = 2 powr 1 * 2 powr of_int e" by (rule powr_add)
  finally show ?thesis by simp
qed

lemma nearest_of_int:
  assumes "\<bar>n\<bar> < 2 ^ 53"
  shows "nearest (of_int n) = of_int n"
  using assms by (intro nearest_exact [where m = n and j = 0]) simp_all

lemma nearest_dyadic:
  assumes "\<bar>n\<bar> < 2 ^ 53" and "k \<le> 1074"
  shows "nearest (of_int n / 2 ^ k) = of_int n / 2 ^ k"
proof (rule nearest_exact [where m = n and j = "- int k"])
  show "(of_int n / 2 ^ k :: real) = of_int n * 2 powr of_int (- int k)"
    unfolding two_powr_neg by simp
  from assms show "\<bar>n\<bar> < 2 ^ 53" "- 1074 \<le> - int k" by simp_all
qed

lemma nearest_int_shift:
  assumes "\<bar>n\<bar> < 2 ^ 53"
  shows "nearest (of_int n * 2 ^ k) = of_int n * 2 ^ k"
proof (rule nearest_exact [where m = n and j = "int k"])
  show "(of_int n * 2 ^ k :: real) = of_int n * 2 powr of_int (int k)"
    unfolding two_powr_nat by simp
  from assms show "\<bar>n\<bar> < 2 ^ 53" "- 1074 \<le> int k" by simp_all
qed

lemma expo_nat:
  assumes "2 ^ n \<le> \<bar>x\<bar>" and "\<bar>x\<bar> < 2 ^ Suc n"
  shows "expo x = int n"
proof (rule expo_eqI)
  from assms(1) show "2 powr of_int (int n) \<le> \<bar>x\<bar>" unfolding two_powr_nat .
  from assms(2) show "\<bar>x\<bar> < 2 powr of_int (int n + 1)"
    unfolding two_powr_Suc two_powr_nat by simp
  show "- 1022 \<le> int n" by simp
qed

lemma nearest_binade_small:
  assumes "2 ^ n \<le> \<bar>x\<bar>" and "\<bar>x\<bar> < 2 ^ Suc n" and "n \<le> 52"
  shows "nearest x = of_int (round_even (x * 2 ^ (52 - n))) / 2 ^ (52 - n)"
proof -
  from assms(1,2) have "expo x = int n" by (rule expo_nat)
  then have "expo x - 52 = - int (52 - n)" using assms(3) by simp
  then have "ulp x = 1 / 2 ^ (52 - n)" unfolding ulp_def by (simp only: two_powr_neg)
  then show ?thesis by (simp add: nearest_def)
qed

lemma nearest_binade_large:
  assumes "2 ^ n \<le> \<bar>x\<bar>" and "\<bar>x\<bar> < 2 ^ Suc n" and "52 \<le> n"
  shows "nearest x = of_int (round_even (x / 2 ^ (n - 52))) * 2 ^ (n - 52)"
proof -
  from assms(1,2) have "expo x = int n" by (rule expo_nat)
  then have "expo x - 52 = int (n - 52)" using assms(3) by simp
  then have "ulp x = 2 ^ (n - 52)" unfolding ulp_def by (simp only: two_powr_nat)
  then show ?thesis by (simp add: nearest_def)
qed

lemma nearest_binade_frac:
  assumes "1 \<le> \<bar>x\<bar> * 2 ^ n" and "\<bar>x\<bar> * 2 ^ n < 2" and "n \<le> 1022"
  shows "nearest x = of_int (round_even (x * 2 ^ (52 + n))) / 2 ^ (52 + n)"
proof -
  have "expo x = - int n"
  proof (rule expo_eqI)
    from assms(1) show "2 powr of_int (- int n) \<le> \<bar>x\<bar>"
      unfolding two_powr_neg by (simp add: field_simps)
    from assms(2) show "\<bar>x\<bar> < 2 powr of_int (- int n + 1)"
      unfolding two_powr_Suc two_powr_neg by (simp add: field_simps)
    from assms(3) show "- 1022 \<le> - int n" by simp
  qed
  then have "expo x - 52 = - int (52 + n)" by simp
  then have "ulp x = 1 / 2 ^ (52 + n)" unfolding ulp_def by (simp only: two_powr_neg)
  then show ?thesis by (simp add: nearest_def)
qed

lemma binary64_Num:
  assumes "nearest x = y" and "\<bar>y\<bar> < 2 ^ 1024"
  shows "binary64 x = Num y"
  using assms by (auto simp add: binary64_def Let_def)


lemma binary64_0: "binary64 0 = Num 0"
  by (simp add: binary64_def)

lemma binary64_small:
  assumes "2 ^ n \<le> \<bar>x\<bar>" and "\<bar>x\<bar> < 2 ^ Suc n" and "n \<le> 52"
    and "of_int (round_even (x * 2 ^ (52 - n))) / 2 ^ (52 - n) = y" and "\<bar>y\<bar> < 2 ^ 1024"
  shows "binary64 x = Num y"
  using assms(4,5) nearest_binade_small [OF assms(1-3)] by (intro binary64_Num) simp_all

lemma binary64_large:
  assumes "2 ^ n \<le> \<bar>x\<bar>" and "\<bar>x\<bar> < 2 ^ Suc n" and "52 \<le> n"
    and "of_int (round_even (x / 2 ^ (n - 52))) * 2 ^ (n - 52) = y" and "\<bar>y\<bar> < 2 ^ 1024"
  shows "binary64 x = Num y"
  using assms(4,5) nearest_binade_large [OF assms(1-3)] by (intro binary64_Num) simp_all

lemma binary64_frac:
  assumes "1 \<le> \<bar>x\<bar> * 2 ^ n" and "\<bar>x\<bar> * 2 ^ n < 2" and "n \<le> 1022"
    and "of_int (round_even (x * 2 ^ (52 + n))) / 2 ^ (52 + n) = y" and "\<bar>y\<bar> < 2 ^ 1024"
  shows "binary64 x = Num y"
  using assms(4,5) nearest_binade_frac [OF assms(1-3)] by (intro binary64_Num) simp_all

lemma js_div_Num: "y \<noteq> 0 \<Longrightarrow> js_div (Num x) (Num y) = binary64 (x / y)"
  by simp

lemma js_div_eval: "y \<noteq> 0 \<Longrightarrow> binary64 (x / y) = z \<Longrightarrow> js_div (Num x) (Num y) = z"
  by simp

lemma nearest_sqrt_exact:
  assumes "0 \<le> r" and "nearest r = r"
  shows "nearest (sqrt (r * r)) = r"
  using assms by simp

lemma Math_sqrt_square:
  assumes "0 \<le> r" and "binary64 r = Num r"
  shows "Math_sqrt (Num (r * r)) = Num r"
  using assms by simp

section \<open>The order of the numbers and the operations\<close>

lemma binary64_not_NaN [simp]: "binary64 x \<noteq> NaN"
  by (simp add: binary64_def Let_def)

lemma binary64_eq_Num: "binary64 x = Num y \<Longrightarrow> y = nearest x"
  by (simp add: binary64_def Let_def split: if_splits)

lemma js_le_refl: "a \<noteq> NaN \<Longrightarrow> js_le a a"
  by (cases a) simp_all

lemma js_le_trans: "js_le a b \<Longrightarrow> js_le b c \<Longrightarrow> js_le a c"
  by (cases a; cases b; cases c) simp_all

lemma js_le_PosInfinity: "a \<noteq> NaN \<Longrightarrow> js_le a PosInfinity"
  by (cases a) simp_all

lemma js_le_not_NaN: "js_le a b \<Longrightarrow> a \<noteq> NaN \<and> b \<noteq> NaN"
  by (cases a; cases b) simp_all

lemma nonneg_cases:
  assumes "js_le (Num 0) a"
  obtains x where "a = Num x" and "0 \<le> x" | "a = PosInfinity"
  using assms by (cases a) simp_all

lemma binary64_mono:
  assumes "x \<le> y"
  shows "js_le (binary64 x) (binary64 y)"
  using nearest_mono [OF assms] by (simp add: binary64_def Let_def)

lemma binary64_nonneg: "0 \<le> x \<Longrightarrow> js_le (Num 0) (binary64 x)"
  using binary64_mono [of 0 x] by (simp add: binary64_0)

lemma js_mul_commute: "js_mul a b = js_mul b a"
  by (cases a; cases b) (simp_all add: mult.commute)

lemma js_mul_nonneg:
  assumes "js_le (Num 0) a" and "0 < y"
  shows "js_le (Num 0) (js_mul a (Num y))"
  using assms(1)
proof (cases rule: nonneg_cases)
  case (1 x)
  with assms(2) show ?thesis by (simp add: binary64_nonneg)
next
  case 2
  with assms(2) show ?thesis by simp
qed

lemma js_mul_mono:
  assumes "js_le (Num 0) a" and "js_le a a'" and "0 < y" and "y \<le> y'"
  shows "js_le (js_mul a (Num y)) (js_mul a' (Num y'))"
proof -
  from assms(1,2) have "js_le (Num 0) a'" by (rule js_le_trans)
  then show ?thesis
  proof (cases rule: nonneg_cases)
    case (1 x')
    with assms(1,2) obtain x where a: "a = Num x" "0 \<le> x" "x \<le> x'"
      by (cases a) simp_all
    with assms(3,4) have "x * y \<le> x' * y'" by (simp add: mult_mono)
    with a 1 show ?thesis by (simp add: binary64_mono)
  next
    case 2
    from assms(1,3) have "js_le (Num 0) (js_mul a (Num y))" by (rule js_mul_nonneg)
    then have "js_mul a (Num y) \<noteq> NaN" by (auto dest: js_le_not_NaN)
    with 2 assms(3,4) show ?thesis by (simp add: js_le_PosInfinity)
  qed
qed

lemma js_div_nonneg:
  assumes "js_le (Num 0) a" and "0 < y"
  shows "js_le (Num 0) (js_div a (Num y))"
  using assms(1)
proof (cases rule: nonneg_cases)
  case (1 x)
  with assms(2) show ?thesis by (simp add: binary64_nonneg)
next
  case 2
  with assms(2) show ?thesis by simp
qed

lemma js_div_mono:
  assumes "js_le (Num 0) a" and "js_le a a'" and "0 < y"
  shows "js_le (js_div a (Num y)) (js_div a' (Num y))"
proof -
  from assms(1,2) have "js_le (Num 0) a'" by (rule js_le_trans)
  then show ?thesis
  proof (cases rule: nonneg_cases)
    case (1 x')
    with assms(1,2) obtain x where a: "a = Num x" "0 \<le> x" "x \<le> x'"
      by (cases a) simp_all
    with assms(3) have "x / y \<le> x' / y" by (simp add: divide_right_mono)
    with a 1 assms(3) show ?thesis by (simp add: binary64_mono)
  next
    case 2
    from assms(1,3) have "js_le (Num 0) (js_div a (Num y))" by (rule js_div_nonneg)
    then have "js_div a (Num y) \<noteq> NaN" by (auto dest: js_le_not_NaN)
    with 2 assms(3) show ?thesis by (simp add: js_le_PosInfinity)
  qed
qed

lemma js_add_nonneg:
  assumes "js_le (Num 0) a" and "js_le (Num 0) b"
  shows "js_le (Num 0) (js_add a b)"
  using assms by (cases a; cases b) (simp_all add: binary64_nonneg)

lemma js_add_mono:
  assumes "js_le (Num 0) a" and "js_le a a'" and "js_le (Num 0) b" and "js_le b b'"
  shows "js_le (js_add a b) (js_add a' b')"
proof -
  from assms have n: "js_le (Num 0) a'" "js_le (Num 0) b'" by (auto intro: js_le_trans)
  from assms(1,3) have "js_le (Num 0) (js_add a b)" by (rule js_add_nonneg)
  then have s: "js_add a b \<noteq> NaN" by (auto dest: js_le_not_NaN)
  show ?thesis
  proof (cases "\<exists>x' y'. a' = Num x' \<and> b' = Num y'")
    case True
    then obtain x' y' where 1: "a' = Num x'" "b' = Num y'" by blast
    with assms obtain x y where "a = Num x" "b = Num y" "x \<le> x'" "y \<le> y'"
      by (cases a; cases b) simp_all
    with 1 show ?thesis by (simp add: binary64_mono)
  next
    case False
    with n have "js_add a' b' = PosInfinity"
      by (cases a'; cases b') simp_all
    with s show ?thesis by (simp add: js_le_PosInfinity)
  qed
qed

lemma Math_round_nonneg: "js_le (Num 0) a \<Longrightarrow> js_le (Num 0) (Math_round a)"
  by (cases a) simp_all

lemma Math_round_mono: "js_le a a' \<Longrightarrow> js_le (Math_round a) (Math_round a')"
  by (cases a; cases a') (simp_all add: floor_mono)

lemma round_num_nonneg:
  assumes "js_le (Num 0) a"
  shows "js_le (Num 0) (round_num a p)"
  unfolding round_num_def Let_def Math_pow_10_def
  by (intro js_div_nonneg Math_round_nonneg js_mul_nonneg assms) simp_all

lemma round_num_mono:
  assumes "js_le (Num 0) a" and "js_le a a'"
  shows "js_le (round_num a p) (round_num a' p)"
  unfolding round_num_def Let_def Math_pow_10_def
  by (intro js_div_mono Math_round_mono Math_round_nonneg js_mul_mono js_mul_nonneg assms)
    simp_all

section \<open>The arithmetic of the examples, step by step\<close>

text \<open>
  Each fact is one binary64 operation of an example, evaluated in the binade of its
  exact result.
\<close>

lemma room2_1: "js_sub (Num 20) (Num (- 3)) = Num 23"
  by (simp only: js_sub_def js_neg.simps js_add.simps, rule binary64_small [where n = 4]) (simp_all add: round_even_def)

lemma room2_2: "Math_sqrt (Num 4) = Num 2"
  proof -
  have "binary64 (2) = Num 2"
    by (rule binary64_small [where n = 1]) (simp_all add: round_even_def)
  from Math_sqrt_square [OF _ this] show ?thesis by simp
qed

lemma room2_3: "js_mul (Num 4) (Num 2) = Num 8"
  by (simp only: js_mul.simps, rule binary64_small [where n = 3]) (simp_all add: round_even_def)

lemma room2_4: "js_mul (Num 8) (Num (5 / 2)) = Num 20"
  by (simp only: js_mul.simps, rule binary64_small [where n = 4]) (simp_all add: round_even_def)

lemma room2_5: "js_sub (Num 20) (Num 4) = Num 16"
  by (simp only: js_sub_def js_neg.simps js_add.simps, rule binary64_small [where n = 4]) (simp_all add: round_even_def)

lemma room2_6: "js_div (Num 1) (Num 4) = Num (1 / 4)"
  by (rule js_div_eval, simp, rule binary64_frac [where n = 2]) (simp_all add: round_even_def)

lemma room2_7: "js_mul (Num 16) (Num (1 / 4)) = Num 4"
  by (simp only: js_mul.simps, rule binary64_small [where n = 2]) (simp_all add: round_even_def)

lemma room2_8: "js_mul (Num 4) (Num (1 / 4)) = Num 1"
  by (simp only: js_mul.simps, rule binary64_small [where n = 0]) (simp_all add: round_even_def)

lemma room2_9: "js_mul (Num (5404319552844595 / 18014398509481984)) (Num 4) = Num (5404319552844595 / 4503599627370496)"
  by (simp only: js_mul.simps, rule binary64_small [where n = 0]) (simp_all add: round_even_def)

lemma room2_10: "js_mul (Num (5404319552844595 / 4503599627370496)) (Num 23) = Num (7768709357214105 / 281474976710656)"
  by (simp only: js_mul.simps, rule binary64_small [where n = 4]) (simp_all add: round_even_def)

lemma room2_11: "js_mul (Num (3152519739159347 / 2251799813685248)) (Num 1) = Num (3152519739159347 / 2251799813685248)"
  by (simp only: js_mul.simps, rule binary64_small [where n = 0]) (simp_all add: round_even_def)

lemma room2_12: "js_mul (Num (3152519739159347 / 2251799813685248)) (Num 23) = Num (4531747125041561 / 140737488355328)"
  by (simp only: js_mul.simps, rule binary64_small [where n = 5]) (simp_all add: round_even_def)

lemma room2_13: "js_mul (Num (1 / 4)) (Num 4) = Num 1"
  by (simp only: js_mul.simps, rule binary64_small [where n = 0]) (simp_all add: round_even_def)

lemma room2_14: "js_mul (Num 1) (Num 23) = Num 23"
  by (simp only: js_mul.simps, rule binary64_small [where n = 4]) (simp_all add: round_even_def)

lemma room2_15: "js_mul (Num 23) (Num (1 / 2)) = Num (23 / 2)"
  by (simp only: js_mul.simps, rule binary64_small [where n = 3]) (simp_all add: round_even_def)

lemma room2_16: "js_mul (Num (5764607523034235 / 36028797018963968)) (Num 4) = Num (5764607523034235 / 9007199254740992)"
  by (simp only: js_mul.simps, rule binary64_frac [where n = 1]) (simp_all add: round_even_def)

lemma room2_17: "js_mul (Num (5764607523034235 / 9007199254740992)) (Num 23) = Num (8286623314361713 / 562949953421312)"
  by (simp only: js_mul.simps, rule binary64_small [where n = 3]) (simp_all add: round_even_def)

lemma room2_18: "js_add (Num (7768709357214105 / 281474976710656)) (Num (4531747125041561 / 140737488355328)) = Num (4208050901824307 / 70368744177664)"
  by (simp only: js_add.simps, rule binary64_small [where n = 5]) (simp_all add: round_even_def)

lemma room2_19: "js_add (Num (4208050901824307 / 70368744177664)) (Num (23 / 2)) = Num (5017291459867443 / 70368744177664)"
  by (simp only: js_add.simps, rule binary64_small [where n = 6]) (simp_all add: round_even_def)

lemma room2_20: "js_add (Num (5017291459867443 / 70368744177664)) (Num (8286623314361713 / 562949953421312)) = Num (6053119374162657 / 70368744177664)"
  by (simp only: js_add.simps, rule binary64_small [where n = 6]) (simp_all add: round_even_def)

lemma room2_21: "js_mul (Num 2) (Num (1 / 2)) = Num 1"
  by (simp only: js_mul.simps, rule binary64_small [where n = 0]) (simp_all add: round_even_def)

lemma room2_22: "js_div (Num 1) (Num 3600) = Num (5124095576030431 / 18446744073709551616)"
  by (rule js_div_eval, simp, rule binary64_frac [where n = 12]) (simp_all add: round_even_def)

lemma room2_23: "js_mul (Num (5124095576030431 / 18446744073709551616)) (Num (5404319552844595 / 4503599627370496)) = Num (6148914691236517 / 18446744073709551616)"
  by (simp only: js_mul.simps, rule binary64_frac [where n = 12]) (simp_all add: round_even_def)

lemma room2_24: "js_mul (Num (6148914691236517 / 18446744073709551616)) (Num 1005) = Num (377176468792279 / 1125899906842624)"
  by (simp only: js_mul.simps, rule binary64_frac [where n = 2]) (simp_all add: round_even_def)

lemma room2_25: "js_mul (Num (377176468792279 / 1125899906842624)) (Num 23) = Num (8675058782222417 / 1125899906842624)"
  by (simp only: js_mul.simps, rule binary64_small [where n = 2]) (simp_all add: round_even_def)

lemma room2_26: "js_add (Num (6053119374162657 / 70368744177664)) (Num (8675058782222417 / 1125899906842624)) = Num (3297655274025779 / 35184372088832)"
  by (simp only: js_add.simps, rule binary64_small [where n = 6]) (simp_all add: round_even_def)

lemma room2_27: "js_mul (Num (6053119374162657 / 70368744177664)) (Num 100) = Num 8602"
  by (simp only: js_mul.simps, rule binary64_small [where n = 13]) (simp_all add: round_even_def)

lemma room2_28: "Math_round (Num 8602) = Num 8602"
  by simp

lemma room2_29: "js_div (Num 8602) (Num 100) = binary64 86.02"
  by simp

lemma room2_30: "js_mul (Num (8675058782222417 / 1125899906842624)) (Num 100) = Num (6777389673611263 / 8796093022208)"
  by (simp only: js_mul.simps, rule binary64_small [where n = 9]) (simp_all add: round_even_def)

lemma room2_31: "Math_round (Num (6777389673611263 / 8796093022208)) = Num 770"
  by simp

lemma room2_32: "js_div (Num 770) (Num 100) = binary64 7.7"
  by simp

lemma room2_33: "js_mul (Num (3297655274025779 / 35184372088832)) (Num 100) = Num (18745 / 2)"
  by (simp only: js_mul.simps, rule binary64_small [where n = 13]) (simp_all add: round_even_def)

lemma room2_34: "Math_round (Num (18745 / 2)) = Num 9373"
  by simp

lemma room2_35: "js_div (Num 9373) (Num 100) = binary64 93.73"
  by simp

lemma room2_36: "js_mul (Num (3297655274025779 / 35184372088832)) (Num (2589569785738035 / 2251799813685248)) = Num (7584607130259291 / 70368744177664)"
  by (simp only: js_mul.simps, rule binary64_small [where n = 6]) (simp_all add: round_even_def)

lemma room2_37: "js_mul (Num (7584607130259291 / 70368744177664)) (Num 100) = Num (5925474320515071 / 549755813888)"
  by (simp only: js_mul.simps, rule binary64_small [where n = 13]) (simp_all add: round_even_def)

lemma room2_38: "Math_round (Num (5925474320515071 / 549755813888)) = Num 10778"
  by simp

lemma room2_39: "js_div (Num 10778) (Num 100) = binary64 107.78"
  by simp

lemma room2_40: "binary64 93.73 = Num (6595662391772447 / 70368744177664)"
  by (rule binary64_small [where n = 6]) (simp_all add: round_even_def)

lemma room2_41: "binary64 107.78 = Num (3792171623734313 / 35184372088832)"
  by (rule binary64_small [where n = 6]) (simp_all add: round_even_def)

lemmas room2_steps = room2_1 room2_2 room2_3 room2_4 room2_5 room2_6 room2_7 room2_8
  room2_9 room2_10 room2_11 room2_12 room2_13 room2_14 room2_15 room2_16 room2_17 room2_18
  room2_19 room2_20 room2_21 room2_22 room2_23 room2_24 room2_25 room2_26 room2_27
  room2_28 room2_29 room2_30 room2_31 room2_32 room2_33 room2_34 room2_35 room2_36
  room2_37 room2_38 room2_39 room2_40 room2_41

lemma room_nan_1: "js_sub (Num 20) (Num (- 3)) = Num 23"
  by (simp only: js_sub_def js_neg.simps js_add.simps, rule binary64_small [where n = 4]) (simp_all add: round_even_def)

lemma room_nan_2: "js_div (Num 2) (Num 4) = Num (1 / 2)"
  by (rule js_div_eval, simp, rule binary64_frac [where n = 1]) (simp_all add: round_even_def)

lemma room_nan_3: "js_mul (Num 4) (Num (1 / 2)) = Num 2"
  by (simp only: js_mul.simps, rule binary64_small [where n = 1]) (simp_all add: round_even_def)

lemma room_nan_4: "js_mul (Num (3152519739159347 / 2251799813685248)) (Num 2) = Num (3152519739159347 / 1125899906842624)"
  by (simp only: js_mul.simps, rule binary64_small [where n = 1]) (simp_all add: round_even_def)

lemma room_nan_5: "js_mul (Num (3152519739159347 / 1125899906842624)) (Num 23) = Num (4531747125041561 / 70368744177664)"
  by (simp only: js_mul.simps, rule binary64_small [where n = 6]) (simp_all add: round_even_def)

lemma room_nan_6: "js_mul (Num 10) (Num (1 / 2)) = Num 5"
  by (simp only: js_mul.simps, rule binary64_small [where n = 2]) (simp_all add: round_even_def)

lemma room_nan_7: "js_div (Num 5) (Num 3600) = Num (6405119470038039 / 4611686018427387904)"
  by (rule js_div_eval, simp, rule binary64_frac [where n = 10]) (simp_all add: round_even_def)

lemma room_nan_8: "js_mul (Num (6405119470038039 / 4611686018427387904)) (Num (5404319552844595 / 4503599627370496)) = Num (7686143364045647 / 4611686018427387904)"
  by (simp only: js_mul.simps, rule binary64_frac [where n = 10]) (simp_all add: round_even_def)

lemma room_nan_9: "js_mul (Num (7686143364045647 / 4611686018427387904)) (Num 1005) = Num (7543529375845581 / 4503599627370496)"
  by (simp only: js_mul.simps, rule binary64_small [where n = 0]) (simp_all add: round_even_def)

lemma room_nan_10: "js_mul (Num (7543529375845581 / 4503599627370496)) (Num 23) = Num (5421911738889011 / 140737488355328)"
  by (simp only: js_mul.simps, rule binary64_small [where n = 5]) (simp_all add: round_even_def)

lemma room_nan_11: "js_mul (Num (5421911738889011 / 140737488355328)) (Num 100) = Num (7705 / 2)"
  by (simp only: js_mul.simps, rule binary64_small [where n = 11]) (simp_all add: round_even_def)

lemma room_nan_12: "Math_round (Num (7705 / 2)) = Num 3853"
  by simp

lemma room_nan_13: "js_div (Num 3853) (Num 100) = binary64 38.53"
  by simp

lemmas room_nan_steps = room_nan_1 room_nan_2 room_nan_3 room_nan_4 room_nan_5 room_nan_6
  room_nan_7 room_nan_8 room_nan_9 room_nan_10 room_nan_11 room_nan_12 room_nan_13




































lemma rad_neg_1: "binary64 10.05 = Num (2828823515942093 / 281474976710656)"
  by (rule binary64_small [where n = 3]) (simp_all add: round_even_def)

lemma rad_neg_2: "js_add (Num (2828823515942093 / 281474976710656)) (Num 30) = Num (2818268204315443 / 70368744177664)"
  by (simp only: js_add.simps, rule binary64_small [where n = 5]) (simp_all add: round_even_def)

lemma rad_neg_3: "js_div (Num (2818268204315443 / 70368744177664)) (Num 2) = Num (2818268204315443 / 140737488355328)"
  by (rule js_div_eval, simp, rule binary64_small [where n = 4]) (simp_all add: round_even_def)

lemma rad_neg_4: "js_sub (Num (2818268204315443 / 140737488355328)) (Num 25) = Num (- (700169004567757 / 140737488355328))"
  by (simp only: js_sub_def js_neg.simps js_add.simps, rule binary64_small [where n = 2]) (simp_all add: round_even_def)

lemma rad_neg_5: "js_div (Num (- (700169004567757 / 140737488355328))) (Num 50) = Num (- (896216325846729 / 9007199254740992))"
  by (rule js_div_eval, simp, rule binary64_frac [where n = 4]) (simp_all add: round_even_def)

lemma rad_neg_6: "js_mul (Num (2818268204315443 / 140737488355328)) (Num 100) = Num (8807088138485759 / 4398046511104)"
  by (simp only: js_mul.simps, rule binary64_small [where n = 10]) (simp_all add: round_even_def)

lemma rad_neg_7: "Math_round (Num (8807088138485759 / 4398046511104)) = Num 2002"
  by simp

lemma rad_neg_8: "js_div (Num 2002) (Num 100) = binary64 20.02"
  by simp

lemmas rad_neg_steps = rad_neg_1 rad_neg_2 rad_neg_3 rad_neg_4 rad_neg_5 rad_neg_6
  rad_neg_7 rad_neg_8

lemma rad_zero_1: "binary64 0.1 = Num (3602879701896397 / 36028797018963968)"
  by (rule binary64_frac [where n = 4]) (simp_all add: round_even_def)

lemma rad_zero_2: "binary64 0.2 = Num (3602879701896397 / 18014398509481984)"
  by (rule binary64_frac [where n = 3]) (simp_all add: round_even_def)

lemma rad_zero_3: "binary64 0.15000000000000002 = Num (1351079888211149 / 9007199254740992)"
  by (rule binary64_frac [where n = 3]) (simp_all add: round_even_def)

lemma rad_zero_4: "js_add (Num (3602879701896397 / 36028797018963968)) (Num (3602879701896397 / 18014398509481984)) = Num (1351079888211149 / 4503599627370496)"
  by (simp only: js_add.simps, rule binary64_frac [where n = 2]) (simp_all add: round_even_def)

lemma rad_zero_5: "js_div (Num (1351079888211149 / 4503599627370496)) (Num 2) = Num (1351079888211149 / 9007199254740992)"
  by (rule js_div_eval, simp, rule binary64_frac [where n = 3]) (simp_all add: round_even_def)

lemma rad_zero_6: "js_sub (Num (1351079888211149 / 9007199254740992)) (Num (1351079888211149 / 9007199254740992)) = Num 0"
  by (simp add: js_sub_def binary64_0)

lemma rad_zero_7: "js_div (Num 0) (Num 50) = Num 0"
  by (rule js_div_eval, simp, simp add: binary64_0)

lemma rad_zero_8: "js_div (Num 2000) (Num 0) = PosInfinity"
  by simp

lemma rad_zero_9: "js_mul (PosInfinity) (Num 100) = PosInfinity"
  by simp

lemma rad_zero_10: "Math_round (PosInfinity) = PosInfinity"
  by simp

lemma rad_zero_11: "js_div (PosInfinity) (Num 100) = PosInfinity"
  by simp

lemma rad_zero_12: "js_mul (Num (1351079888211149 / 9007199254740992)) (Num 100) = Num (8444249301319681 / 562949953421312)"
  by (simp only: js_mul.simps, rule binary64_small [where n = 3]) (simp_all add: round_even_def)

lemma rad_zero_13: "Math_round (Num (8444249301319681 / 562949953421312)) = Num 15"
  by simp

lemma rad_zero_14: "js_div (Num 15) (Num 100) = binary64 0.15"
  by simp

lemma rad_zero_15: "js_mul (Num 0) (Num 1000) = Num 0"
  by (simp add: binary64_0)

lemma rad_zero_16: "Math_round (Num 0) = Num 0"
  by simp

lemma rad_zero_17: "js_div (Num 0) (Num 1000) = Num 0"
  by (rule js_div_eval, simp, simp add: binary64_0)

lemmas rad_zero_steps = rad_zero_1 rad_zero_2 rad_zero_3 rad_zero_4 rad_zero_5 rad_zero_6
  rad_zero_7 rad_zero_8 rad_zero_9 rad_zero_10 rad_zero_11 rad_zero_12 rad_zero_13
  rad_zero_14 rad_zero_15 rad_zero_16 rad_zero_17

lemma tiny_1: "js_sub (Num 15) (Num 14) = Num 1"
  by (simp only: js_sub_def js_neg.simps js_add.simps, rule binary64_small [where n = 0]) (simp_all add: round_even_def)

lemma tiny_2: "Math_sqrt (Num (1 / 256)) = Num (1 / 16)"
  proof -
  have "binary64 (1 / 16) = Num (1 / 16)"
    by (rule binary64_frac [where n = 4]) (simp_all add: round_even_def)
  from Math_sqrt_square [OF _ this] show ?thesis by simp
qed

lemma tiny_3: "js_mul (Num 4) (Num (1 / 16)) = Num (1 / 4)"
  by (simp only: js_mul.simps, rule binary64_frac [where n = 2]) (simp_all add: round_even_def)

lemma tiny_4: "js_mul (Num (1 / 4)) (Num 1) = Num (1 / 4)"
  by (simp only: js_mul.simps, rule binary64_frac [where n = 2]) (simp_all add: round_even_def)

lemma tiny_5: "js_sub (Num (1 / 4)) (Num 0) = Num (1 / 4)"
  by (simp only: js_sub_def js_neg.simps js_add.simps, rule binary64_frac [where n = 2]) (simp_all add: round_even_def)

lemma tiny_6: "js_div (Num 0) (Num 4) = Num 0"
  by (rule js_div_eval, simp, simp add: binary64_0)

lemma tiny_7: "js_mul (Num (1 / 4)) (Num 0) = Num 0"
  by (simp add: binary64_0)

lemma tiny_8: "js_mul (Num 0) (Num 0) = Num 0"
  by (simp add: binary64_0)

lemma tiny_9: "js_mul (Num 1) (Num 0) = Num 0"
  by (simp add: binary64_0)

lemma tiny_10: "js_mul (Num 0) (Num 1) = Num 0"
  by (simp add: binary64_0)

lemma tiny_11: "js_mul (Num 1) (Num (1 / 256)) = Num (1 / 256)"
  by (simp only: js_mul.simps, rule binary64_frac [where n = 8]) (simp_all add: round_even_def)

lemma tiny_12: "js_mul (Num (1 / 256)) (Num 1) = Num (1 / 256)"
  by (simp only: js_mul.simps, rule binary64_frac [where n = 8]) (simp_all add: round_even_def)

lemma tiny_13: "js_mul (Num (1 / 256)) (Num (1 / 2)) = Num (1 / 512)"
  by (simp only: js_mul.simps, rule binary64_frac [where n = 9]) (simp_all add: round_even_def)

lemma tiny_14: "js_add (Num 0) (Num 0) = Num 0"
  by (simp add: binary64_0)

lemma tiny_15: "js_add (Num 0) (Num (1 / 512)) = Num (1 / 512)"
  by (simp only: js_add.simps, rule binary64_frac [where n = 9]) (simp_all add: round_even_def)

lemma tiny_16: "js_add (Num (1 / 512)) (Num (1 / 256)) = Num (3 / 512)"
  by (simp only: js_add.simps, rule binary64_frac [where n = 8]) (simp_all add: round_even_def)

lemma tiny_17: "js_div (Num 0) (Num 3600) = Num 0"
  by (rule js_div_eval, simp, simp add: binary64_0)

lemma tiny_18: "js_mul (Num 0) (Num (5404319552844595 / 4503599627370496)) = Num 0"
  by (simp add: binary64_0)

lemma tiny_19: "js_mul (Num 0) (Num 1005) = Num 0"
  by (simp add: binary64_0)

lemma tiny_20: "js_add (Num (3 / 512)) (Num 0) = Num (3 / 512)"
  by (simp only: js_add.simps, rule binary64_frac [where n = 8]) (simp_all add: round_even_def)

lemma tiny_21: "js_mul (Num (3 / 512)) (Num 100) = Num (75 / 128)"
  by (simp only: js_mul.simps, rule binary64_frac [where n = 1]) (simp_all add: round_even_def)

lemma tiny_22: "Math_round (Num (75 / 128)) = Num 1"
  by simp

lemma tiny_23: "js_div (Num 1) (Num 100) = binary64 0.01"
  by simp

lemma tiny_24: "js_mul (Num 0) (Num 100) = Num 0"
  by (simp add: binary64_0)

lemma tiny_25: "Math_round (Num 0) = Num 0"
  by simp

lemma tiny_26: "js_div (Num 0) (Num 100) = Num 0"
  by (rule js_div_eval, simp, simp add: binary64_0)

lemma tiny_27: "js_mul (Num (3 / 512)) (Num (2589569785738035 / 2251799813685248)) = Num (7768709357214105 / 1152921504606846976)"
  by (simp only: js_mul.simps, rule binary64_frac [where n = 8]) (simp_all add: round_even_def)

lemma tiny_28: "js_mul (Num (7768709357214105 / 1152921504606846976)) (Num 100) = Num (345 / 512)"
  by (simp only: js_mul.simps, rule binary64_frac [where n = 1]) (simp_all add: round_even_def)

lemma tiny_29: "Math_round (Num (345 / 512)) = Num 1"
  by simp

lemma tiny_30: "binary64 0.01 = Num (5764607523034235 / 576460752303423488)"
  by (rule binary64_frac [where n = 7]) (simp_all add: round_even_def)

lemmas tiny_steps = tiny_1 tiny_2 tiny_3 tiny_4 tiny_5 tiny_6 tiny_7 tiny_8 tiny_9 tiny_10
  tiny_11 tiny_12 tiny_13 tiny_14 tiny_15 tiny_16 tiny_17 tiny_18 tiny_19 tiny_20 tiny_21
  tiny_22 tiny_23 tiny_24 tiny_25 tiny_26 tiny_27 tiny_28 tiny_29 tiny_30

lemma small_1: "js_sub (Num 15) (Num 14) = Num 1"
  by (simp only: js_sub_def js_neg.simps js_add.simps, rule binary64_small [where n = 0]) (simp_all add: round_even_def)

lemma small_2: "Math_sqrt (Num (94249 / 1048576)) = Num (307 / 1024)"
  proof -
  have "binary64 (307 / 1024) = Num (307 / 1024)"
    by (rule binary64_frac [where n = 2]) (simp_all add: round_even_def)
  from Math_sqrt_square [OF _ this] show ?thesis by simp
qed

lemma small_3: "js_mul (Num 4) (Num (307 / 1024)) = Num (307 / 256)"
  by (simp only: js_mul.simps, rule binary64_small [where n = 0]) (simp_all add: round_even_def)

lemma small_4: "js_mul (Num (307 / 256)) (Num 1) = Num (307 / 256)"
  by (simp only: js_mul.simps, rule binary64_small [where n = 0]) (simp_all add: round_even_def)

lemma small_5: "js_sub (Num (307 / 256)) (Num 0) = Num (307 / 256)"
  by (simp only: js_sub_def js_neg.simps js_add.simps, rule binary64_small [where n = 0]) (simp_all add: round_even_def)

lemma small_6: "js_div (Num 0) (Num 4) = Num 0"
  by (rule js_div_eval, simp, simp add: binary64_0)

lemma small_7: "js_mul (Num (307 / 256)) (Num 0) = Num 0"
  by (simp add: binary64_0)

lemma small_8: "js_mul (Num 0) (Num 0) = Num 0"
  by (simp add: binary64_0)

lemma small_9: "js_mul (Num 1) (Num 0) = Num 0"
  by (simp add: binary64_0)

lemma small_10: "js_mul (Num 0) (Num 1) = Num 0"
  by (simp add: binary64_0)

lemma small_11: "js_mul (Num 1) (Num (94249 / 1048576)) = Num (94249 / 1048576)"
  by (simp only: js_mul.simps, rule binary64_frac [where n = 4]) (simp_all add: round_even_def)

lemma small_12: "js_mul (Num (94249 / 1048576)) (Num 1) = Num (94249 / 1048576)"
  by (simp only: js_mul.simps, rule binary64_frac [where n = 4]) (simp_all add: round_even_def)

lemma small_13: "js_mul (Num (94249 / 1048576)) (Num (1 / 2)) = Num (94249 / 2097152)"
  by (simp only: js_mul.simps, rule binary64_frac [where n = 5]) (simp_all add: round_even_def)

lemma small_14: "js_add (Num 0) (Num 0) = Num 0"
  by (simp add: binary64_0)

lemma small_15: "js_add (Num 0) (Num (94249 / 2097152)) = Num (94249 / 2097152)"
  by (simp only: js_add.simps, rule binary64_frac [where n = 5]) (simp_all add: round_even_def)

lemma small_16: "js_add (Num (94249 / 2097152)) (Num (94249 / 1048576)) = Num (282747 / 2097152)"
  by (simp only: js_add.simps, rule binary64_frac [where n = 3]) (simp_all add: round_even_def)

lemma small_17: "js_div (Num 0) (Num 3600) = Num 0"
  by (rule js_div_eval, simp, simp add: binary64_0)

lemma small_18: "js_mul (Num 0) (Num (5404319552844595 / 4503599627370496)) = Num 0"
  by (simp add: binary64_0)

lemma small_19: "js_mul (Num 0) (Num 1005) = Num 0"
  by (simp add: binary64_0)

lemma small_20: "js_add (Num (282747 / 2097152)) (Num 0) = Num (282747 / 2097152)"
  by (simp only: js_add.simps, rule binary64_frac [where n = 3]) (simp_all add: round_even_def)

lemma small_21: "js_mul (Num (282747 / 2097152)) (Num 100) = Num (7068675 / 524288)"
  by (simp only: js_mul.simps, rule binary64_small [where n = 3]) (simp_all add: round_even_def)

lemma small_22: "Math_round (Num (7068675 / 524288)) = Num 13"
  by simp

lemma small_23: "js_div (Num 13) (Num 100) = binary64 0.13"
  by simp

lemma small_24: "js_mul (Num 0) (Num 100) = Num 0"
  by (simp add: binary64_0)

lemma small_25: "Math_round (Num 0) = Num 0"
  by simp

lemma small_26: "js_div (Num 0) (Num 100) = Num 0"
  by (rule js_div_eval, simp, simp add: binary64_0)

lemma small_27: "js_mul (Num (282747 / 2097152)) (Num (2589569785738035 / 2251799813685248)) = Num (5586189942993715 / 36028797018963968)"
  by (simp only: js_mul.simps, rule binary64_frac [where n = 3]) (simp_all add: round_even_def)

lemma small_28: "js_mul (Num (5586189942993715 / 36028797018963968)) (Num 100) = Num (32515905 / 2097152)"
  by (simp only: js_mul.simps, rule binary64_small [where n = 3]) (simp_all add: round_even_def)

lemma small_29: "Math_round (Num (32515905 / 2097152)) = Num 16"
  by simp

lemma small_30: "js_div (Num 16) (Num 100) = binary64 0.16"
  by simp

lemma small_31: "binary64 0.13 = Num (1170935903116329 / 9007199254740992)"
  by (rule binary64_frac [where n = 3]) (simp_all add: round_even_def)

lemma small_32: "binary64 0.16 = Num (5764607523034235 / 36028797018963968)"
  by (rule binary64_frac [where n = 3]) (simp_all add: round_even_def)

lemmas small_steps = small_1 small_2 small_3 small_4 small_5 small_6 small_7 small_8
  small_9 small_10 small_11 small_12 small_13 small_14 small_15 small_16 small_17 small_18
  small_19 small_20 small_21 small_22 small_23 small_24 small_25 small_26 small_27
  small_28 small_29 small_30 small_31 small_32

lemma tiny1_1: "js_sub (Num 20) (Num (- 3)) = Num 23"
  by (simp only: js_sub_def js_neg.simps js_add.simps, rule binary64_small [where n = 4]) (simp_all add: round_even_def)

lemma tiny1_2: "Math_sqrt (Num (1 / 256)) = Num (1 / 16)"
  proof -
  have "binary64 (1 / 16) = Num (1 / 16)"
    by (rule binary64_frac [where n = 4]) (simp_all add: round_even_def)
  from Math_sqrt_square [OF _ this] show ?thesis by simp
qed

lemma tiny1_3: "js_mul (Num 4) (Num (1 / 16)) = Num (1 / 4)"
  by (simp only: js_mul.simps, rule binary64_frac [where n = 2]) (simp_all add: round_even_def)

lemma tiny1_4: "js_mul (Num (1 / 4)) (Num 1) = Num (1 / 4)"
  by (simp only: js_mul.simps, rule binary64_frac [where n = 2]) (simp_all add: round_even_def)

lemma tiny1_5: "js_sub (Num (1 / 4)) (Num 0) = Num (1 / 4)"
  by (simp only: js_sub_def js_neg.simps js_add.simps, rule binary64_frac [where n = 2]) (simp_all add: round_even_def)

lemma tiny1_6: "js_div (Num 0) (Num 4) = Num 0"
  by (rule js_div_eval, simp, simp add: binary64_0)

lemma tiny1_7: "js_mul (Num (1 / 4)) (Num 0) = Num 0"
  by (simp add: binary64_0)

lemma tiny1_8: "js_mul (Num 0) (Num 0) = Num 0"
  by (simp add: binary64_0)

lemma tiny1_9: "js_mul (Num (5404319552844595 / 18014398509481984)) (Num 0) = Num 0"
  by (simp add: binary64_0)

lemma tiny1_10: "js_mul (Num 0) (Num 23) = Num 0"
  by (simp add: binary64_0)

lemma tiny1_11: "js_mul (Num (3152519739159347 / 2251799813685248)) (Num 0) = Num 0"
  by (simp add: binary64_0)

lemma tiny1_12: "js_mul (Num (1 / 4)) (Num (1 / 256)) = Num (1 / 1024)"
  by (simp only: js_mul.simps, rule binary64_frac [where n = 10]) (simp_all add: round_even_def)

lemma tiny1_13: "js_mul (Num (1 / 1024)) (Num 23) = Num (23 / 1024)"
  by (simp only: js_mul.simps, rule binary64_frac [where n = 6]) (simp_all add: round_even_def)

lemma tiny1_14: "js_mul (Num (23 / 1024)) (Num (1 / 2)) = Num (23 / 2048)"
  by (simp only: js_mul.simps, rule binary64_frac [where n = 7]) (simp_all add: round_even_def)

lemma tiny1_15: "js_mul (Num (5764607523034235 / 36028797018963968)) (Num (1 / 256)) = Num (5764607523034235 / 9223372036854775808)"
  by (simp only: js_mul.simps, rule binary64_frac [where n = 11]) (simp_all add: round_even_def)

lemma tiny1_16: "js_mul (Num (5764607523034235 / 9223372036854775808)) (Num 23) = Num (8286623314361713 / 576460752303423488)"
  by (simp only: js_mul.simps, rule binary64_frac [where n = 7]) (simp_all add: round_even_def)

lemma tiny1_17: "js_add (Num 0) (Num 0) = Num 0"
  by (simp add: binary64_0)

lemma tiny1_18: "js_add (Num 0) (Num (23 / 2048)) = Num (23 / 2048)"
  by (simp only: js_add.simps, rule binary64_frac [where n = 7]) (simp_all add: round_even_def)

lemma tiny1_19: "js_add (Num (23 / 2048)) (Num (8286623314361713 / 576460752303423488)) = Num (922534236169175 / 36028797018963968)"
  by (simp only: js_add.simps, rule binary64_frac [where n = 6]) (simp_all add: round_even_def)

lemma tiny1_20: "js_mul (Num 1) (Num (1 / 2)) = Num (1 / 2)"
  by (simp only: js_mul.simps, rule binary64_frac [where n = 1]) (simp_all add: round_even_def)

lemma tiny1_21: "js_div (Num (1 / 2)) (Num 3600) = Num (5124095576030431 / 36893488147419103232)"
  by (rule js_div_eval, simp, rule binary64_frac [where n = 13]) (simp_all add: round_even_def)

lemma tiny1_22: "js_mul (Num (5124095576030431 / 36893488147419103232)) (Num (5404319552844595 / 4503599627370496)) = Num (6148914691236517 / 36893488147419103232)"
  by (simp only: js_mul.simps, rule binary64_frac [where n = 13]) (simp_all add: round_even_def)

lemma tiny1_23: "js_mul (Num (6148914691236517 / 36893488147419103232)) (Num 1005) = Num (377176468792279 / 2251799813685248)"
  by (simp only: js_mul.simps, rule binary64_frac [where n = 3]) (simp_all add: round_even_def)

lemma tiny1_24: "js_mul (Num (377176468792279 / 2251799813685248)) (Num 23) = Num (8675058782222417 / 2251799813685248)"
  by (simp only: js_mul.simps, rule binary64_small [where n = 1]) (simp_all add: round_even_def)

lemma tiny1_25: "js_add (Num (922534236169175 / 36028797018963968)) (Num (8675058782222417 / 2251799813685248)) = Num (4366358585991495 / 1125899906842624)"
  by (simp only: js_add.simps, rule binary64_small [where n = 1]) (simp_all add: round_even_def)

lemma tiny1_26: "js_mul (Num (922534236169175 / 36028797018963968)) (Num 100) = Num (1311 / 512)"
  by (simp only: js_mul.simps, rule binary64_small [where n = 1]) (simp_all add: round_even_def)

lemma tiny1_27: "Math_round (Num (1311 / 512)) = Num 3"
  by simp

lemma tiny1_28: "js_div (Num 3) (Num 100) = binary64 0.03"
  by simp

lemma tiny1_29: "js_mul (Num (8675058782222417 / 2251799813685248)) (Num 100) = Num (6777389673611263 / 17592186044416)"
  by (simp only: js_mul.simps, rule binary64_small [where n = 8]) (simp_all add: round_even_def)

lemma tiny1_30: "Math_round (Num (6777389673611263 / 17592186044416)) = Num 385"
  by simp

lemma tiny1_31: "js_div (Num 385) (Num 100) = binary64 3.85"
  by simp

lemma tiny1_32: "js_mul (Num (4366358585991495 / 1125899906842624)) (Num 100) = Num (6822435290611711 / 17592186044416)"
  by (simp only: js_mul.simps, rule binary64_small [where n = 8]) (simp_all add: round_even_def)

lemma tiny1_33: "Math_round (Num (6822435290611711 / 17592186044416)) = Num 388"
  by simp

lemma tiny1_34: "js_div (Num 388) (Num 100) = binary64 3.88"
  by simp

lemma tiny1_35: "js_mul (Num (4366358585991495 / 1125899906842624)) (Num (2589569785738035 / 2251799813685248)) = Num (5021312373890219 / 1125899906842624)"
  by (simp only: js_mul.simps, rule binary64_small [where n = 2]) (simp_all add: round_even_def)

lemma tiny1_36: "js_mul (Num (5021312373890219 / 1125899906842624)) (Num 100) = Num (7845800584203467 / 17592186044416)"
  by (simp only: js_mul.simps, rule binary64_small [where n = 8]) (simp_all add: round_even_def)

lemma tiny1_37: "Math_round (Num (7845800584203467 / 17592186044416)) = Num 446"
  by simp

lemma tiny1_38: "js_div (Num 446) (Num 100) = binary64 4.46"
  by simp

lemmas tiny1_steps = tiny1_1 tiny1_2 tiny1_3 tiny1_4 tiny1_5 tiny1_6 tiny1_7 tiny1_8
  tiny1_9 tiny1_10 tiny1_11 tiny1_12 tiny1_13 tiny1_14 tiny1_15 tiny1_16 tiny1_17 tiny1_18
  tiny1_19 tiny1_20 tiny1_21 tiny1_22 tiny1_23 tiny1_24 tiny1_25 tiny1_26 tiny1_27
  tiny1_28 tiny1_29 tiny1_30 tiny1_31 tiny1_32 tiny1_33 tiny1_34 tiny1_35 tiny1_36
  tiny1_37 tiny1_38

lemma bldg_1: "binary64 93.73 = Num (6595662391772447 / 70368744177664)"
  by (rule binary64_small [where n = 6]) (simp_all add: round_even_def)

lemma bldg_2: "binary64 3.88 = Num (4368491638549381 / 1125899906842624)"
  by (rule binary64_small [where n = 1]) (simp_all add: round_even_def)

lemma bldg_3: "binary64 107.78 = Num (3792171623734313 / 35184372088832)"
  by (rule binary64_small [where n = 6]) (simp_all add: round_even_def)

lemma bldg_4: "binary64 4.46 = Num (5021513584518103 / 1125899906842624)"
  by (rule binary64_small [where n = 2]) (simp_all add: round_even_def)

lemma bldg_5: "js_add (Num 0) (Num (6595662391772447 / 70368744177664)) = Num (6595662391772447 / 70368744177664)"
  by (simp only: js_add.simps, rule binary64_small [where n = 6]) (simp_all add: round_even_def)

lemma bldg_6: "js_add (Num (6595662391772447 / 70368744177664)) (Num (4368491638549381 / 1125899906842624)) = Num (6868693119181783 / 70368744177664)"
  by (simp only: js_add.simps, rule binary64_small [where n = 6]) (simp_all add: round_even_def)

lemma bldg_7: "js_add (Num 0) (Num (3792171623734313 / 35184372088832)) = Num (3792171623734313 / 35184372088832)"
  by (simp only: js_add.simps, rule binary64_small [where n = 6]) (simp_all add: round_even_def)

lemma bldg_8: "js_add (Num (3792171623734313 / 35184372088832)) (Num (5021513584518103 / 1125899906842624)) = Num (7898187846501007 / 70368744177664)"
  by (simp only: js_add.simps, rule binary64_small [where n = 6]) (simp_all add: round_even_def)

lemma bldg_9: "js_mul (Num (6868693119181783 / 70368744177664)) (Num 100) = Num 9761"
  by (simp only: js_mul.simps, rule binary64_small [where n = 13]) (simp_all add: round_even_def)

lemma bldg_10: "Math_round (Num 9761) = Num 9761"
  by simp

lemma bldg_11: "js_div (Num 9761) (Num 100) = binary64 97.61"
  by simp

lemma bldg_12: "js_mul (Num (7898187846501007 / 70368744177664)) (Num 100) = Num 11224"
  by (simp only: js_mul.simps, rule binary64_small [where n = 13]) (simp_all add: round_even_def)

lemma bldg_13: "Math_round (Num 11224) = Num 11224"
  by simp

lemma bldg_14: "js_div (Num 11224) (Num 100) = binary64 112.24"
  by simp

lemma bldg_15: "js_add (Num 0) (Num (4368491638549381 / 1125899906842624)) = Num (4368491638549381 / 1125899906842624)"
  by (simp only: js_add.simps, rule binary64_small [where n = 1]) (simp_all add: round_even_def)

lemma bldg_16: "js_add (Num (4368491638549381 / 1125899906842624)) (Num (6595662391772447 / 70368744177664)) = Num (6868693119181783 / 70368744177664)"
  by (simp only: js_add.simps, rule binary64_small [where n = 6]) (simp_all add: round_even_def)

lemma bldg_17: "js_add (Num 0) (Num (5021513584518103 / 1125899906842624)) = Num (5021513584518103 / 1125899906842624)"
  by (simp only: js_add.simps, rule binary64_small [where n = 2]) (simp_all add: round_even_def)

lemma bldg_18: "js_add (Num (5021513584518103 / 1125899906842624)) (Num (3792171623734313 / 35184372088832)) = Num (7898187846501007 / 70368744177664)"
  by (simp only: js_add.simps, rule binary64_small [where n = 6]) (simp_all add: round_even_def)

lemmas bldg_steps = bldg_1 bldg_2 bldg_3 bldg_4 bldg_5 bldg_6 bldg_7 bldg_8 bldg_9 bldg_10
  bldg_11 bldg_12 bldg_13 bldg_14 bldg_15 bldg_16 bldg_17 bldg_18

lemma big_1: "js_sub (Num 15) (Num 14) = Num 1"
  by (simp only: js_sub_def js_neg.simps js_add.simps, rule binary64_small [where n = 0]) (simp_all add: round_even_def)

lemma big_2: "Math_sqrt (Num 18014398509481984) = Num 134217728"
  proof -
  have "binary64 (134217728) = Num 134217728"
    by (rule binary64_small [where n = 27]) (simp_all add: round_even_def)
  from Math_sqrt_square [OF _ this] show ?thesis by simp
qed

lemma big_3: "js_mul (Num 4) (Num 134217728) = Num 536870912"
  by (simp only: js_mul.simps, rule binary64_small [where n = 29]) (simp_all add: round_even_def)

lemma big_4: "js_mul (Num 536870912) (Num 1) = Num 536870912"
  by (simp only: js_mul.simps, rule binary64_small [where n = 29]) (simp_all add: round_even_def)

lemma big_5: "js_sub (Num 536870912) (Num 0) = Num 536870912"
  by (simp only: js_sub_def js_neg.simps js_add.simps, rule binary64_small [where n = 29]) (simp_all add: round_even_def)

lemma big_6: "js_div (Num 0) (Num 4) = Num 0"
  by (rule js_div_eval, simp, simp add: binary64_0)

lemma big_7: "js_mul (Num 536870912) (Num 0) = Num 0"
  by (simp add: binary64_0)

lemma big_8: "js_mul (Num 0) (Num 0) = Num 0"
  by (simp add: binary64_0)

lemma big_9: "js_mul (Num 1) (Num 0) = Num 0"
  by (simp add: binary64_0)

lemma big_10: "js_mul (Num 0) (Num 1) = Num 0"
  by (simp add: binary64_0)

lemma big_11: "js_mul (Num 1) (Num 18014398509481984) = Num 18014398509481984"
  by (simp only: js_mul.simps, rule binary64_large [where n = 54]) (simp_all add: round_even_def)

lemma big_12: "js_mul (Num 18014398509481984) (Num 1) = Num 18014398509481984"
  by (simp only: js_mul.simps, rule binary64_large [where n = 54]) (simp_all add: round_even_def)

lemma big_13: "js_mul (Num 18014398509481984) (Num (1 / 2)) = Num 9007199254740992"
  by (simp only: js_mul.simps, rule binary64_large [where n = 53]) (simp_all add: round_even_def)

lemma big_14: "js_add (Num 0) (Num 0) = Num 0"
  by (simp add: binary64_0)

lemma big_15: "js_add (Num 0) (Num 9007199254740992) = Num 9007199254740992"
  by (simp only: js_add.simps, rule binary64_large [where n = 53]) (simp_all add: round_even_def)

lemma big_16: "js_add (Num 9007199254740992) (Num 18014398509481984) = Num 27021597764222976"
  by (simp only: js_add.simps, rule binary64_large [where n = 54]) (simp_all add: round_even_def)

lemma big_17: "js_div (Num 0) (Num 3600) = Num 0"
  by (rule js_div_eval, simp, simp add: binary64_0)

lemma big_18: "js_mul (Num 0) (Num (5404319552844595 / 4503599627370496)) = Num 0"
  by (simp add: binary64_0)

lemma big_19: "js_mul (Num 0) (Num 1005) = Num 0"
  by (simp add: binary64_0)

lemma big_20: "js_add (Num 27021597764222976) (Num 0) = Num 27021597764222976"
  by (simp only: js_add.simps, rule binary64_large [where n = 54]) (simp_all add: round_even_def)

lemma big_21: "js_mul (Num 27021597764222976) (Num 100) = Num 2702159776422297600"
  by (simp only: js_mul.simps, rule binary64_large [where n = 61]) (simp_all add: round_even_def)

lemma big_22: "Math_round (Num 2702159776422297600) = Num 2702159776422297600"
  by simp

lemma big_23: "js_div (Num 2702159776422297600) (Num 100) = Num 27021597764222976"
  by (rule js_div_eval, simp, rule binary64_large [where n = 54]) (simp_all add: round_even_def)

lemma big_24: "js_mul (Num 0) (Num 100) = Num 0"
  by (simp add: binary64_0)

lemma big_25: "Math_round (Num 0) = Num 0"
  by simp

lemma big_26: "js_div (Num 0) (Num 100) = Num 0"
  by (rule js_div_eval, simp, simp add: binary64_0)

lemma big_27: "js_mul (Num 27021597764222976) (Num (2589569785738035 / 2251799813685248)) = Num 31074837428856420"
  by (simp only: js_mul.simps, rule binary64_large [where n = 54]) (simp_all add: round_even_def)

lemma big_28: "js_mul (Num 31074837428856420) (Num 100) = Num 3107483742885642240"
  by (simp only: js_mul.simps, rule binary64_large [where n = 61]) (simp_all add: round_even_def)

lemma big_29: "Math_round (Num 3107483742885642240) = Num 3107483742885642240"
  by simp

lemma big_30: "js_div (Num 3107483742885642240) (Num 100) = Num 31074837428856424"
  by (rule js_div_eval, simp, rule binary64_large [where n = 54]) (simp_all add: round_even_def)

lemmas big_steps = big_1 big_2 big_3 big_4 big_5 big_6 big_7 big_8 big_9 big_10 big_11
  big_12 big_13 big_14 big_15 big_16 big_17 big_18 big_19 big_20 big_21 big_22 big_23
  big_24 big_25 big_26 big_27 big_28 big_29 big_30

lemma unit_1: "js_sub (Num 15) (Num 14) = Num 1"
  by (simp only: js_sub_def js_neg.simps js_add.simps, rule binary64_small [where n = 0]) (simp_all add: round_even_def)

lemma unit_2: "Math_sqrt (Num 1) = Num 1"
  proof -
  have "binary64 (1) = Num 1"
    by (rule binary64_small [where n = 0]) (simp_all add: round_even_def)
  from Math_sqrt_square [OF _ this] show ?thesis by simp
qed

lemma unit_3: "js_mul (Num 4) (Num 1) = Num 4"
  by (simp only: js_mul.simps, rule binary64_small [where n = 2]) (simp_all add: round_even_def)

lemma unit_4: "js_sub (Num 4) (Num 0) = Num 4"
  by (simp only: js_sub_def js_neg.simps js_add.simps, rule binary64_small [where n = 2]) (simp_all add: round_even_def)

lemma unit_5: "js_div (Num 0) (Num 4) = Num 0"
  by (rule js_div_eval, simp, simp add: binary64_0)

lemma unit_6: "js_mul (Num 4) (Num 0) = Num 0"
  by (simp add: binary64_0)

lemma unit_7: "js_mul (Num 0) (Num 0) = Num 0"
  by (simp add: binary64_0)

lemma unit_8: "js_mul (Num 1) (Num 0) = Num 0"
  by (simp add: binary64_0)

lemma unit_9: "js_mul (Num 0) (Num 1) = Num 0"
  by (simp add: binary64_0)

lemma unit_10: "js_mul (Num 1) (Num 1) = Num 1"
  by (simp only: js_mul.simps, rule binary64_small [where n = 0]) (simp_all add: round_even_def)

lemma unit_11: "js_mul (Num 1) (Num (1 / 2)) = Num (1 / 2)"
  by (simp only: js_mul.simps, rule binary64_frac [where n = 1]) (simp_all add: round_even_def)

lemma unit_12: "js_add (Num 0) (Num 0) = Num 0"
  by (simp add: binary64_0)

lemma unit_13: "js_add (Num 0) (Num (1 / 2)) = Num (1 / 2)"
  by (simp only: js_add.simps, rule binary64_frac [where n = 1]) (simp_all add: round_even_def)

lemma unit_14: "js_add (Num (1 / 2)) (Num 1) = Num (3 / 2)"
  by (simp only: js_add.simps, rule binary64_small [where n = 0]) (simp_all add: round_even_def)

lemma unit_15: "js_div (Num 0) (Num 3600) = Num 0"
  by (rule js_div_eval, simp, simp add: binary64_0)

lemma unit_16: "js_mul (Num 0) (Num (5404319552844595 / 4503599627370496)) = Num 0"
  by (simp add: binary64_0)

lemma unit_17: "js_mul (Num 0) (Num 1005) = Num 0"
  by (simp add: binary64_0)

lemma unit_18: "js_add (Num (3 / 2)) (Num 0) = Num (3 / 2)"
  by (simp only: js_add.simps, rule binary64_small [where n = 0]) (simp_all add: round_even_def)

lemma unit_19: "js_mul (Num (3 / 2)) (Num 100) = Num 150"
  by (simp only: js_mul.simps, rule binary64_small [where n = 7]) (simp_all add: round_even_def)

lemma unit_20: "Math_round (Num 150) = Num 150"
  by simp

lemma unit_21: "js_div (Num 150) (Num 100) = Num (3 / 2)"
  by (rule js_div_eval, simp, rule binary64_small [where n = 0]) (simp_all add: round_even_def)

lemma unit_22: "js_mul (Num 0) (Num 100) = Num 0"
  by (simp add: binary64_0)

lemma unit_23: "Math_round (Num 0) = Num 0"
  by simp

lemma unit_24: "js_div (Num 0) (Num 100) = Num 0"
  by (rule js_div_eval, simp, simp add: binary64_0)

lemma unit_25: "js_mul (Num (3 / 2)) (Num (2589569785738035 / 2251799813685248)) = Num (7768709357214105 / 4503599627370496)"
  by (simp only: js_mul.simps, rule binary64_small [where n = 0]) (simp_all add: round_even_def)

lemma unit_26: "js_mul (Num (7768709357214105 / 4503599627370496)) (Num 100) = Num (345 / 2)"
  by (simp only: js_mul.simps, rule binary64_small [where n = 7]) (simp_all add: round_even_def)

lemma unit_27: "Math_round (Num (345 / 2)) = Num 173"
  by simp

lemma unit_28: "js_div (Num 173) (Num 100) = Num (3895613677675479 / 2251799813685248)"
  by (rule js_div_eval, simp, rule binary64_small [where n = 0]) (simp_all add: round_even_def)

lemmas unit_steps = unit_1 unit_2 unit_3 unit_4 unit_5 unit_6 unit_7 unit_8 unit_9 unit_10
  unit_11 unit_12 unit_13 unit_14 unit_15 unit_16 unit_17 unit_18 unit_19 unit_20 unit_21
  unit_22 unit_23 unit_24 unit_25 unit_26 unit_27 unit_28

lemma order_1: "js_add (Num 0) (Num 27021597764222976) = Num 27021597764222976"
  by (simp only: js_add.simps, rule binary64_large [where n = 54]) (simp_all add: round_even_def)

lemma order_2: "js_add (Num 27021597764222976) (Num (3 / 2)) = Num 27021597764222976"
  by (simp only: js_add.simps, rule binary64_large [where n = 54]) (simp_all add: round_even_def)

lemma order_3: "js_add (Num 0) (Num 31074837428856424) = Num 31074837428856424"
  by (simp only: js_add.simps, rule binary64_large [where n = 54]) (simp_all add: round_even_def)

lemma order_4: "js_add (Num 31074837428856424) (Num (3895613677675479 / 2251799813685248)) = Num 31074837428856424"
  by (simp only: js_add.simps, rule binary64_large [where n = 54]) (simp_all add: round_even_def)

lemma order_5: "js_mul (Num 27021597764222976) (Num 100) = Num 2702159776422297600"
  by (simp only: js_mul.simps, rule binary64_large [where n = 61]) (simp_all add: round_even_def)

lemma order_6: "Math_round (Num 2702159776422297600) = Num 2702159776422297600"
  by simp

lemma order_7: "js_div (Num 2702159776422297600) (Num 100) = Num 27021597764222976"
  by (rule js_div_eval, simp, rule binary64_large [where n = 54]) (simp_all add: round_even_def)

lemma order_8: "js_mul (Num 31074837428856424) (Num 100) = Num 3107483742885642240"
  by (simp only: js_mul.simps, rule binary64_large [where n = 61]) (simp_all add: round_even_def)

lemma order_9: "Math_round (Num 3107483742885642240) = Num 3107483742885642240"
  by simp

lemma order_10: "js_div (Num 3107483742885642240) (Num 100) = Num 31074837428856424"
  by (rule js_div_eval, simp, rule binary64_large [where n = 54]) (simp_all add: round_even_def)

lemma order_11: "js_add (Num 0) (Num (3 / 2)) = Num (3 / 2)"
  by (simp only: js_add.simps, rule binary64_small [where n = 0]) (simp_all add: round_even_def)

lemma order_12: "js_add (Num (3 / 2)) (Num (3 / 2)) = Num 3"
  by (simp only: js_add.simps, rule binary64_small [where n = 1]) (simp_all add: round_even_def)

lemma order_13: "js_add (Num 3) (Num 27021597764222976) = Num 27021597764222980"
  by (simp only: js_add.simps, rule binary64_large [where n = 54]) (simp_all add: round_even_def)

lemma order_14: "js_add (Num 0) (Num (3895613677675479 / 2251799813685248)) = Num (3895613677675479 / 2251799813685248)"
  by (simp only: js_add.simps, rule binary64_small [where n = 0]) (simp_all add: round_even_def)

lemma order_15: "js_add (Num (3895613677675479 / 2251799813685248)) (Num (3895613677675479 / 2251799813685248)) = Num (3895613677675479 / 1125899906842624)"
  by (simp only: js_add.simps, rule binary64_small [where n = 1]) (simp_all add: round_even_def)

lemma order_16: "js_add (Num (3895613677675479 / 1125899906842624)) (Num 31074837428856424) = Num 31074837428856428"
  by (simp only: js_add.simps, rule binary64_large [where n = 54]) (simp_all add: round_even_def)

lemma order_17: "js_mul (Num 27021597764222980) (Num 100) = Num 2702159776422298112"
  by (simp only: js_mul.simps, rule binary64_large [where n = 61]) (simp_all add: round_even_def)

lemma order_18: "Math_round (Num 2702159776422298112) = Num 2702159776422298112"
  by simp

lemma order_19: "js_div (Num 2702159776422298112) (Num 100) = Num 27021597764222980"
  by (rule js_div_eval, simp, rule binary64_large [where n = 54]) (simp_all add: round_even_def)

lemma order_20: "js_mul (Num 31074837428856428) (Num 100) = Num 3107483742885642752"
  by (simp only: js_mul.simps, rule binary64_large [where n = 61]) (simp_all add: round_even_def)

lemma order_21: "Math_round (Num 3107483742885642752) = Num 3107483742885642752"
  by simp

lemma order_22: "js_div (Num 3107483742885642752) (Num 100) = Num 31074837428856428"
  by (rule js_div_eval, simp, rule binary64_large [where n = 54]) (simp_all add: round_even_def)

lemmas order_steps = order_1 order_2 order_3 order_4 order_5 order_6 order_7 order_8
  order_9 order_10 order_11 order_12 order_13 order_14 order_15 order_16 order_17 order_18
  order_19 order_20 order_21 order_22

lemma room1_1: "binary64 0.30000000000000004 = Num (1351079888211149 / 4503599627370496)"
  by (rule binary64_frac [where n = 2]) (simp_all add: round_even_def)

lemma room1_2: "js_sub (Num 20) (Num (- 3)) = Num 23"
  by (simp only: js_sub_def js_neg.simps js_add.simps, rule binary64_small [where n = 4]) (simp_all add: round_even_def)

lemma room1_3: "Math_sqrt (Num 4) = Num 2"
  proof -
  have "binary64 (2) = Num 2"
    by (rule binary64_small [where n = 1]) (simp_all add: round_even_def)
  from Math_sqrt_square [OF _ this] show ?thesis by simp
qed

lemma room1_4: "js_mul (Num 4) (Num 2) = Num 8"
  by (simp only: js_mul.simps, rule binary64_small [where n = 3]) (simp_all add: round_even_def)

lemma room1_5: "js_mul (Num 8) (Num (5 / 2)) = Num 20"
  by (simp only: js_mul.simps, rule binary64_small [where n = 4]) (simp_all add: round_even_def)

lemma room1_6: "js_sub (Num 20) (Num 4) = Num 16"
  by (simp only: js_sub_def js_neg.simps js_add.simps, rule binary64_small [where n = 4]) (simp_all add: round_even_def)

lemma room1_7: "js_div (Num 2) (Num 4) = Num (1 / 2)"
  by (rule js_div_eval, simp, rule binary64_frac [where n = 1]) (simp_all add: round_even_def)

lemma room1_8: "js_mul (Num 16) (Num (1 / 2)) = Num 8"
  by (simp only: js_mul.simps, rule binary64_small [where n = 3]) (simp_all add: round_even_def)

lemma room1_9: "js_mul (Num 4) (Num (1 / 2)) = Num 2"
  by (simp only: js_mul.simps, rule binary64_small [where n = 1]) (simp_all add: round_even_def)

lemma room1_10: "js_mul (Num (5404319552844595 / 18014398509481984)) (Num 8) = Num (5404319552844595 / 2251799813685248)"
  by (simp only: js_mul.simps, rule binary64_small [where n = 1]) (simp_all add: round_even_def)

lemma room1_11: "js_mul (Num (5404319552844595 / 2251799813685248)) (Num 23) = Num (7768709357214105 / 140737488355328)"
  by (simp only: js_mul.simps, rule binary64_small [where n = 5]) (simp_all add: round_even_def)

lemma room1_12: "js_mul (Num (3152519739159347 / 2251799813685248)) (Num 2) = Num (3152519739159347 / 1125899906842624)"
  by (simp only: js_mul.simps, rule binary64_small [where n = 1]) (simp_all add: round_even_def)

lemma room1_13: "js_mul (Num (3152519739159347 / 1125899906842624)) (Num 23) = Num (4531747125041561 / 70368744177664)"
  by (simp only: js_mul.simps, rule binary64_small [where n = 6]) (simp_all add: round_even_def)

lemma room1_14: "js_mul (Num (1 / 4)) (Num 4) = Num 1"
  by (simp only: js_mul.simps, rule binary64_small [where n = 0]) (simp_all add: round_even_def)

lemma room1_15: "js_mul (Num 1) (Num 23) = Num 23"
  by (simp only: js_mul.simps, rule binary64_small [where n = 4]) (simp_all add: round_even_def)

lemma room1_16: "js_mul (Num 23) (Num (1 / 2)) = Num (23 / 2)"
  by (simp only: js_mul.simps, rule binary64_small [where n = 3]) (simp_all add: round_even_def)

lemma room1_17: "js_mul (Num (5764607523034235 / 36028797018963968)) (Num 4) = Num (5764607523034235 / 9007199254740992)"
  by (simp only: js_mul.simps, rule binary64_frac [where n = 1]) (simp_all add: round_even_def)

lemma room1_18: "js_mul (Num (5764607523034235 / 9007199254740992)) (Num 23) = Num (8286623314361713 / 562949953421312)"
  by (simp only: js_mul.simps, rule binary64_small [where n = 3]) (simp_all add: round_even_def)

lemma room1_19: "js_add (Num (7768709357214105 / 140737488355328)) (Num (4531747125041561 / 70368744177664)) = Num (4208050901824307 / 35184372088832)"
  by (simp only: js_add.simps, rule binary64_small [where n = 6]) (simp_all add: round_even_def)

lemma room1_20: "js_add (Num (4208050901824307 / 35184372088832)) (Num (23 / 2)) = Num (4612671180845875 / 35184372088832)"
  by (simp only: js_add.simps, rule binary64_small [where n = 7]) (simp_all add: round_even_def)

lemma room1_21: "js_add (Num (4612671180845875 / 35184372088832)) (Num (8286623314361713 / 562949953421312)) = Num (2565292568996741 / 17592186044416)"
  by (simp only: js_add.simps, rule binary64_small [where n = 7]) (simp_all add: round_even_def)

lemma room1_22: "js_mul (Num 10) (Num (1 / 2)) = Num 5"
  by (simp only: js_mul.simps, rule binary64_small [where n = 2]) (simp_all add: round_even_def)

lemma room1_23: "js_div (Num 5) (Num 3600) = Num (6405119470038039 / 4611686018427387904)"
  by (rule js_div_eval, simp, rule binary64_frac [where n = 10]) (simp_all add: round_even_def)

lemma room1_24: "js_mul (Num (6405119470038039 / 4611686018427387904)) (Num (5404319552844595 / 4503599627370496)) = Num (7686143364045647 / 4611686018427387904)"
  by (simp only: js_mul.simps, rule binary64_frac [where n = 10]) (simp_all add: round_even_def)

lemma room1_25: "js_mul (Num (7686143364045647 / 4611686018427387904)) (Num 1005) = Num (7543529375845581 / 4503599627370496)"
  by (simp only: js_mul.simps, rule binary64_small [where n = 0]) (simp_all add: round_even_def)

lemma room1_26: "js_mul (Num (7543529375845581 / 4503599627370496)) (Num 23) = Num (5421911738889011 / 140737488355328)"
  by (simp only: js_mul.simps, rule binary64_small [where n = 5]) (simp_all add: round_even_def)

lemma room1_27: "js_add (Num (2565292568996741 / 17592186044416)) (Num (5421911738889011 / 140737488355328)) = Num (6486063072715735 / 35184372088832)"
  by (simp only: js_add.simps, rule binary64_small [where n = 7]) (simp_all add: round_even_def)

lemma room1_28: "js_mul (Num (2565292568996741 / 17592186044416)) (Num 100) = Num 14582"
  by (simp only: js_mul.simps, rule binary64_small [where n = 13]) (simp_all add: round_even_def)

lemma room1_29: "Math_round (Num 14582) = Num 14582"
  by simp

lemma room1_30: "js_div (Num 14582) (Num 100) = binary64 145.82"
  by simp

lemma room1_31: "js_mul (Num (5421911738889011 / 140737488355328)) (Num 100) = Num (7705 / 2)"
  by (simp only: js_mul.simps, rule binary64_small [where n = 11]) (simp_all add: round_even_def)

lemma room1_32: "Math_round (Num (7705 / 2)) = Num 3853"
  by simp

lemma room1_33: "js_div (Num 3853) (Num 100) = binary64 38.53"
  by simp

lemma room1_34: "js_mul (Num (6486063072715735 / 35184372088832)) (Num 100) = Num (36869 / 2)"
  by (simp only: js_mul.simps, rule binary64_small [where n = 14]) (simp_all add: round_even_def)

lemma room1_35: "Math_round (Num (36869 / 2)) = Num 18435"
  by simp

lemma room1_36: "js_div (Num 18435) (Num 100) = binary64 184.35"
  by simp

lemma room1_37: "js_mul (Num (6486063072715735 / 35184372088832)) (Num (2589569785738035 / 2251799813685248)) = Num (7458972533623095 / 35184372088832)"
  by (simp only: js_mul.simps, rule binary64_small [where n = 7]) (simp_all add: round_even_def)

lemma room1_38: "js_mul (Num (7458972533623095 / 35184372088832)) (Num 100) = Num (5827322291893043 / 274877906944)"
  by (simp only: js_mul.simps, rule binary64_small [where n = 14]) (simp_all add: round_even_def)

lemma room1_39: "Math_round (Num (5827322291893043 / 274877906944)) = Num 21200"
  by simp

lemma room1_40: "js_div (Num 21200) (Num 100) = Num 212"
  by (rule js_div_eval, simp, rule binary64_small [where n = 7]) (simp_all add: round_even_def)

lemma room1_41: "js_mul (Num (1 / 2)) (Num 8) = Num 4"
  by (simp only: js_mul.simps, rule binary64_small [where n = 2]) (simp_all add: round_even_def)

lemma room1_42: "js_mul (Num 4) (Num 23) = Num 92"
  by (simp only: js_mul.simps, rule binary64_small [where n = 6]) (simp_all add: round_even_def)

lemma room1_43: "js_add (Num 92) (Num (4531747125041561 / 70368744177664)) = Num (1375708948673331 / 8796093022208)"
  by (simp only: js_add.simps, rule binary64_small [where n = 7]) (simp_all add: round_even_def)

lemma room1_44: "js_add (Num (1375708948673331 / 8796093022208)) (Num (23 / 2)) = Num (1476864018428723 / 8796093022208)"
  by (simp only: js_add.simps, rule binary64_small [where n = 7]) (simp_all add: round_even_def)

lemma room1_45: "js_add (Num (1476864018428723 / 8796093022208)) (Num (8286623314361713 / 562949953421312)) = Num (6425370030862499 / 35184372088832)"
  by (simp only: js_add.simps, rule binary64_small [where n = 7]) (simp_all add: round_even_def)

lemma room1_46: "js_mul (Num 10) (Num 1) = Num 10"
  by (simp only: js_mul.simps, rule binary64_small [where n = 3]) (simp_all add: round_even_def)

lemma room1_47: "js_div (Num 10) (Num 3600) = Num (6405119470038039 / 2305843009213693952)"
  by (rule js_div_eval, simp, rule binary64_frac [where n = 9]) (simp_all add: round_even_def)

lemma room1_48: "js_mul (Num (6405119470038039 / 2305843009213693952)) (Num (5404319552844595 / 4503599627370496)) = Num (7686143364045647 / 2305843009213693952)"
  by (simp only: js_mul.simps, rule binary64_frac [where n = 9]) (simp_all add: round_even_def)

lemma room1_49: "js_mul (Num (7686143364045647 / 2305843009213693952)) (Num 1005) = Num (7543529375845581 / 2251799813685248)"
  by (simp only: js_mul.simps, rule binary64_small [where n = 1]) (simp_all add: round_even_def)

lemma room1_50: "js_mul (Num (7543529375845581 / 2251799813685248)) (Num 23) = Num (5421911738889011 / 70368744177664)"
  by (simp only: js_mul.simps, rule binary64_small [where n = 6]) (simp_all add: round_even_def)

lemma room1_51: "js_add (Num (6425370030862499 / 35184372088832)) (Num (5421911738889011 / 70368744177664)) = Num (2284081475076751 / 8796093022208)"
  by (simp only: js_add.simps, rule binary64_small [where n = 8]) (simp_all add: round_even_def)

lemma room1_52: "js_mul (Num (6425370030862499 / 35184372088832)) (Num 100) = Num (5019820336611327 / 274877906944)"
  by (simp only: js_mul.simps, rule binary64_small [where n = 14]) (simp_all add: round_even_def)

lemma room1_53: "Math_round (Num (5019820336611327 / 274877906944)) = Num 18262"
  by simp

lemma room1_54: "js_div (Num 18262) (Num 100) = binary64 182.62"
  by simp

lemma room1_55: "js_mul (Num (5421911738889011 / 70368744177664)) (Num 100) = Num 7705"
  by (simp only: js_mul.simps, rule binary64_small [where n = 12]) (simp_all add: round_even_def)

lemma room1_56: "Math_round (Num 7705) = Num 7705"
  by simp

lemma room1_57: "js_div (Num 7705) (Num 100) = binary64 77.05"
  by simp

lemma room1_58: "js_mul (Num (2284081475076751 / 8796093022208)) (Num 100) = Num (7137754609614847 / 274877906944)"
  by (simp only: js_mul.simps, rule binary64_small [where n = 14]) (simp_all add: round_even_def)

lemma room1_59: "Math_round (Num (7137754609614847 / 274877906944)) = Num 25967"
  by simp

lemma room1_60: "js_div (Num 25967) (Num 100) = binary64 259.67"
  by simp

lemma room1_61: "js_mul (Num (2284081475076751 / 8796093022208)) (Num (2589569785738035 / 2251799813685248)) = Num (5253387392676527 / 17592186044416)"
  by (simp only: js_mul.simps, rule binary64_small [where n = 8]) (simp_all add: round_even_def)

lemma room1_62: "js_mul (Num (5253387392676527 / 17592186044416)) (Num 100) = Num (8208417801057073 / 274877906944)"
  by (simp only: js_mul.simps, rule binary64_small [where n = 14]) (simp_all add: round_even_def)

lemma room1_63: "Math_round (Num (8208417801057073 / 274877906944)) = Num 29862"
  by simp

lemma room1_64: "js_div (Num 29862) (Num 100) = binary64 298.62"
  by simp

lemma room1_65: "js_mul (Num 10) (Num 0) = Num 0"
  by (simp add: binary64_0)

lemma room1_66: "js_div (Num 0) (Num 3600) = Num 0"
  by (rule js_div_eval, simp, simp add: binary64_0)

lemma room1_67: "js_mul (Num 0) (Num (5404319552844595 / 4503599627370496)) = Num 0"
  by (simp add: binary64_0)

lemma room1_68: "js_mul (Num 0) (Num 1005) = Num 0"
  by (simp add: binary64_0)

lemma room1_69: "js_mul (Num 0) (Num 23) = Num 0"
  by (simp add: binary64_0)

lemma room1_70: "js_add (Num (2565292568996741 / 17592186044416)) (Num 0) = Num (2565292568996741 / 17592186044416)"
  by (simp only: js_add.simps, rule binary64_small [where n = 7]) (simp_all add: round_even_def)

lemma room1_71: "js_mul (Num 0) (Num 100) = Num 0"
  by (simp add: binary64_0)

lemma room1_72: "Math_round (Num 0) = Num 0"
  by simp

lemma room1_73: "js_div (Num 0) (Num 100) = Num 0"
  by (rule js_div_eval, simp, simp add: binary64_0)

lemma room1_74: "js_mul (Num (2565292568996741 / 17592186044416)) (Num (2589569785738035 / 2251799813685248)) = Num (737521613586563 / 4398046511104)"
  by (simp only: js_mul.simps, rule binary64_small [where n = 7]) (simp_all add: round_even_def)

lemma room1_75: "js_mul (Num (737521613586563 / 4398046511104)) (Num 100) = Num (4609510084916019 / 274877906944)"
  by (simp only: js_mul.simps, rule binary64_small [where n = 14]) (simp_all add: round_even_def)

lemma room1_76: "Math_round (Num (4609510084916019 / 274877906944)) = Num 16769"
  by simp

lemma room1_77: "js_div (Num 16769) (Num 100) = binary64 167.69"
  by simp

lemma room1_78: "js_sub (Num 21) (Num (- 3)) = Num 24"
  by (simp only: js_sub_def js_neg.simps js_add.simps, rule binary64_small [where n = 4]) (simp_all add: round_even_def)

lemma room1_79: "js_mul (Num (5404319552844595 / 2251799813685248)) (Num 24) = Num (2026619832316723 / 35184372088832)"
  by (simp only: js_mul.simps, rule binary64_small [where n = 5]) (simp_all add: round_even_def)

lemma room1_80: "js_mul (Num (3152519739159347 / 1125899906842624)) (Num 24) = Num (1182194902184755 / 17592186044416)"
  by (simp only: js_mul.simps, rule binary64_small [where n = 6]) (simp_all add: round_even_def)

lemma room1_81: "js_mul (Num 1) (Num 24) = Num 24"
  by (simp only: js_mul.simps, rule binary64_small [where n = 4]) (simp_all add: round_even_def)

lemma room1_82: "js_mul (Num 24) (Num (1 / 2)) = Num 12"
  by (simp only: js_mul.simps, rule binary64_small [where n = 3]) (simp_all add: round_even_def)

lemma room1_83: "js_mul (Num (5764607523034235 / 9007199254740992)) (Num 24) = Num (1080863910568919 / 70368744177664)"
  by (simp only: js_mul.simps, rule binary64_small [where n = 3]) (simp_all add: round_even_def)

lemma room1_84: "js_add (Num (2026619832316723 / 35184372088832)) (Num (1182194902184755 / 17592186044416)) = Num (4391009636686233 / 35184372088832)"
  by (simp only: js_add.simps, rule binary64_small [where n = 6]) (simp_all add: round_even_def)

lemma room1_85: "js_add (Num (4391009636686233 / 35184372088832)) (Num 12) = Num (4813222101752217 / 35184372088832)"
  by (simp only: js_add.simps, rule binary64_small [where n = 7]) (simp_all add: round_even_def)

lemma room1_86: "js_add (Num (4813222101752217 / 35184372088832)) (Num (1080863910568919 / 70368744177664)) = Num (1338413514259169 / 8796093022208)"
  by (simp only: js_add.simps, rule binary64_small [where n = 7]) (simp_all add: round_even_def)

lemma room1_87: "js_mul (Num 0) (Num 24) = Num 0"
  by (simp add: binary64_0)

lemma room1_88: "js_add (Num (1338413514259169 / 8796093022208)) (Num 0) = Num (1338413514259169 / 8796093022208)"
  by (simp only: js_add.simps, rule binary64_small [where n = 7]) (simp_all add: round_even_def)

lemma room1_89: "js_mul (Num (1338413514259169 / 8796093022208)) (Num 100) = Num (4182542232059903 / 274877906944)"
  by (simp only: js_mul.simps, rule binary64_small [where n = 13]) (simp_all add: round_even_def)

lemma room1_90: "Math_round (Num (4182542232059903 / 274877906944)) = Num 15216"
  by simp

lemma room1_91: "js_div (Num 15216) (Num 100) = binary64 152.16"
  by simp

lemma room1_92: "js_mul (Num (1338413514259169 / 8796093022208)) (Num (2589569785738035 / 2251799813685248)) = Num (6156702165592177 / 35184372088832)"
  by (simp only: js_mul.simps, rule binary64_small [where n = 7]) (simp_all add: round_even_def)

lemma room1_93: "js_mul (Num (6156702165592177 / 35184372088832)) (Num 100) = Num (601240445858611 / 34359738368)"
  by (simp only: js_mul.simps, rule binary64_small [where n = 14]) (simp_all add: round_even_def)

lemma room1_94: "Math_round (Num (601240445858611 / 34359738368)) = Num 17498"
  by simp

lemma room1_95: "js_div (Num 17498) (Num 100) = binary64 174.98"
  by simp

lemma room1_96: "js_mul (Num (1351079888211149 / 4503599627370496)) (Num 8) = Num (1351079888211149 / 562949953421312)"
  by (simp only: js_mul.simps, rule binary64_small [where n = 1]) (simp_all add: round_even_def)

lemma room1_97: "js_mul (Num (1351079888211149 / 562949953421312)) (Num 23) = Num (7768709357214107 / 140737488355328)"
  by (simp only: js_mul.simps, rule binary64_small [where n = 5]) (simp_all add: round_even_def)

lemma room1_98: "js_add (Num (7768709357214107 / 140737488355328)) (Num (4531747125041561 / 70368744177664)) = Num (4208050901824307 / 35184372088832)"
  by (simp only: js_add.simps, rule binary64_small [where n = 6]) (simp_all add: round_even_def)

lemma room1_99: "binary64 145.82 = Num (2565292568996741 / 17592186044416)"
  by (rule binary64_small [where n = 7]) (simp_all add: round_even_def)

lemma room1_100: "binary64 182.62 = Num (1606342507715625 / 8796093022208)"
  by (rule binary64_small [where n = 7]) (simp_all add: round_even_def)

lemma room1_101: "binary64 38.53 = Num (1355653856582697 / 35184372088832)"
  by (rule binary64_small [where n = 5]) (simp_all add: round_even_def)

lemma room1_102: "binary64 77.05 = Num (5421911738889011 / 70368744177664)"
  by (rule binary64_small [where n = 6]) (simp_all add: round_even_def)

lemmas room1_steps = room1_1 room1_2 room1_3 room1_4 room1_5 room1_6 room1_7 room1_8
  room1_9 room1_10 room1_11 room1_12 room1_13 room1_14 room1_15 room1_16 room1_17 room1_18
  room1_19 room1_20 room1_21 room1_22 room1_23 room1_24 room1_25 room1_26 room1_27
  room1_28 room1_29 room1_30 room1_31 room1_32 room1_33 room1_34 room1_35 room1_36
  room1_37 room1_38 room1_39 room1_40 room1_41 room1_42 room1_43 room1_44 room1_45
  room1_46 room1_47 room1_48 room1_49 room1_50 room1_51 room1_52 room1_53 room1_54
  room1_55 room1_56 room1_57 room1_58 room1_59 room1_60 room1_61 room1_62 room1_63
  room1_64 room1_65 room1_66 room1_67 room1_68 room1_69 room1_70 room1_71 room1_72
  room1_73 room1_74 room1_75 room1_76 room1_77 room1_78 room1_79 room1_80 room1_81
  room1_82 room1_83 room1_84 room1_85 room1_86 room1_87 room1_88 room1_89 room1_90
  room1_91 room1_92 room1_93 room1_94 room1_95 room1_96 room1_97 room1_98 room1_99
  room1_100 room1_101 room1_102

lemma exact_1: "binary64 (- 3) = Num (- 3)"
  by (rule binary64_small [where n = 1]) (simp_all add: round_even_def)

lemma exact_2: "binary64 (5764607523034235 / 36028797018963968) = Num (5764607523034235 / 36028797018963968)"
  by (rule binary64_frac [where n = 3]) (simp_all add: round_even_def)

lemma exact_3: "binary64 (1 / 4) = Num (1 / 4)"
  by (rule binary64_frac [where n = 2]) (simp_all add: round_even_def)

lemma exact_4: "binary64 (5404319552844595 / 18014398509481984) = Num (5404319552844595 / 18014398509481984)"
  by (rule binary64_frac [where n = 2]) (simp_all add: round_even_def)

lemma exact_5: "binary64 (1 / 2) = Num (1 / 2)"
  by (rule binary64_frac [where n = 1]) (simp_all add: round_even_def)

lemma exact_6: "binary64 (1) = Num 1"
  by (rule binary64_small [where n = 0]) (simp_all add: round_even_def)

lemma exact_7: "binary64 (3152519739159347 / 2251799813685248) = Num (3152519739159347 / 2251799813685248)"
  by (rule binary64_small [where n = 0]) (simp_all add: round_even_def)

lemma exact_8: "binary64 (2) = Num 2"
  by (rule binary64_small [where n = 1]) (simp_all add: round_even_def)

lemma exact_9: "binary64 (5 / 2) = Num (5 / 2)"
  by (rule binary64_small [where n = 1]) (simp_all add: round_even_def)

lemma exact_10: "binary64 (4) = Num 4"
  by (rule binary64_small [where n = 2]) (simp_all add: round_even_def)

lemma exact_11: "binary64 (10) = Num 10"
  by (rule binary64_small [where n = 3]) (simp_all add: round_even_def)

lemma exact_12: "binary64 (20) = Num 20"
  by (rule binary64_small [where n = 4]) (simp_all add: round_even_def)

lemmas exact_steps = exact_1 exact_2 exact_3 exact_4 exact_5 exact_6 exact_7 exact_8
  exact_9 exact_10 exact_11 exact_12


section \<open>Facts about the service\<close>

lemmas CONSTANTS =
  SPECIFIC_HEAT_AIR_def MIN_OUTDOOR_TEMP_def MAX_OUTDOOR_TEMP_def MIN_INDOOR_TEMP_def
  MAX_INDOOR_TEMP_def

lemma binary64_1_2: "binary64 1.2 = Num (5404319552844595 / 4503599627370496)"
  by (rule binary64_small [where n = 0]) (simp_all add: round_even_def)

lemma binary64_1_15: "binary64 1.15 = Num (2589569785738035 / 2251799813685248)"
  by (rule binary64_small [where n = 0]) (simp_all add: round_even_def)

lemma binary64_0_3: "binary64 0.3 = Num (5404319552844595 / 18014398509481984)"
  by (rule binary64_frac [where n = 2]) (simp_all add: round_even_def)

lemma binary64_1_4: "binary64 1.4 = Num (3152519739159347 / 2251799813685248)"
  by (rule binary64_small [where n = 0]) (simp_all add: round_even_def)

lemma binary64_0_16: "binary64 0.16 = Num (5764607523034235 / 36028797018963968)"
  by (rule binary64_frac [where n = 3]) (simp_all add: round_even_def)

lemmas literals = binary64_1_2 binary64_1_15 binary64_0_3 binary64_1_4 binary64_0_16

lemma js_add_NaN [simp]: "js_add a NaN = NaN"
  by (cases a) simp_all

lemma js_mul_NaN [simp]: "js_mul a NaN = NaN"
  by (cases a) simp_all

lemma js_div_NaN [simp]: "js_div a NaN = NaN"
  by (cases a) simp_all

lemma js_sub_NaN [simp]: "js_sub a NaN = NaN" "js_sub NaN b = NaN"
  by (simp_all add: js_sub_def)

lemma Math_pow_10_2: "Math_pow_10 2 = Num 100"
  by (simp add: Math_pow_10_def)

lemma Math_pow_10_3: "Math_pow_10 3 = Num 1000"
  by (simp add: Math_pow_10_def)

lemma round_num_0: "round_num (Num 0) p = Num 0"
  by (simp add: round_num_def Math_pow_10_def binary64_0)

lemma round_num_NaN: "round_num NaN p = NaN"
  by (simp add: round_num_def Math_pow_10_def)

lemma round_num_PosInfinity: "round_num PosInfinity p = PosInfinity"
  by (simp add: round_num_def Math_pow_10_def)

lemma round_num_NegInfinity: "round_num NegInfinity p = NegInfinity"
  by (simp add: round_num_def Math_pow_10_def)

lemma validateInputs_Inr_iff:
  "validateInputs room params = Inr () \<longleftrightarrow>
     \<not> js_le (area room) (Num 0) \<and> \<not> js_le (volume room) (Num 0) \<and>
     \<not> js_le (ceilingHeight room) (Num 0) \<and>
     \<not> js_lt (outdoorTemp params) (Num (- 20)) \<and> \<not> js_lt (Num 15) (outdoorTemp params) \<and>
     \<not> js_lt (indoorTemp params) (Num 15) \<and> \<not> js_lt (Num 25) (indoorTemp params) \<and>
     \<not> js_le (indoorTemp params) (outdoorTemp params) \<and>
     \<not> js_le (wallUValue params) (Num 0) \<and> \<not> js_lt (Num 10) (wallUValue params) \<and>
     \<not> js_le (windowUValue params) (Num 0) \<and> \<not> js_lt (Num 10) (windowUValue params) \<and>
     \<not> js_le (floorUValue params) (Num 0) \<and> \<not> js_lt (Num 10) (floorUValue params) \<and>
     \<not> js_le (ceilingUValue params) (Num 0) \<and> \<not> js_lt (Num 10) (ceilingUValue params) \<and>
     \<not> js_lt (airChangeRate params) (Num 0) \<and> \<not> js_lt (Num 10) (airChangeRate params)"
  unfolding validateInputs_def CONSTANTS js_gt_def by simp

lemma validateInputs_cases:
  "validateInputs room params = Inr () \<or> (\<exists>e. validateInputs room params = Inl e)"
  by (cases "validateInputs room params") auto

lemma calculateRoomHeatLoss_invalid:
  "validateInputs room params = Inl e \<Longrightarrow>
   calculateRoomHeatLoss room params w = (Inl e, w\<lparr>ticks := Suc (ticks w)\<rparr>)"
  by (simp add: calculateRoomHeatLoss_def Date_now_def)

lemma calculateRoomHeatLoss_valid:
  "validateInputs room params = Inr () \<Longrightarrow>
   calculateRoomHeatLoss room params w =
     (Inr \<lparr>transmissionLoss =
             round_num (calculateTransmissionLoss room params
               (js_sub (indoorTemp params) (outdoorTemp params))) 2,
           ventilationLoss =
             round_num (calculateVentilationLoss room params
               (js_sub (indoorTemp params) (outdoorTemp params))) 2,
           totalHeatLoss =
             round_num (js_add
               (calculateTransmissionLoss room params
                 (js_sub (indoorTemp params) (outdoorTemp params)))
               (calculateVentilationLoss room params
                 (js_sub (indoorTemp params) (outdoorTemp params)))) 2,
           designHeatLoad =
             round_num (js_mul (js_add
               (calculateTransmissionLoss room params
                 (js_sub (indoorTemp params) (outdoorTemp params)))
               (calculateVentilationLoss room params
                 (js_sub (indoorTemp params) (outdoorTemp params)))) SAFETY_FACTOR) 2,
           safetyFactor = SAFETY_FACTOR,
           method' = ''EN_12831'',
           calculationTimeMs = clock w (Suc (ticks w)) - clock w (ticks w)\<rparr>,
      w\<lparr>ticks := Suc (Suc (ticks w))\<rparr>)"
  by (simp add: calculateRoomHeatLoss_def Date_now_def Let_def)

lemma validateInputs_room1: "validateInputs room1 params1 = Inr ()"
  by (simp only: room1_def params1_def literals) (simp add: validateInputs_Inr_iff)

lemma fst_calculateRoomHeatLoss_Inr:
  "validateInputs room params = Inr () \<Longrightarrow>
   \<exists>res. fst (calculateRoomHeatLoss room params w) = Inr res"
  by (simp add: calculateRoomHeatLoss_valid)

lemma validateInputs_area_0:
  "area room = Num 0 \<Longrightarrow>
   validateInputs room params = Inl (Error ''Room area must be greater than 0'')"
  by (simp add: validateInputs_def)

lemma validateInputs_informational:
  assumes "area r2 = area r1" "volume r2 = volume r1" "ceilingHeight r2 = ceilingHeight r1"
  shows "validateInputs r2 params = validateInputs r1 params"
  using assms by (simp add: validateInputs_def)

lemma map_rooms_Cons:
  "map_rooms (room # rest) params w =
     (map_sum (\<lambda>e. e) (\<lambda>res. \<lparr>roomId = id' room, result = res\<rparr>)
        (fst (calculateRoomHeatLoss room params w)) #
      fst (map_rooms rest params (snd (calculateRoomHeatLoss room params w))),
      snd (map_rooms rest params (snd (calculateRoomHeatLoss room params w))))"
  by (simp add: split_beta Let_def)

declare map_rooms.simps(2) [simp del]

lemma Promise_all_map_Inr: "Promise_all (map Inr es) = Inr es"
  by (induction es) simp_all

lemma Promise_all_first_error:
  assumes "List.find (\<lambda>r. validateInputs r params \<noteq> Inr ()) rooms = Some r0"
    and "validateInputs r0 params = Inl e0"
  shows "Promise_all (fst (map_rooms rooms params w)) = Inl e0"
  using assms
proof (induction rooms arbitrary: w)
  case Nil
  then show ?case by simp
next
  case (Cons room rest)
  show ?case
  proof (cases "validateInputs room params = Inr ()")
    case True
    with Cons.prems have "List.find (\<lambda>r. validateInputs r params \<noteq> Inr ()) rest = Some r0"
      by simp
    then have "Promise_all (fst (map_rooms rest params w1)) = Inl e0" for w1
      using Cons.prems(2) by (rule Cons.IH)
    with True show ?thesis
      by (simp add: map_rooms_Cons calculateRoomHeatLoss_valid)
  next
    case False
    with Cons.prems have "validateInputs room params = Inl e0" by simp
    then show ?thesis
      by (simp add: map_rooms_Cons calculateRoomHeatLoss_invalid)
  qed
qed

lemma find_invalid_room:
  assumes "room \<in> set rooms" and "validateInputs room params = Inl e"
  shows "\<exists>r0 e0. List.find (\<lambda>r. validateInputs r params \<noteq> Inr ()) rooms = Some r0 \<and>
     r0 \<in> set rooms \<and> validateInputs r0 params = Inl e0"
proof (cases "List.find (\<lambda>r. validateInputs r params \<noteq> Inr ()) rooms")
  case None
  with assms show ?thesis by (auto simp add: find_None_iff)
next
  case (Some r0)
  then have "r0 \<in> set rooms" "validateInputs r0 params \<noteq> Inr ()"
    by (auto simp add: find_Some_iff)
  moreover from this(2) obtain e0 where "validateInputs r0 params = Inl e0"
    using validateInputs_cases [of r0 params] by auto
  ultimately show ?thesis using Some by blast
qed


lemma Math_pow_1_3_0: "Math_pow_1_3 approx (Num 0) = Num 0"
  by simp


lemma Math_pow_1_3_neg: "x < 0 \<Longrightarrow> Math_pow_1_3 approx (Num x) = NaN"
  by simp




lemma binary64_nonpos:
  assumes "x \<le> 0"
  shows "binary64 x = NegInfinity \<or> (\<exists>q\<le>0. binary64 x = Num q)"
proof -
  from nearest_mono [OF assms] have "nearest x \<le> 0" by simp
  then show ?thesis by (simp add: binary64_def Let_def)
qed

lemma js_sub_nonpos:
  assumes "js_le (js_sub a b) (Num 0)"
  shows "js_sub a b = NegInfinity \<or> (\<exists>y\<le>0. js_sub a b = Num y)"
  using assms by (cases "js_sub a b") simp_all

lemma js_div_50_nonpos:
  assumes "js_le a (Num 0)"
  shows "js_div a (Num 50) = NegInfinity \<or> (\<exists>q\<le>0. js_div a (Num 50) = Num q)"
proof (cases a)
  case (Num y)
  with assms have "y / 50 \<le> 0" by simp
  from binary64_nonpos [OF this] Num show ?thesis by simp
qed (use assms in simp_all)

lemma round_num_div_0:
  "round_num (js_div d (Num 0)) 2 =
     (if js_lt (Num 0) d then PosInfinity else if js_lt d (Num 0) then NegInfinity else NaN)"
  by (cases d) (simp_all add: round_num_PosInfinity round_num_NegInfinity round_num_NaN)

lemma round_num_div_PosInfinity:
  "round_num (js_div d PosInfinity) 2 = (case d of Num v \<Rightarrow> Num 0 | _ \<Rightarrow> NaN)"
  by (cases d) (simp_all add: round_num_0 round_num_NaN)

section \<open>The error of a rounding, and the design heat load against the total\<close>

lemma round_even_error: "\<bar>of_int (round_even m) - m\<bar> \<le> 1 / 2"
proof -
  have "of_int \<lfloor>m\<rfloor> \<le> m" "m < of_int \<lfloor>m\<rfloor> + 1" by linarith+
  then show ?thesis by (auto simp add: round_even_def Let_def)
qed

lemma ulp_le: "ulp x \<le> \<bar>x\<bar> / 2 ^ 52 + 1 / 2 ^ 59"
proof (cases "x \<noteq> 0 \<and> - 1022 < expo x")
  case True
  then have "2 powr of_int (expo x) \<le> \<bar>x\<bar>" by (simp add: expo_le_abs)
  then have "2 ^ 52 * ulp x \<le> \<bar>x\<bar>" by (simp only: ulp_scale')
  then have "ulp x \<le> \<bar>x\<bar> / 2 ^ 52" by (simp add: pos_le_divide_eq mult.commute)
  then show ?thesis by simp
next
  case False
  with expo_ge [of x] have "expo x = - 1022" by (auto simp add: expo_def)
  then have "ulp x = 2 powr of_int (- int 1074)" by (simp add: ulp_def)
  also have "\<dots> \<le> 2 powr of_int (- int 59)" by simp
  also have "\<dots> = 1 / 2 ^ 59" by (rule two_powr_neg)
  finally have "ulp x \<le> 1 / 2 ^ 59" .
  moreover have "0 \<le> \<bar>x\<bar> / 2 ^ 52" by simp
  ultimately show ?thesis by linarith
qed

lemma nearest_error: "\<bar>nearest x - x\<bar> \<le> \<bar>x\<bar> / 2 ^ 53 + 1 / 2 ^ 60"
proof -
  define u where "u = ulp x"
  have u: "0 < u" by (simp add: u_def)
  have "(of_int (round_even (x / u)) - x / u) * u = of_int (round_even (x / u)) * u - x"
    using u by (simp add: left_diff_distrib)
  then have "nearest x - x = (of_int (round_even (x / u)) - x / u) * u"
    by (simp add: nearest_def u_def)
  then have "\<bar>nearest x - x\<bar> = \<bar>of_int (round_even (x / u)) - x / u\<bar> * u"
    using u by (simp add: abs_mult)
  also have "\<dots> \<le> 1 / 2 * u"
    using round_even_error [of "x / u"] u by (intro mult_right_mono) simp_all
  finally have "\<bar>nearest x - x\<bar> \<le> u / 2" by simp
  moreover from ulp_le [of x] have "u / 2 \<le> \<bar>x\<bar> / 2 ^ 53 + 1 / 2 ^ 60"
    by (simp add: u_def)
  ultimately show ?thesis by linarith
qed

lemma round_num_Num:
  assumes "round_num (Num v) 2 = Num r"
  shows "r = nearest (of_int \<lfloor>nearest (v * 100) + 1 / 2\<rfloor> / 100)"
proof (cases "binary64 (v * 100)")
  case (Num a)
  then have a: "a = nearest (v * 100)" by (rule binary64_eq_Num)
  from assms Num have "binary64 (of_int \<lfloor>a + 1 / 2\<rfloor> / 100) = Num r"
    by (simp add: round_num_def Math_pow_10_def)
  then show ?thesis unfolding a by (rule binary64_eq_Num)
qed (use assms in \<open>simp_all add: round_num_def Math_pow_10_def\<close>)

lemma round_num_error:
  assumes "round_num (Num v) 2 = Num r"
  shows "\<bar>r - v\<bar> \<le> 1 / 200 + \<bar>v\<bar> / 2 ^ 51 + 1 / 2 ^ 50"
proof -
  define a where "a = nearest (v * 100)"
  define n :: real where "n = of_int \<lfloor>a + 1 / 2\<rfloor>"
  from round_num_Num [OF assms] have r: "r = nearest (n / 100)" by (simp add: a_def n_def)
  have 1: "\<bar>a - v * 100\<bar> \<le> \<bar>v * 100\<bar> / 2 ^ 53 + 1 / 2 ^ 60"
    unfolding a_def by (rule nearest_error)
  have 2: "\<bar>n - a\<bar> \<le> 1 / 2" unfolding n_def by linarith
  have 3: "\<bar>r - n / 100\<bar> \<le> \<bar>n / 100\<bar> / 2 ^ 53 + 1 / 2 ^ 60"
    unfolding r by (rule nearest_error)
  have 4: "\<bar>v * 100\<bar> = 100 * \<bar>v\<bar>" "\<bar>n / 100\<bar> = \<bar>n\<bar> / 100" by simp_all
  have p: "(2::real) ^ 53 = 9007199254740992" "(2::real) ^ 60 = 1152921504606846976"
    "(2::real) ^ 51 = 2251799813685248" "(2::real) ^ 50 = 1125899906842624"
    by simp_all
  from 1 2 3 show ?thesis unfolding 4 p by linarith
qed

lemma binary64_idem: "binary64 x = Num y \<Longrightarrow> binary64 y = Num y"
  by (auto simp add: binary64_def Let_def nearest_nearest split: if_splits)

lemma is_double_binary64: "is_double (binary64 x)"
  by (cases "binary64 x") (simp_all add: is_double_def binary64_idem)

lemma is_double_js_add: "is_double (js_add a b)"
  by (cases a; cases b) (simp_all add: is_double_binary64, simp_all add: is_double_def)

lemma round_num_nonpos:
  assumes "x \<le> 0"
  shows "js_le (round_num (Num x) 2) (Num 0)"
proof -
  from assms have "x * 100 \<le> 0" by simp
  from binary64_nonpos [OF this] show ?thesis
  proof
    assume "binary64 (x * 100) = NegInfinity"
    then show ?thesis by (simp add: round_num_def Math_pow_10_def)
  next
    assume "\<exists>q\<le>0. binary64 (x * 100) = Num q"
    then obtain q where q: "q \<le> 0" "binary64 (x * 100) = Num q" by blast
    then have "\<lfloor>q + 1 / 2\<rfloor> \<le> 0" by (simp add: floor_le_iff)
    then have "(of_int \<lfloor>q + 1 / 2\<rfloor> :: real) / 100 \<le> 0" by simp
    from binary64_nonpos [OF this] q(2) show ?thesis
      by (auto simp add: round_num_def Math_pow_10_def)
  qed
qed

lemma round_num_pos:
  assumes "js_lt (Num 0) (round_num a 2)"
  shows "js_lt (Num 0) a"
proof (cases a)
  case (Num x)
  show ?thesis
  proof (rule ccontr)
    assume "\<not> js_lt (Num 0) a"
    with Num have "x \<le> 0" by simp
    from round_num_nonpos [OF this] assms Num show False
      by (cases "round_num (Num x) 2") simp_all
  qed
qed (use assms in \<open>simp_all add: round_num_NaN round_num_NegInfinity\<close>)

lemma SAFETY_FACTOR_ge_1: "\<exists>c. SAFETY_FACTOR = Num c \<and> 1 \<le> c \<and> c \<le> 1.15 \<and> 1.15 - c \<le> 1 / 2 ^ 53"
  unfolding SAFETY_FACTOR_def binary64_1_15
  by (intro exI [of _ "2589569785738035 / 2251799813685248"]) simp

lemma design_ge_total:
  assumes "is_double t" and "js_lt (Num 0) (round_num t 2)"
  shows "js_le (round_num t 2) (round_num (js_mul t SAFETY_FACTOR) 2)"
proof -
  from SAFETY_FACTOR_ge_1 obtain c where c: "SAFETY_FACTOR = Num c" "1 \<le> c" by blast
  from assms(2) have p: "js_lt (Num 0) t" by (rule round_num_pos)
  then have n: "js_le (Num 0) t" by (cases t) simp_all
  have "js_le t (js_mul t SAFETY_FACTOR)"
  proof (cases t)
    case (Num x)
    with p have "0 < x" by simp
    with c(2) have "x * 1 \<le> x * c" by (intro mult_left_mono) simp_all
    then have "js_le (binary64 x) (binary64 (x * c))" by (simp add: binary64_mono)
    with assms(1) Num show ?thesis by (simp add: c(1) is_double_def)
  next
    case PosInfinity
    with c(2) show ?thesis by (simp add: c(1))
  qed (use p in simp_all)
  with n show ?thesis by (rule round_num_mono)
qed

lemma round_num_Num_arg: "round_num a 2 = Num r \<Longrightarrow> \<exists>v. a = Num v"
  by (cases a) (simp_all add: round_num_NaN round_num_PosInfinity round_num_NegInfinity)

lemma design_total_bound:
  assumes "round_num t 2 = Num T" and "round_num (js_mul t SAFETY_FACTOR) 2 = Num D"
  shows "\<bar>D - 1.15 * T\<bar> \<le> 0.011 + \<bar>T\<bar> / 2 ^ 49"
proof -
  from SAFETY_FACTOR_ge_1 obtain c
    where c: "SAFETY_FACTOR = Num c" "1 \<le> c" "c \<le> 1.15" "1.15 - c \<le> 1 / 2 ^ 53"
    by blast
  from round_num_Num_arg [OF assms(1)] obtain v where v: "t = Num v" by blast
  from round_num_Num_arg [OF assms(2)] obtain P where P: "js_mul t SAFETY_FACTOR = Num P"
    by blast
  then have "binary64 (v * c) = Num P" by (simp add: v c(1))
  then have "P = nearest (v * c)" by (rule binary64_eq_Num)
  with nearest_error [of "v * c"]
  have 1: "\<bar>P - v * c\<bar> \<le> \<bar>v * c\<bar> / 2 ^ 53 + 1 / 2 ^ 60" by simp
  from assms(1) have "round_num (Num v) 2 = Num T" by (simp add: v)
  then have 2: "\<bar>T - v\<bar> \<le> 1 / 200 + \<bar>v\<bar> / 2 ^ 51 + 1 / 2 ^ 50"
    by (rule round_num_error)
  from assms(2) have "round_num (Num P) 2 = Num D" by (simp add: P)
  then have 3: "\<bar>D - P\<bar> \<le> 1 / 200 + \<bar>P\<bar> / 2 ^ 51 + 1 / 2 ^ 50"
    by (rule round_num_error)
  have 4: "\<bar>v * c\<bar> \<le> 1.15 * \<bar>v\<bar>"
  proof -
    from c(2) have "\<bar>v * c\<bar> = c * \<bar>v\<bar>" by (simp add: abs_mult)
    also from c(3) have "\<dots> \<le> 1.15 * \<bar>v\<bar>" by (intro mult_right_mono) simp_all
    finally show ?thesis .
  qed
  have 5: "\<bar>v * c - 1.15 * v\<bar> \<le> \<bar>v\<bar> / 2 ^ 53"
  proof -
    have "v * c - 1.15 * v = v * (c - 1.15)" by (simp add: algebra_simps)
    then have "\<bar>v * c - 1.15 * v\<bar> = \<bar>v\<bar> * \<bar>c - 1.15\<bar>" by (simp only: abs_mult)
    also from c(3) have "\<dots> = \<bar>v\<bar> * (1.15 - c)" by simp
    also from c(4) have "\<dots> \<le> \<bar>v\<bar> * (1 / 2 ^ 53)" by (intro mult_left_mono) simp_all
    finally show ?thesis by simp
  qed
  have p: "(2::real) ^ 53 = 9007199254740992" "(2::real) ^ 60 = 1152921504606846976"
    "(2::real) ^ 51 = 2251799813685248" "(2::real) ^ 50 = 1125899906842624"
    "(2::real) ^ 49 = 562949953421312"
    by simp_all
  define eP where "eP = \<bar>P - v * c\<bar>"
  define eT where "eT = \<bar>T - v\<bar>"
  define eD where "eD = \<bar>D - P\<bar>"
  define ec where "ec = \<bar>v * c - 1.15 * v\<bar>"
  define av where "av = \<bar>v\<bar>"
  define aP where "aP = \<bar>P\<bar>"
  define aT where "aT = \<bar>T\<bar>"
  define aw where "aw = \<bar>v * c\<bar>"
  have 6: "av \<le> aT + eT" unfolding av_def aT_def eT_def by linarith
  have 7: "aP \<le> aw + eP" unfolding aP_def aw_def eP_def by linarith
  have 8: "\<bar>D - 1.15 * T\<bar> \<le> eD + eP + ec + 1.15 * eT"
  proof -
    define x1 where "x1 = D - P"
    define x2 where "x2 = P - v * c"
    define x3 where "x3 = v * c - 1.15 * v"
    define x4 where "x4 = v - T"
    have "D - 1.15 * T = x1 + x2 + x3 + 23 / 20 * x4"
      by (simp add: x1_def x2_def x3_def x4_def field_simps)
    moreover have "\<bar>x1 + x2 + x3 + 23 / 20 * x4\<bar> \<le> \<bar>x1\<bar> + \<bar>x2\<bar> + \<bar>x3\<bar> + 23 / 20 * \<bar>x4\<bar>"
      by linarith
    moreover have "\<bar>x4\<bar> = eT" by (simp add: x4_def eT_def abs_minus_commute)
    ultimately show ?thesis by (simp add: x1_def x2_def x3_def eD_def eP_def ec_def)
  qed
  have 9: "0 \<le> aT" "0 \<le> av" by (simp_all add: aT_def av_def)
  from 1 2 3 4 5 have "eP \<le> aw / 2 ^ 53 + 1 / 2 ^ 60"
    "eT \<le> 1 / 200 + av / 2 ^ 51 + 1 / 2 ^ 50" "eD \<le> 1 / 200 + aP / 2 ^ 51 + 1 / 2 ^ 50"
    "aw \<le> 1.15 * av" "ec \<le> av / 2 ^ 53"
    by (simp_all only: eP_def eT_def eD_def ec_def av_def aP_def aw_def)
  with 6 7 9 have "eD + eP + ec + 1.15 * eT \<le> 0.011 + aT / 2 ^ 49"
    unfolding p by (simp; linarith)
  with 8 show ?thesis unfolding aT_def by linarith
qed

lemma design_gt_total:
  assumes "is_double t" and "round_num t 2 = Num T" and "0.08 \<le> T"
  shows "js_lt (round_num t 2) (round_num (js_mul t SAFETY_FACTOR) 2)"
proof -
  from assms(2,3) have "js_lt (Num 0) (round_num t 2)" by simp
  with assms(1) have l: "js_le (round_num t 2) (round_num (js_mul t SAFETY_FACTOR) 2)"
    by (rule design_ge_total)
  show ?thesis
  proof (cases "round_num (js_mul t SAFETY_FACTOR) 2")
    case (Num D)
    from design_total_bound [OF assms(2) Num]
    have "\<bar>D - 1.15 * T\<bar> \<le> 0.011 + \<bar>T\<bar> / 2 ^ 49" .
    moreover have "(2::real) ^ 49 = 562949953421312" by simp
    ultimately have "T < D" using assms(3) by (simp; linarith)
    with Num assms(2) show ?thesis by simp
  qed (use l assms(2) in simp_all)
qed


section \<open>The rooms of a building\<close>

lemma map_rooms_valid:
  assumes "\<forall>r \<in> set rooms. validateInputs r params = Inr ()"
  shows "\<exists>es. map_rooms rooms params w =
       (map Inr es, w\<lparr>ticks := ticks w + 2 * length rooms\<rparr>) \<and>
     length es = length rooms \<and>
     (\<forall>i<length rooms.
        roomId (es ! i) = id' (rooms ! i) \<and>
        calculateRoomHeatLoss (rooms ! i) params (w\<lparr>ticks := ticks w + 2 * i\<rparr>) =
          (Inr (result (es ! i)), w\<lparr>ticks := ticks w + 2 * i + 2\<rparr>))"
  using assms
proof (induction rooms arbitrary: w)
  case Nil
  then show ?case by simp
next
  case (Cons room rest)
  from Cons.prems have v: "validateInputs room params = Inr ()" by simp
  let ?w1 = "w\<lparr>ticks := Suc (Suc (ticks w))\<rparr>"
  from calculateRoomHeatLoss_valid [OF v, of w] obtain res0
    where c: "calculateRoomHeatLoss room params w = (Inr res0, ?w1)"
    by blast
  from Cons.prems have "\<forall>r \<in> set rest. validateInputs r params = Inr ()" by simp
  from Cons.IH [OF this, of ?w1] obtain es
    where m: "map_rooms rest params ?w1 =
        (map Inr es, ?w1\<lparr>ticks := ticks ?w1 + 2 * length rest\<rparr>)"
      and l: "length es = length rest"
      and n: "\<And>i. i < length rest \<Longrightarrow>
        roomId (es ! i) = id' (rest ! i) \<and>
        calculateRoomHeatLoss (rest ! i) params (?w1\<lparr>ticks := ticks ?w1 + 2 * i\<rparr>) =
          (Inr (result (es ! i)), ?w1\<lparr>ticks := ticks ?w1 + 2 * i + 2\<rparr>)"
    by blast
  let ?es = "\<lparr>roomId = id' room, result = res0\<rparr> # es"
  have 1: "map_rooms (room # rest) params w =
      (map Inr ?es, w\<lparr>ticks := ticks w + 2 * length (room # rest)\<rparr>)"
    by (simp add: map_rooms_Cons c m)
  have 2: "length ?es = length (room # rest)" using l by simp
  have 3: "roomId (?es ! i) = id' ((room # rest) ! i) \<and>
        calculateRoomHeatLoss ((room # rest) ! i) params (w\<lparr>ticks := ticks w + 2 * i\<rparr>) =
          (Inr (result (?es ! i)), w\<lparr>ticks := ticks w + 2 * i + 2\<rparr>)"
    if "i < length (room # rest)" for i
  proof (cases i)
    case 0
    with c show ?thesis by simp
  next
    case (Suc j)
    with that have "j < length rest" by simp
    from n [OF this] Suc show ?thesis by simp
  qed
  from 1 2 3 show ?case by blast
qed

lemma calculateRoomHeatLoss_Inr_valid:
  assumes "calculateRoomHeatLoss room params w = (Inr res, w')"
  shows "validateInputs room params = Inr ()"
proof (cases "validateInputs room params")
  case (Inl e)
  with assms show ?thesis by (simp add: calculateRoomHeatLoss_invalid)
next
  case (Inr u)
  then show ?thesis by simp
qed

lemma calculateRoomHeatLoss_clock:
  assumes "calculateRoomHeatLoss room params w = (Inr res, w')"
  shows "\<exists>res0 w0'. calculateRoomHeatLoss room params w0 = (Inr res0, w0') \<and>
     res0\<lparr>calculationTimeMs := calculationTimeMs res\<rparr> = res"
proof -
  from assms have v: "validateInputs room params = Inr ()"
    by (rule calculateRoomHeatLoss_Inr_valid)
  from assms show ?thesis
    unfolding calculateRoomHeatLoss_valid [OF v] by auto
qed

lemma calculateRoomHeatLoss_timeless:
  assumes "calculateRoomHeatLoss room params w = (Inr res, w1)"
    and "calculateRoomHeatLoss room params w' = (Inr res', w1')"
  shows "timeless res = timeless res'"
proof -
  from assms(1) have v: "validateInputs room params = Inr ()"
    by (rule calculateRoomHeatLoss_Inr_valid)
  from assms show ?thesis
    unfolding calculateRoomHeatLoss_valid [OF v] by (auto simp add: timeless_def)
qed

lemma map_rooms_timeless:
  assumes "\<forall>r \<in> set rooms. validateInputs r params = Inr ()"
  shows "\<exists>es. fst (map_rooms rooms params w) = map Inr es \<and>
     map (\<lambda>e. (roomId e, timeless (result e))) es =
       map (\<lambda>r. (id' r, timeless (projr (fst (calculateRoomHeatLoss r params w0))))) rooms"
  using assms
proof (induction rooms arbitrary: w)
  case Nil
  then show ?case by simp
next
  case (Cons room rest)
  from Cons.prems have v: "validateInputs room params = Inr ()" by simp
  from Cons.prems have "\<forall>r \<in> set rest. validateInputs r params = Inr ()" by simp
  from Cons.IH [OF this] obtain es
    where m: "fst (map_rooms rest params (snd (calculateRoomHeatLoss room params w))) =
        map Inr es"
      and t: "map (\<lambda>e. (roomId e, timeless (result e))) es =
        map (\<lambda>r. (id' r, timeless (projr (fst (calculateRoomHeatLoss r params w0))))) rest"
    by blast
  from calculateRoomHeatLoss_valid [OF v, of w] obtain res w1
    where c: "calculateRoomHeatLoss room params w = (Inr res, w1)" by blast
  from calculateRoomHeatLoss_valid [OF v, of w0] obtain res0 w2
    where c0: "calculateRoomHeatLoss room params w0 = (Inr res0, w2)" by blast
  from c c0 have e: "timeless res = timeless res0" by (rule calculateRoomHeatLoss_timeless)
  let ?es = "\<lparr>roomId = id' room, result = res\<rparr> # es"
  from m c have "fst (map_rooms (room # rest) params w) = map Inr ?es"
    by (simp add: map_rooms_Cons)
  moreover from t e c0
  have "map (\<lambda>e. (roomId e, timeless (result e))) ?es =
      map (\<lambda>r. (id' r, timeless (projr (fst (calculateRoomHeatLoss r params w0)))))
        (room # rest)"
    by simp
  ultimately show ?case by blast
qed

lemma calculateBuildingHeatLoss_all_valid:
  assumes "\<forall>r \<in> set rooms. validateInputs r params = Inr ()"
  shows "\<exists>es. calculateBuildingHeatLoss rooms params w =
       (Inr \<lparr>rooms_bldg = es,
             totalHeatLoss_bldg =
               round_num (foldl (\<lambda>sum r. js_add sum (totalHeatLoss (result r))) (Num 0) es) 2,
             totalDesignLoad_bldg =
               round_num (foldl (\<lambda>sum r. js_add sum (designHeatLoad (result r))) (Num 0) es)
                 2\<rparr>,
        w\<lparr>ticks := ticks w + 2 * length rooms\<rparr>) \<and>
     length es = length rooms \<and>
     (\<forall>i<length rooms.
        roomId (es ! i) = id' (rooms ! i) \<and>
        calculateRoomHeatLoss (rooms ! i) params (w\<lparr>ticks := ticks w + 2 * i\<rparr>) =
          (Inr (result (es ! i)), w\<lparr>ticks := ticks w + 2 * i + 2\<rparr>)) \<and>
     map (\<lambda>e. (roomId e, timeless (result e))) es =
       map (\<lambda>r. (id' r, timeless (projr (fst (calculateRoomHeatLoss r params w0))))) rooms"
proof -
  from map_rooms_valid [OF assms, of w] obtain es
    where m: "map_rooms rooms params w =
        (map Inr es, w\<lparr>ticks := ticks w + 2 * length rooms\<rparr>)"
      and l: "length es = length rooms"
      and n: "\<forall>i<length rooms.
        roomId (es ! i) = id' (rooms ! i) \<and>
        calculateRoomHeatLoss (rooms ! i) params (w\<lparr>ticks := ticks w + 2 * i\<rparr>) =
          (Inr (result (es ! i)), w\<lparr>ticks := ticks w + 2 * i + 2\<rparr>)"
    by blast
  from map_rooms_timeless [OF assms, of w w0] m
  have t: "map (\<lambda>e. (roomId e, timeless (result e))) es =
      map (\<lambda>r. (id' r, timeless (projr (fst (calculateRoomHeatLoss r params w0))))) rooms"
    by (auto simp add: inj_map_eq_map)
  have "calculateBuildingHeatLoss rooms params w =
       (Inr \<lparr>rooms_bldg = es,
             totalHeatLoss_bldg =
               round_num (foldl (\<lambda>sum r. js_add sum (totalHeatLoss (result r))) (Num 0) es) 2,
             totalDesignLoad_bldg =
               round_num (foldl (\<lambda>sum r. js_add sum (designHeatLoad (result r))) (Num 0) es)
                 2\<rparr>,
        w\<lparr>ticks := ticks w + 2 * length rooms\<rparr>)"
    by (simp add: calculateBuildingHeatLoss_def m Promise_all_map_Inr)
  with l n t show ?thesis by blast
qed

section \<open>Monotonicity of the two losses\<close>

lemma finite_number_Num:
  assumes "finite_number a"
  obtains x where "a = Num x" and "nearest x = x"
proof (cases a)
  case (Num x)
  with assms have "binary64 x = Num x" by (simp add: finite_number_def)
  from binary64_eq_Num [OF this] Num that show ?thesis by simp
qed (use assms in \<open>simp_all add: finite_number_def\<close>)

lemma finite_number_ex: "finite_number a \<Longrightarrow> \<exists>x. a = Num x \<and> nearest x = x"
  by (erule finite_number_Num) simp

lemma grid_16:
  assumes "nearest x = x" and "8 \<le> x" and "x < 16"
  shows "\<exists>m::int. x = of_int m / 2 ^ 49"
proof -
  from assms(2,3) have "2 ^ 3 \<le> \<bar>x\<bar>" "\<bar>x\<bar> < 2 ^ Suc 3" by simp_all
  then have "nearest x = of_int (round_even (x * 2 ^ (52 - 3))) / 2 ^ (52 - 3)"
    by (rule nearest_binade_small) simp
  with assms(1) have "x = of_int (round_even (x * 2 ^ 49)) / 2 ^ 49" by simp
  then show ?thesis ..
qed

lemma nearest_1: "nearest 1 = 1"
  using nearest_of_int [of 1] by simp

lemma nearest_45: "nearest 45 = 45"
  using nearest_of_int [of 45] by simp

lemma temperature_difference_pos:
  assumes "nearest i = i" and "nearest o' = o'"
    and "15 \<le> i" and "i \<le> 25" and "- 20 \<le> o'" and "o' \<le> 15" and "o' < i"
  shows "\<exists>d. binary64 (i - o') = Num d \<and> 0 < d"
proof -
  have u: "nearest (i - o') \<le> 45"
    using nearest_mono [of "i - o'" 45] assms(4,5) by (simp add: nearest_45)
  have p: "0 < nearest (i - o')"
  proof (cases "1 \<le> i - o'")
    case True
    from nearest_mono [OF this] show ?thesis by (simp add: nearest_1)
  next
    case False
    with assms(3,6) have "8 \<le> i" "i < 16" "8 \<le> o'" "o' < 16" by simp_all
    with assms(1,2) grid_16 [of i] grid_16 [of o'] obtain mi mo :: int
      where m: "i = of_int mi / 2 ^ 49" "o' = of_int mo / 2 ^ 49" by blast
    then have e: "i - o' = of_int (mi - mo) / 2 ^ 49" by (simp add: diff_divide_distrib)
    from assms(7) m have "(of_int mo :: real) < of_int mi"
      by (simp add: divide_less_cancel)
    then have 1: "0 < mi - mo" by simp
    from False e have "(of_int (mi - mo) :: real) < 2 ^ 49" by (simp add: field_simps)
    then have "mi - mo < 2 ^ 49" by (metis of_int_less_iff of_int_numeral of_int_power)
    with 1 have "\<bar>mi - mo\<bar> < 2 ^ 53" by simp
    then have "nearest (of_int (mi - mo) / 2 ^ 49) = of_int (mi - mo) / 2 ^ 49"
      by (rule nearest_dyadic) simp
    then have "nearest (i - o') = of_int (mi - mo) / 2 ^ 49" by (simp only: e)
    moreover from 1 have "(0::real) < of_int (mi - mo) / 2 ^ 49" by simp
    ultimately show ?thesis by (simp only:)
  qed
  from u p have "binary64 (i - o') = Num (nearest (i - o'))"
    by (simp add: binary64_def Let_def)
  with p show ?thesis by blast
qed

lemma loss_term_mono:
  assumes "js_le (Num 0) e" and "0 < u" and "u \<le> u'" and "0 < d" and "d \<le> d'"
  shows "js_le (Num 0) (js_mul (js_mul (Num u) e) (Num d))"
    and "js_le (js_mul (js_mul (Num u) e) (Num d)) (js_mul (js_mul (Num u') e) (Num d'))"
proof -
  from assms(1) have "e \<noteq> NaN" by (auto dest: js_le_not_NaN)
  then have r: "js_le e e" by (rule js_le_refl)
  from assms(1,2) have n: "js_le (Num 0) (js_mul e (Num u))" by (rule js_mul_nonneg)
  from assms(1) r assms(2,3) have m: "js_le (js_mul e (Num u)) (js_mul e (Num u'))"
    by (rule js_mul_mono)
  from n assms(4) show "js_le (Num 0) (js_mul (js_mul (Num u) e) (Num d))"
    unfolding js_mul_commute [of "Num u" e] by (rule js_mul_nonneg)
  from n m assms(4,5)
  show "js_le (js_mul (js_mul (Num u) e) (Num d)) (js_mul (js_mul (Num u') e) (Num d'))"
    unfolding js_mul_commute [of "Num u" e] js_mul_commute [of "Num u'" e]
    by (rule js_mul_mono)
qed

lemma calculateTransmissionLoss_mono:
  assumes "js_le (Num 0) (effectiveWallArea room)"
    and "js_le (Num 0) (effectiveWindowArea room)"
    and "area room = Num a" and "0 < a"
    and "wallUValue p = Num u1" and "wallUValue p' = Num u1'" and "0 < u1" and "u1 \<le> u1'"
    and "windowUValue p = Num u2" and "windowUValue p' = Num u2'" and "0 < u2"
    and "u2 \<le> u2'"
    and "floorUValue p = Num u3" and "floorUValue p' = Num u3'" and "0 < u3" and "u3 \<le> u3'"
    and "ceilingUValue p = Num u4" and "ceilingUValue p' = Num u4'" and "0 < u4"
    and "u4 \<le> u4'"
    and "0 < d" and "d \<le> d'"
  shows "js_le (Num 0) (calculateTransmissionLoss room p (Num d))"
    and "js_le (calculateTransmissionLoss room p (Num d))
      (calculateTransmissionLoss room p' (Num d'))"
proof -
  let ?E = "effectiveWallArea room" and ?F = "effectiveWindowArea room"
  let ?wall = "\<lambda>u d. js_mul (js_mul (Num u) ?E) (Num d)"
  let ?window = "\<lambda>u d. js_mul (js_mul (Num u) ?F) (Num d)"
  let ?floor = "\<lambda>u d. js_mul (js_mul (js_mul (Num u) (Num a)) (Num d)) (Num (1 / 2))"
  let ?ceiling = "\<lambda>u d. js_mul (js_mul (Num u) (Num a)) (Num d)"
  have t: "calculateTransmissionLoss room q (Num e) =
      js_add (js_add (js_add (?wall w1 e) (?window w2 e)) (?floor w3 e)) (?ceiling w4 e)"
    if "wallUValue q = Num w1" "windowUValue q = Num w2" "floorUValue q = Num w3"
      "ceilingUValue q = Num w4" for q e w1 w2 w3 w4
    using that assms(3)
    by (simp add: calculateTransmissionLoss_def Let_def effectiveWallArea_def
        effectiveWindowArea_def)
  from assms(4) have a: "js_le (Num 0) (Num a)" by simp
  note d = \<open>0 < d\<close> \<open>d \<le> d'\<close>
  note 1 = loss_term_mono [OF assms(1) \<open>0 < u1\<close> \<open>u1 \<le> u1'\<close> d]
  note 2 = loss_term_mono [OF assms(2) \<open>0 < u2\<close> \<open>u2 \<le> u2'\<close> d]
  note 3 = loss_term_mono [OF a \<open>0 < u3\<close> \<open>u3 \<le> u3'\<close> d]
  note 4 = loss_term_mono [OF a \<open>0 < u4\<close> \<open>u4 \<le> u4'\<close> d]
  have h: "(0::real) < 1 / 2" "(1 / 2 :: real) \<le> 1 / 2" by simp_all
  from 3(1) h(1) have 5: "js_le (Num 0) (?floor u3 d)" by (rule js_mul_nonneg)
  from 3 h have 6: "js_le (?floor u3 d) (?floor u3' d')" by (rule js_mul_mono)
  from 1(1) 2(1) have 7: "js_le (Num 0) (js_add (?wall u1 d) (?window u2 d))"
    by (rule js_add_nonneg)
  from 1 2 have 8: "js_le (js_add (?wall u1 d) (?window u2 d))
      (js_add (?wall u1' d') (?window u2' d'))"
    by (rule js_add_mono)
  from 7 5 have 9: "js_le (Num 0) (js_add (js_add (?wall u1 d) (?window u2 d)) (?floor u3 d))"
    by (rule js_add_nonneg)
  from 7 8 5 6 have 10: "js_le (js_add (js_add (?wall u1 d) (?window u2 d)) (?floor u3 d))
      (js_add (js_add (?wall u1' d') (?window u2' d')) (?floor u3' d'))"
    by (rule js_add_mono)
  from 9 4(1) show "js_le (Num 0) (calculateTransmissionLoss room p (Num d))"
    unfolding t [OF assms(5,9,13,17)] by (rule js_add_nonneg)
  from 9 10 4 show "js_le (calculateTransmissionLoss room p (Num d))
      (calculateTransmissionLoss room p' (Num d'))"
    unfolding t [OF assms(5,9,13,17)] t [OF assms(6,10,14,18)] by (rule js_add_mono)
qed

lemma calculateVentilationLoss_mono:
  assumes "volume room = Num v" and "0 < v"
    and "airChangeRate p = Num c" and "airChangeRate p' = Num c'" and "0 \<le> c" and "c \<le> c'"
    and "0 < d" and "d \<le> d'"
  shows "js_le (Num 0) (calculateVentilationLoss room p (Num d))"
    and "js_le (calculateVentilationLoss room p (Num d))
      (calculateVentilationLoss room p' (Num d'))"
proof -
  let ?air = "5404319552844595 / 4503599627370496 :: real"
  let ?l = "\<lambda>c d. js_mul (js_mul (js_mul (js_div (js_mul (Num c) (Num v)) (Num 3600))
    (Num ?air)) (Num 1005)) (Num d)"
  have t: "calculateVentilationLoss room q (Num e) = ?l k e"
    if "airChangeRate q = Num k" for q e k
    unfolding calculateVentilationLoss_def Let_def AIR_DENSITY_def SPECIFIC_HEAT_AIR_def
      binary64_1_2 that assms(1) js_mul_commute [of "Num v" "Num k"]
    by (rule refl)
  from assms(5,6) have c: "js_le (Num 0) (Num c)" "js_le (Num c) (Num c')" by simp_all
  have p: "(0::real) < 3600" "(0::real) < ?air" "?air \<le> ?air" "(0::real) < 1005"
    "(1005::real) \<le> 1005" "v \<le> v"
    by simp_all
  from c(1) assms(2) have 1: "js_le (Num 0) (js_mul (Num c) (Num v))" by (rule js_mul_nonneg)
  from c assms(2) p(6) have 2: "js_le (js_mul (Num c) (Num v)) (js_mul (Num c') (Num v))"
    by (rule js_mul_mono)
  from 1 p(1) have 3: "js_le (Num 0) (js_div (js_mul (Num c) (Num v)) (Num 3600))"
    by (rule js_div_nonneg)
  from 1 2 p(1) have 4: "js_le (js_div (js_mul (Num c) (Num v)) (Num 3600))
      (js_div (js_mul (Num c') (Num v)) (Num 3600))"
    by (rule js_div_mono)
  from 3 p(2) have 5: "js_le (Num 0)
      (js_mul (js_div (js_mul (Num c) (Num v)) (Num 3600)) (Num ?air))"
    by (rule js_mul_nonneg)
  from 3 4 p(2,3) have 6: "js_le
      (js_mul (js_div (js_mul (Num c) (Num v)) (Num 3600)) (Num ?air))
      (js_mul (js_div (js_mul (Num c') (Num v)) (Num 3600)) (Num ?air))"
    by (rule js_mul_mono)
  from 5 p(4) have 7: "js_le (Num 0)
      (js_mul (js_mul (js_div (js_mul (Num c) (Num v)) (Num 3600)) (Num ?air)) (Num 1005))"
    by (rule js_mul_nonneg)
  from 5 6 p(4,5) have 8: "js_le
      (js_mul (js_mul (js_div (js_mul (Num c) (Num v)) (Num 3600)) (Num ?air)) (Num 1005))
      (js_mul (js_mul (js_div (js_mul (Num c') (Num v)) (Num 3600)) (Num ?air)) (Num 1005))"
    by (rule js_mul_mono)
  from 7 assms(7) show "js_le (Num 0) (calculateVentilationLoss room p (Num d))"
    unfolding t [OF assms(3)] by (rule js_mul_nonneg)
  from 7 8 assms(7,8) show "js_le (calculateVentilationLoss room p (Num d))
      (calculateVentilationLoss room p' (Num d'))"
    unfolding t [OF assms(3)] t [OF assms(4)] by (rule js_mul_mono)
qed

lemma valid_finite_room:
  assumes "validateInputs room p = Inr ()" and "finite_room room"
  obtains a v where "area room = Num a" and "0 < a" and "volume room = Num v" and "0 < v"
proof -
  from assms(2) have "finite_number (area room)" "finite_number (volume room)"
    by (simp_all add: finite_room_def)
  then obtain a v where f: "area room = Num a" "volume room = Num v"
    by (blast dest: finite_number_ex)
  with assms(1) have "0 < a" "0 < v" by (simp_all add: validateInputs_Inr_iff)
  with f that show ?thesis by blast
qed

lemma valid_finite_params:
  assumes "validateInputs room p = Inr ()" and "finite_params p"
  obtains u1 u2 u3 u4 c d where "wallUValue p = Num u1" and "0 < u1"
    and "windowUValue p = Num u2" and "0 < u2"
    and "floorUValue p = Num u3" and "0 < u3"
    and "ceilingUValue p = Num u4" and "0 < u4"
    and "airChangeRate p = Num c" and "0 \<le> c"
    and "js_sub (indoorTemp p) (outdoorTemp p) = Num d" and "0 < d"
proof -
  from assms(2) have "finite_number (wallUValue p)" "finite_number (windowUValue p)"
    "finite_number (floorUValue p)" "finite_number (ceilingUValue p)"
    "finite_number (airChangeRate p)"
    by (simp_all add: finite_params_def)
  then obtain u1 u2 u3 u4 c where f: "wallUValue p = Num u1" "windowUValue p = Num u2"
    "floorUValue p = Num u3" "ceilingUValue p = Num u4" "airChangeRate p = Num c"
    by (blast dest: finite_number_ex)
  with assms(1) have g: "0 < u1" "0 < u2" "0 < u3" "0 < u4" "0 \<le> c"
    by (simp_all add: validateInputs_Inr_iff)
  from assms(2) have "finite_number (indoorTemp p)" "finite_number (outdoorTemp p)"
    by (simp_all add: finite_params_def)
  then obtain i o' where t: "indoorTemp p = Num i" "nearest i = i"
    "outdoorTemp p = Num o'" "nearest o' = o'"
    by (blast dest: finite_number_ex)
  with assms(1) have "15 \<le> i" "i \<le> 25" "- 20 \<le> o'" "o' \<le> 15" "o' < i"
    by (simp_all add: validateInputs_Inr_iff)
  with t(2,4) have "\<exists>d. binary64 (i - o') = Num d \<and> 0 < d"
    by (rule temperature_difference_pos)
  then obtain d where "binary64 (i - o') = Num d" "0 < d" by blast
  with t(1,3) have "js_sub (indoorTemp p) (outdoorTemp p) = Num d" "0 < d"
    by (simp_all add: js_sub_def)
  with f g that show ?thesis by blast
qed


section \<open>The results of the examples\<close>

lemma room2_valid: "validateInputs room2 params1 = Inr ()"
  by (simp only: room2_def room1_def params1_def literals room2_steps) (simp add: validateInputs_Inr_iff)

lemma room2_result_at:
  "calculateRoomHeatLoss room2 params1 w =
     (Inr \<lparr>transmissionLoss = binary64 86.02, ventilationLoss = binary64 7.7,
           totalHeatLoss = binary64 93.73, designHeatLoad = binary64 107.78,
           safetyFactor = binary64 1.15, method' = ''EN_12831'',
           calculationTimeMs = clock w (Suc (ticks w)) - clock w (ticks w)\<rparr>,
      w\<lparr>ticks := Suc (Suc (ticks w))\<rparr>)"
  unfolding calculateRoomHeatLoss_valid [OF room2_valid]
  by (simp only: calculateTransmissionLoss_def calculateVentilationLoss_def Let_def
      room2_def room1_def params1_def Room.simps CalculationParams.simps round_num_def
      Math_pow_10_2 literals AIR_DENSITY_def SPECIFIC_HEAT_AIR_def SAFETY_FACTOR_def
      room2_steps)

lemma room2_result:
  "calculateRoomHeatLoss room2 params1 world0 =
     (Inr \<lparr>transmissionLoss = binary64 86.02, ventilationLoss = binary64 7.7,
           totalHeatLoss = binary64 93.73, designHeatLoad = binary64 107.78,
           safetyFactor = binary64 1.15, method' = ''EN_12831'',
           calculationTimeMs = 3\<rparr>,
      world0\<lparr>ticks := 2\<rparr>)"
  unfolding room2_result_at by (simp add: world0_def)

lemma room_tiny_valid: "validateInputs room_tiny params_tiny = Inr ()"
  by (simp only: room_tiny_def params_tiny_def literals tiny_steps) (simp add: validateInputs_Inr_iff)

lemma room_tiny_result_at:
  "calculateRoomHeatLoss room_tiny params_tiny w =
     (Inr \<lparr>transmissionLoss = binary64 0.01, ventilationLoss = Num 0,
           totalHeatLoss = binary64 0.01, designHeatLoad = binary64 0.01,
           safetyFactor = binary64 1.15, method' = ''EN_12831'',
           calculationTimeMs = clock w (Suc (ticks w)) - clock w (ticks w)\<rparr>,
      w\<lparr>ticks := Suc (Suc (ticks w))\<rparr>)"
  unfolding calculateRoomHeatLoss_valid [OF room_tiny_valid]
  by (simp only: calculateTransmissionLoss_def calculateVentilationLoss_def Let_def
      room_tiny_def params_tiny_def Room.simps CalculationParams.simps round_num_def
      Math_pow_10_2 literals AIR_DENSITY_def SPECIFIC_HEAT_AIR_def SAFETY_FACTOR_def
      tiny_steps)

lemma room_tiny_result:
  "calculateRoomHeatLoss room_tiny params_tiny world0 =
     (Inr \<lparr>transmissionLoss = binary64 0.01, ventilationLoss = Num 0,
           totalHeatLoss = binary64 0.01, designHeatLoad = binary64 0.01,
           safetyFactor = binary64 1.15, method' = ''EN_12831'',
           calculationTimeMs = 3\<rparr>,
      world0\<lparr>ticks := 2\<rparr>)"
  unfolding room_tiny_result_at by (simp add: world0_def)

lemma room_small_valid: "validateInputs room_small params_tiny = Inr ()"
  by (simp only: room_small_def room_tiny_def params_tiny_def literals small_steps) (simp add: validateInputs_Inr_iff)

lemma room_small_result_at:
  "calculateRoomHeatLoss room_small params_tiny w =
     (Inr \<lparr>transmissionLoss = binary64 0.13, ventilationLoss = Num 0,
           totalHeatLoss = binary64 0.13, designHeatLoad = binary64 0.16,
           safetyFactor = binary64 1.15, method' = ''EN_12831'',
           calculationTimeMs = clock w (Suc (ticks w)) - clock w (ticks w)\<rparr>,
      w\<lparr>ticks := Suc (Suc (ticks w))\<rparr>)"
  unfolding calculateRoomHeatLoss_valid [OF room_small_valid]
  by (simp only: calculateTransmissionLoss_def calculateVentilationLoss_def Let_def
      room_small_def room_tiny_def params_tiny_def Room.simps CalculationParams.simps round_num_def
      Math_pow_10_2 literals AIR_DENSITY_def SPECIFIC_HEAT_AIR_def SAFETY_FACTOR_def
      small_steps)

lemma room_small_result:
  "calculateRoomHeatLoss room_small params_tiny world0 =
     (Inr \<lparr>transmissionLoss = binary64 0.13, ventilationLoss = Num 0,
           totalHeatLoss = binary64 0.13, designHeatLoad = binary64 0.16,
           safetyFactor = binary64 1.15, method' = ''EN_12831'',
           calculationTimeMs = 3\<rparr>,
      world0\<lparr>ticks := 2\<rparr>)"
  unfolding room_small_result_at by (simp add: world0_def)

lemma room_tiny1_valid: "validateInputs room_tiny params1 = Inr ()"
  by (simp only: room_tiny_def params1_def literals tiny1_steps) (simp add: validateInputs_Inr_iff)

lemma room_tiny1_result_at:
  "calculateRoomHeatLoss room_tiny params1 w =
     (Inr \<lparr>transmissionLoss = binary64 0.03, ventilationLoss = binary64 3.85,
           totalHeatLoss = binary64 3.88, designHeatLoad = binary64 4.46,
           safetyFactor = binary64 1.15, method' = ''EN_12831'',
           calculationTimeMs = clock w (Suc (ticks w)) - clock w (ticks w)\<rparr>,
      w\<lparr>ticks := Suc (Suc (ticks w))\<rparr>)"
  unfolding calculateRoomHeatLoss_valid [OF room_tiny1_valid]
  by (simp only: calculateTransmissionLoss_def calculateVentilationLoss_def Let_def
      room_tiny_def params1_def Room.simps CalculationParams.simps round_num_def
      Math_pow_10_2 literals AIR_DENSITY_def SPECIFIC_HEAT_AIR_def SAFETY_FACTOR_def
      tiny1_steps)

lemma room_tiny1_result:
  "calculateRoomHeatLoss room_tiny params1 world0 =
     (Inr \<lparr>transmissionLoss = binary64 0.03, ventilationLoss = binary64 3.85,
           totalHeatLoss = binary64 3.88, designHeatLoad = binary64 4.46,
           safetyFactor = binary64 1.15, method' = ''EN_12831'',
           calculationTimeMs = 3\<rparr>,
      world0\<lparr>ticks := 2\<rparr>)"
  unfolding room_tiny1_result_at by (simp add: world0_def)

lemma room_big_valid: "validateInputs room_big params_tiny = Inr ()"
  by (simp only: room_big_def room_tiny_def params_tiny_def literals big_steps) (simp add: validateInputs_Inr_iff)

lemma room_big_result_at:
  "calculateRoomHeatLoss room_big params_tiny w =
     (Inr \<lparr>transmissionLoss = Num 27021597764222976, ventilationLoss = Num 0,
           totalHeatLoss = Num 27021597764222976, designHeatLoad = Num 31074837428856424,
           safetyFactor = binary64 1.15, method' = ''EN_12831'',
           calculationTimeMs = clock w (Suc (ticks w)) - clock w (ticks w)\<rparr>,
      w\<lparr>ticks := Suc (Suc (ticks w))\<rparr>)"
  unfolding calculateRoomHeatLoss_valid [OF room_big_valid]
  by (simp only: calculateTransmissionLoss_def calculateVentilationLoss_def Let_def
      room_big_def room_tiny_def params_tiny_def Room.simps CalculationParams.simps round_num_def
      Math_pow_10_2 literals AIR_DENSITY_def SPECIFIC_HEAT_AIR_def SAFETY_FACTOR_def
      big_steps)

lemma room_big_result:
  "calculateRoomHeatLoss room_big params_tiny world0 =
     (Inr \<lparr>transmissionLoss = Num 27021597764222976, ventilationLoss = Num 0,
           totalHeatLoss = Num 27021597764222976, designHeatLoad = Num 31074837428856424,
           safetyFactor = binary64 1.15, method' = ''EN_12831'',
           calculationTimeMs = 3\<rparr>,
      world0\<lparr>ticks := 2\<rparr>)"
  unfolding room_big_result_at by (simp add: world0_def)

lemma room_unit_valid: "validateInputs room_unit params_tiny = Inr ()"
  by (simp only: room_unit_def room_tiny_def params_tiny_def literals unit_steps) (simp add: validateInputs_Inr_iff)

lemma room_unit_result_at:
  "calculateRoomHeatLoss room_unit params_tiny w =
     (Inr \<lparr>transmissionLoss = Num (3 / 2), ventilationLoss = Num 0,
           totalHeatLoss = Num (3 / 2), designHeatLoad = Num (3895613677675479 / 2251799813685248),
           safetyFactor = binary64 1.15, method' = ''EN_12831'',
           calculationTimeMs = clock w (Suc (ticks w)) - clock w (ticks w)\<rparr>,
      w\<lparr>ticks := Suc (Suc (ticks w))\<rparr>)"
  unfolding calculateRoomHeatLoss_valid [OF room_unit_valid]
  by (simp only: calculateTransmissionLoss_def calculateVentilationLoss_def Let_def
      room_unit_def room_tiny_def params_tiny_def Room.simps CalculationParams.simps round_num_def
      Math_pow_10_2 literals AIR_DENSITY_def SPECIFIC_HEAT_AIR_def SAFETY_FACTOR_def
      unit_steps)

lemma room_unit_result:
  "calculateRoomHeatLoss room_unit params_tiny world0 =
     (Inr \<lparr>transmissionLoss = Num (3 / 2), ventilationLoss = Num 0,
           totalHeatLoss = Num (3 / 2), designHeatLoad = Num (3895613677675479 / 2251799813685248),
           safetyFactor = binary64 1.15, method' = ''EN_12831'',
           calculationTimeMs = 3\<rparr>,
      world0\<lparr>ticks := 2\<rparr>)"
  unfolding room_unit_result_at by (simp add: world0_def)

lemma room_unit2_valid: "validateInputs room_unit2 params_tiny = Inr ()"
  by (simp only: room_unit2_def room_unit_def room_tiny_def params_tiny_def literals unit_steps) (simp add: validateInputs_Inr_iff)

lemma room_unit2_result_at:
  "calculateRoomHeatLoss room_unit2 params_tiny w =
     (Inr \<lparr>transmissionLoss = Num (3 / 2), ventilationLoss = Num 0,
           totalHeatLoss = Num (3 / 2), designHeatLoad = Num (3895613677675479 / 2251799813685248),
           safetyFactor = binary64 1.15, method' = ''EN_12831'',
           calculationTimeMs = clock w (Suc (ticks w)) - clock w (ticks w)\<rparr>,
      w\<lparr>ticks := Suc (Suc (ticks w))\<rparr>)"
  unfolding calculateRoomHeatLoss_valid [OF room_unit2_valid]
  by (simp only: calculateTransmissionLoss_def calculateVentilationLoss_def Let_def
      room_unit2_def room_unit_def room_tiny_def params_tiny_def Room.simps CalculationParams.simps round_num_def
      Math_pow_10_2 literals AIR_DENSITY_def SPECIFIC_HEAT_AIR_def SAFETY_FACTOR_def
      unit_steps)

lemma room_unit2_result:
  "calculateRoomHeatLoss room_unit2 params_tiny world0 =
     (Inr \<lparr>transmissionLoss = Num (3 / 2), ventilationLoss = Num 0,
           totalHeatLoss = Num (3 / 2), designHeatLoad = Num (3895613677675479 / 2251799813685248),
           safetyFactor = binary64 1.15, method' = ''EN_12831'',
           calculationTimeMs = 3\<rparr>,
      world0\<lparr>ticks := 2\<rparr>)"
  unfolding room_unit2_result_at by (simp add: world0_def)

lemma room1_1_valid: "validateInputs room1 params1 = Inr ()"
  by (simp only: room1_def params1_def literals room1_steps) (simp add: validateInputs_Inr_iff)

lemma room1_1_result_at:
  "calculateRoomHeatLoss room1 params1 w =
     (Inr \<lparr>transmissionLoss = binary64 145.82, ventilationLoss = binary64 38.53,
           totalHeatLoss = binary64 184.35, designHeatLoad = Num 212,
           safetyFactor = binary64 1.15, method' = ''EN_12831'',
           calculationTimeMs = clock w (Suc (ticks w)) - clock w (ticks w)\<rparr>,
      w\<lparr>ticks := Suc (Suc (ticks w))\<rparr>)"
  unfolding calculateRoomHeatLoss_valid [OF room1_1_valid]
  by (simp only: calculateTransmissionLoss_def calculateVentilationLoss_def Let_def
      room1_def params1_def Room.simps CalculationParams.simps round_num_def
      Math_pow_10_2 literals AIR_DENSITY_def SPECIFIC_HEAT_AIR_def SAFETY_FACTOR_def
      room1_steps)

lemma room1_1_result:
  "calculateRoomHeatLoss room1 params1 world0 =
     (Inr \<lparr>transmissionLoss = binary64 145.82, ventilationLoss = binary64 38.53,
           totalHeatLoss = binary64 184.35, designHeatLoad = Num 212,
           safetyFactor = binary64 1.15, method' = ''EN_12831'',
           calculationTimeMs = 3\<rparr>,
      world0\<lparr>ticks := 2\<rparr>)"
  unfolding room1_1_result_at by (simp add: world0_def)

lemma room1_2_valid: "validateInputs room1 params2 = Inr ()"
  by (simp only: room1_def params2_def params1_def literals room1_steps) (simp add: validateInputs_Inr_iff)

lemma room1_2_result_at:
  "calculateRoomHeatLoss room1 params2 w =
     (Inr \<lparr>transmissionLoss = binary64 182.62, ventilationLoss = binary64 77.05,
           totalHeatLoss = binary64 259.67, designHeatLoad = binary64 298.62,
           safetyFactor = binary64 1.15, method' = ''EN_12831'',
           calculationTimeMs = clock w (Suc (ticks w)) - clock w (ticks w)\<rparr>,
      w\<lparr>ticks := Suc (Suc (ticks w))\<rparr>)"
  unfolding calculateRoomHeatLoss_valid [OF room1_2_valid]
  by (simp only: calculateTransmissionLoss_def calculateVentilationLoss_def Let_def
      room1_def params2_def params1_def Room.simps CalculationParams.simps round_num_def
      Math_pow_10_2 literals AIR_DENSITY_def SPECIFIC_HEAT_AIR_def SAFETY_FACTOR_def
      room1_steps)

lemma room1_2_result:
  "calculateRoomHeatLoss room1 params2 world0 =
     (Inr \<lparr>transmissionLoss = binary64 182.62, ventilationLoss = binary64 77.05,
           totalHeatLoss = binary64 259.67, designHeatLoad = binary64 298.62,
           safetyFactor = binary64 1.15, method' = ''EN_12831'',
           calculationTimeMs = 3\<rparr>,
      world0\<lparr>ticks := 2\<rparr>)"
  unfolding room1_2_result_at by (simp add: world0_def)

lemma room1_3_valid: "validateInputs room1 params3 = Inr ()"
  by (simp only: room1_def params3_def params1_def literals room1_steps) (simp add: validateInputs_Inr_iff)

lemma room1_3_result_at:
  "calculateRoomHeatLoss room1 params3 w =
     (Inr \<lparr>transmissionLoss = binary64 145.82, ventilationLoss = Num 0,
           totalHeatLoss = binary64 145.82, designHeatLoad = binary64 167.69,
           safetyFactor = binary64 1.15, method' = ''EN_12831'',
           calculationTimeMs = clock w (Suc (ticks w)) - clock w (ticks w)\<rparr>,
      w\<lparr>ticks := Suc (Suc (ticks w))\<rparr>)"
  unfolding calculateRoomHeatLoss_valid [OF room1_3_valid]
  by (simp only: calculateTransmissionLoss_def calculateVentilationLoss_def Let_def
      room1_def params3_def params1_def Room.simps CalculationParams.simps round_num_def
      Math_pow_10_2 literals AIR_DENSITY_def SPECIFIC_HEAT_AIR_def SAFETY_FACTOR_def
      room1_steps)

lemma room1_3_result:
  "calculateRoomHeatLoss room1 params3 world0 =
     (Inr \<lparr>transmissionLoss = binary64 145.82, ventilationLoss = Num 0,
           totalHeatLoss = binary64 145.82, designHeatLoad = binary64 167.69,
           safetyFactor = binary64 1.15, method' = ''EN_12831'',
           calculationTimeMs = 3\<rparr>,
      world0\<lparr>ticks := 2\<rparr>)"
  unfolding room1_3_result_at by (simp add: world0_def)

lemma room1_4_valid: "validateInputs room1 params4 = Inr ()"
  by (simp only: room1_def params4_def params3_def params1_def literals room1_steps) (simp add: validateInputs_Inr_iff)

lemma room1_4_result_at:
  "calculateRoomHeatLoss room1 params4 w =
     (Inr \<lparr>transmissionLoss = binary64 152.16, ventilationLoss = Num 0,
           totalHeatLoss = binary64 152.16, designHeatLoad = binary64 174.98,
           safetyFactor = binary64 1.15, method' = ''EN_12831'',
           calculationTimeMs = clock w (Suc (ticks w)) - clock w (ticks w)\<rparr>,
      w\<lparr>ticks := Suc (Suc (ticks w))\<rparr>)"
  unfolding calculateRoomHeatLoss_valid [OF room1_4_valid]
  by (simp only: calculateTransmissionLoss_def calculateVentilationLoss_def Let_def
      room1_def params4_def params3_def params1_def Room.simps CalculationParams.simps round_num_def
      Math_pow_10_2 literals AIR_DENSITY_def SPECIFIC_HEAT_AIR_def SAFETY_FACTOR_def
      room1_steps)

lemma room1_4_result:
  "calculateRoomHeatLoss room1 params4 world0 =
     (Inr \<lparr>transmissionLoss = binary64 152.16, ventilationLoss = Num 0,
           totalHeatLoss = binary64 152.16, designHeatLoad = binary64 174.98,
           safetyFactor = binary64 1.15, method' = ''EN_12831'',
           calculationTimeMs = 3\<rparr>,
      world0\<lparr>ticks := 2\<rparr>)"
  unfolding room1_4_result_at by (simp add: world0_def)

lemma room1_5_valid: "validateInputs room1 params5 = Inr ()"
  by (simp only: room1_def params5_def params1_def literals room1_steps) (simp add: validateInputs_Inr_iff)

lemma room1_5_result_at:
  "calculateRoomHeatLoss room1 params5 w =
     (Inr \<lparr>transmissionLoss = binary64 145.82, ventilationLoss = binary64 38.53,
           totalHeatLoss = binary64 184.35, designHeatLoad = Num 212,
           safetyFactor = binary64 1.15, method' = ''EN_12831'',
           calculationTimeMs = clock w (Suc (ticks w)) - clock w (ticks w)\<rparr>,
      w\<lparr>ticks := Suc (Suc (ticks w))\<rparr>)"
  unfolding calculateRoomHeatLoss_valid [OF room1_5_valid]
  by (simp only: calculateTransmissionLoss_def calculateVentilationLoss_def Let_def
      room1_def params5_def params1_def Room.simps CalculationParams.simps round_num_def
      Math_pow_10_2 literals AIR_DENSITY_def SPECIFIC_HEAT_AIR_def SAFETY_FACTOR_def
      room1_steps)

lemma room1_5_result:
  "calculateRoomHeatLoss room1 params5 world0 =
     (Inr \<lparr>transmissionLoss = binary64 145.82, ventilationLoss = binary64 38.53,
           totalHeatLoss = binary64 184.35, designHeatLoad = Num 212,
           safetyFactor = binary64 1.15, method' = ''EN_12831'',
           calculationTimeMs = 3\<rparr>,
      world0\<lparr>ticks := 2\<rparr>)"
  unfolding room1_5_result_at by (simp add: world0_def)

section \<open>The claims\<close>

subsection \<open>C1: radiator sizing at a temperature difference that is not positive\<close>

text \<open>
  Claim C1, as amended. \<open>calculateRadiatorSize\<close> has no check: a call whose mean water
  temperature less the room temperature, as computed in binary64, is not positive does
  not reject. It returns the rounded mean; and, \<open>x\<close> being the computed difference
  divided by 50: when \<open>x\<close> is negative and finite, the correction and the required
  output are both \<^verbatim>\<open>NaN\<close>; when \<open>x\<close> is zero, the correction is 0 and the required
  output is \<^verbatim>\<open>Infinity\<close>, \<^verbatim>\<open>-Infinity\<close> or \<^verbatim>\<open>NaN\<close> for a positive, negative or other
  design heat load; when \<open>x\<close> is \<^verbatim>\<open>-Infinity\<close>, the correction is \<^verbatim>\<open>Infinity\<close> and the
  required output is 0 for a finite load and \<^verbatim>\<open>NaN\<close> otherwise. So one of the two
  fields is never a finite number. This holds for every \<^verbatim>\<open>Math.pow\<close>. The example is
  \<^verbatim>\<open>calculateRadiatorSize(2000, 10.05, 30, 25)\<close>, whose mean 20.025 is rounded to
  20.02.
\<close>

theorem calculateRadiatorSize_no_guard:
  assumes "js_le (js_sub (js_div (js_add flowTemp returnTemp) (Num 2)) roomTemp) (Num 0)"
  shows "\<exists>res.
     calculateRadiatorSize approx d (Some flowTemp) (Some returnTemp) (Some roomTemp) =
       Inr res \<and>
     meanWaterTemp res = round_num (js_div (js_add flowTemp returnTemp) (Num 2)) 2 \<and>
     (case js_div (js_sub (js_div (js_add flowTemp returnTemp) (Num 2)) roomTemp) (Num 50) of
        Num x \<Rightarrow>
          if x < 0 then correction res = NaN \<and> requiredOutput res = NaN
          else correction res = Num 0 \<and>
            requiredOutput res =
              (if js_lt (Num 0) d then PosInfinity
               else if js_lt d (Num 0) then NegInfinity else NaN)
      | NegInfinity \<Rightarrow>
          correction res = PosInfinity \<and>
          requiredOutput res = (case d of Num v \<Rightarrow> Num 0 | _ \<Rightarrow> NaN)
      | _ \<Rightarrow> False)"
proof -
  let ?td = "js_sub (js_div (js_add flowTemp returnTemp) (Num 2)) roomTemp"
  from js_div_50_nonpos [OF assms]
  consider "js_div ?td (Num 50) = NegInfinity"
    | x where "x < 0" "js_div ?td (Num 50) = Num x"
    | "js_div ?td (Num 50) = Num 0"
    by (auto simp add: less_le)
  then show ?thesis
  proof cases
    case 1
    then show ?thesis
      by (simp add: calculateRadiatorSize_def Let_def round_num_PosInfinity
          round_num_div_PosInfinity)
  next
    case 2
    then show ?thesis
      by (simp add: calculateRadiatorSize_def Let_def round_num_NaN)
  next
    case 3
    then show ?thesis
      by (simp add: calculateRadiatorSize_def Let_def round_num_0 round_num_div_0)
  qed
qed

theorem calculateRadiatorSize_no_guard_witness:
  "js_le (js_sub (js_div (js_add (binary64 10.05) (Num 30)) (Num 2)) (Num 25)) (Num 0) \<and>
   calculateRadiatorSize pow_rounded (Num 2000) (Some (binary64 10.05)) (Some (Num 30))
     (Some (Num 25)) =
     Inr \<lparr>requiredOutput = NaN, meanWaterTemp = binary64 20.02, correction = NaN\<rparr>"
proof -
  have h: "js_le (js_sub (js_div (js_add (binary64 10.05) (Num 30)) (Num 2)) (Num 25)) (Num 0)"
    by (simp only: rad_neg_steps) simp
  from calculateRadiatorSize_no_guard [OF h, of pow_rounded "Num 2000"]
  obtain res where c:
    "calculateRadiatorSize pow_rounded (Num 2000) (Some (binary64 10.05)) (Some (Num 30))
       (Some (Num 25)) = Inr res"
    and f: "meanWaterTemp res = binary64 20.02" "correction res = NaN"
      "requiredOutput res = NaN"
    by (simp only: rad_neg_steps round_num_def Math_pow_10_2 Let_def jsnum.case) auto
  from f have "res =
      \<lparr>requiredOutput = NaN, meanWaterTemp = binary64 20.02, correction = NaN\<rparr>"
    by (cases res) simp
  with h c show ?thesis by simp
qed

text \<open>
  The claim as stated fails at \<^verbatim>\<open>calculateRadiatorSize(2000, 0.1, 0.2, r)\<close> with \<open>r\<close> the
  binary64 value \<^verbatim>\<open>0.15000000000000002\<close>, which is the computed mean: the difference
  is 0, the call does not reject, and it returns the required output \<^verbatim>\<open>Infinity\<close>.
\<close>

theorem calculateRadiatorSize_rejects_counterexample:
  "js_le (js_sub (js_div (js_add (binary64 0.1) (binary64 0.2)) (Num 2))
      (binary64 0.15000000000000002)) (Num 0) \<and>
   calculateRadiatorSize pow_rounded (Num 2000) (Some (binary64 0.1)) (Some (binary64 0.2))
     (Some (binary64 0.15000000000000002)) =
     Inr \<lparr>requiredOutput = PosInfinity, meanWaterTemp = binary64 0.15, correction = Num 0\<rparr>"
  by (simp only: calculateRadiatorSize_def Let_def option.case round_num_def Math_pow_10_2
      Math_pow_10_3 rad_zero_steps Math_pow_1_3_0)
    simp

subsection \<open>C2: the fields of a room's result\<close>

text \<open>
  Claim C2. For a room and parameters that pass the validation, \<open>calculateRoomHeatLoss\<close>
  returns a result whose \<open>transmissionLoss\<close> is the rounded sum of the wall, window,
  floor and ceiling terms with \<open>dT = indoorTemp - outdoorTemp\<close>, whose
  \<open>ventilationLoss\<close> is the rounded \<open>volume * airChangeRate / 3600 * 1.2 * 1005 * dT\<close>,
  whose \<open>totalHeatLoss\<close> is the rounded sum of the two unrounded losses, whose
  \<open>designHeatLoad\<close> is the rounded product of that unrounded sum with 1.15, each
  rounded to two decimal places, with the safety factor 1.15 and the method
  \<^verbatim>\<open>EN_12831\<close>. Every operation of the formulas is the binary64 operation, in the
  order in which an expression of the language is evaluated; the wall and the window
  term multiply the U-value with the effective area, the area times the quarter of
  the exterior walls. The example is the room of the test with the volume 2 and one
  exterior wall: its ventilation loss is 7.7, the unrounded loss being the binary64
  value just below 7.705.
\<close>

theorem calculateRoomHeatLoss_formulas:
  assumes "validateInputs room params = Inr ()"
  shows "\<exists>res w'. calculateRoomHeatLoss room params w = (Inr res, w') \<and>
     (let dT = js_sub (indoorTemp params) (outdoorTemp params);
          wallArea =
            js_sub (js_mul (js_mul (Num 4) (Math_sqrt (area room))) (ceilingHeight room))
              (windowArea room);
          quarter = js_div (exteriorWalls room) (Num 4);
          wallLoss = js_mul (js_mul (wallUValue params) (js_mul wallArea quarter)) dT;
          windowLoss =
            js_mul (js_mul (windowUValue params) (js_mul (windowArea room) quarter)) dT;
          floorLoss =
            js_mul (js_mul (js_mul (floorUValue params) (area room)) dT) (Num (1 / 2));
          ceilingLoss = js_mul (js_mul (ceilingUValue params) (area room)) dT;
          transmission = js_add (js_add (js_add wallLoss windowLoss) floorLoss) ceilingLoss;
          ventilation =
            js_mul (js_mul (js_mul (js_div (js_mul (volume room) (airChangeRate params))
              (Num 3600)) (binary64 1.2)) (Num 1005)) dT
      in transmissionLoss res = round_num transmission 2 \<and>
         ventilationLoss res = round_num ventilation 2 \<and>
         totalHeatLoss res = round_num (js_add transmission ventilation) 2 \<and>
         designHeatLoad res =
           round_num (js_mul (js_add transmission ventilation) (binary64 1.15)) 2 \<and>
         safetyFactor res = binary64 1.15 \<and>
         method' res = ''EN_12831'')"
  unfolding calculateRoomHeatLoss_valid [OF assms] calculateTransmissionLoss_def
    calculateVentilationLoss_def Let_def SAFETY_FACTOR_def AIR_DENSITY_def
    SPECIFIC_HEAT_AIR_def
  by simp

theorem calculateRoomHeatLoss_formulas_witness:
  "validateInputs room2 params1 = Inr () \<and>
   (\<exists>res w'. calculateRoomHeatLoss room2 params1 world0 = (Inr res, w') \<and>
      transmissionLoss res = binary64 86.02 \<and> ventilationLoss res = binary64 7.7 \<and>
      totalHeatLoss res = binary64 93.73 \<and> designHeatLoad res = binary64 107.78 \<and>
      safetyFactor res = binary64 1.15 \<and> method' res = ''EN_12831'')"
proof -
  have v: "validateInputs room2 params1 = Inr ()"
    by (simp only: room2_def room1_def params1_def literals)
      (simp add: validateInputs_Inr_iff)
  from calculateRoomHeatLoss_formulas [OF v, of world0]
  have "\<exists>res w'. calculateRoomHeatLoss room2 params1 world0 = (Inr res, w') \<and>
      transmissionLoss res = binary64 86.02 \<and> ventilationLoss res = binary64 7.7 \<and>
      totalHeatLoss res = binary64 93.73 \<and> designHeatLoad res = binary64 107.78 \<and>
      safetyFactor res = binary64 1.15 \<and> method' res = ''EN_12831''"
    by (simp only: Let_def room2_def room1_def params1_def Room.simps
        CalculationParams.simps round_num_def Math_pow_10_2 literals room2_steps)
  with v show ?thesis by (rule conjI)
qed

subsection \<open>C3: when a room is rejected\<close>

text \<open>
  Claim C3. \<open>calculateRoomHeatLoss\<close> rejects if and only if a validation rule is
  violated. The code does not do so at an area that is \<^verbatim>\<open>NaN\<close>: the rule \<open>area > 0\<close>
  is violated, the check \<^verbatim>\<open>room.area <= 0\<close> of \<open>validateInputs\<close> is false, as every
  comparison with \<^verbatim>\<open>NaN\<close>, and nothing is thrown. The room of the test with that
  area passes the validation, and the call returns a result whose transmission loss,
  total heat loss and design heat load are \<^verbatim>\<open>NaN\<close>.
\<close>

theorem calculateRoomHeatLoss_accepts_NaN:
  "validateInputs room_nan params1 = Inr () \<and>
   calculateRoomHeatLoss room_nan params1 world0 =
     (Inr \<lparr>transmissionLoss = NaN, ventilationLoss = binary64 38.53, totalHeatLoss = NaN,
           designHeatLoad = NaN, safetyFactor = binary64 1.15, method' = ''EN_12831'',
           calculationTimeMs = 3\<rparr>,
      world0\<lparr>ticks := 2\<rparr>)"
proof -
  have v: "validateInputs room_nan params1 = Inr ()"
    by (simp only: room_nan_def room1_def params1_def literals)
      (simp add: validateInputs_Inr_iff)
  have d: "js_sub (indoorTemp params1) (outdoorTemp params1) = Num 23"
    by (simp only: params1_def CalculationParams.simps room_nan_steps)
  have t: "calculateTransmissionLoss room_nan params1 (Num 23) = NaN"
    by (simp add: calculateTransmissionLoss_def room_nan_def)
  have l: "round_num (calculateVentilationLoss room_nan params1 (Num 23)) 2 = binary64 38.53"
    by (simp only: calculateVentilationLoss_def Let_def room_nan_def room1_def params1_def
        Room.simps CalculationParams.simps round_num_def Math_pow_10_2 literals
        AIR_DENSITY_def SPECIFIC_HEAT_AIR_def room_nan_steps)
  have c: "clock world0 (Suc (ticks world0)) - clock world0 (ticks world0) = 3"
    "world0\<lparr>ticks := Suc (Suc (ticks world0))\<rparr> = world0\<lparr>ticks := 2\<rparr>"
    by (simp_all add: world0_def)
  show ?thesis
    unfolding calculateRoomHeatLoss_valid [OF v] d t l c
    by (simp add: v round_num_NaN SAFETY_FACTOR_def)
qed

subsection \<open>C4: monotonicity of the two losses\<close>

text \<open>
  Claim C4, as amended. Take a room and two sets of parameters that pass the
  validation, all of their numbers finite values of the language, the effective wall
  area and the effective window area of the room not negative. If no U-value, the air
  change rate and the computed temperature difference of the second set are not below
  those of the first (so also when a single one of them is increased and the others
  are kept), then the returned transmission loss and the returned ventilation loss of
  the second set are not below those of the first. They need not be above them. The
  example raises the wall U-value from 0.3 to 0.5 and the air change rate from 0.5 to 1.
\<close>

theorem losses_monotone:
  assumes "validateInputs room p = Inr ()" and "validateInputs room p' = Inr ()"
    and "finite_room room" and "finite_params p" and "finite_params p'"
    and "js_le (Num 0) (effectiveWallArea room)"
    and "js_le (Num 0) (effectiveWindowArea room)"
    and "js_le (wallUValue p) (wallUValue p')"
    and "js_le (windowUValue p) (windowUValue p')"
    and "js_le (floorUValue p) (floorUValue p')"
    and "js_le (ceilingUValue p) (ceilingUValue p')"
    and "js_le (airChangeRate p) (airChangeRate p')"
    and "js_le (js_sub (indoorTemp p) (outdoorTemp p))
      (js_sub (indoorTemp p') (outdoorTemp p'))"
  shows "\<exists>res res' w1 w1'.
     calculateRoomHeatLoss room p w = (Inr res, w1) \<and>
     calculateRoomHeatLoss room p' w' = (Inr res', w1') \<and>
     js_le (transmissionLoss res) (transmissionLoss res') \<and>
     js_le (ventilationLoss res) (ventilationLoss res')"
proof -
  from assms(1,3) obtain a v
    where r: "area room = Num a" "0 < a" "volume room = Num v" "0 < v"
    by (rule valid_finite_room)
  from assms(1,4) obtain u1 u2 u3 u4 c d
    where p: "wallUValue p = Num u1" "0 < u1" "windowUValue p = Num u2" "0 < u2"
      "floorUValue p = Num u3" "0 < u3" "ceilingUValue p = Num u4" "0 < u4"
      "airChangeRate p = Num c" "0 \<le> c"
      "js_sub (indoorTemp p) (outdoorTemp p) = Num d" "0 < d"
    by (rule valid_finite_params)
  from assms(2,5) obtain u1' u2' u3' u4' c' d'
    where p': "wallUValue p' = Num u1'" "windowUValue p' = Num u2'"
      "floorUValue p' = Num u3'" "ceilingUValue p' = Num u4'"
      "airChangeRate p' = Num c'"
      "js_sub (indoorTemp p') (outdoorTemp p') = Num d'"
    by (rule valid_finite_params)
  from assms(8-13) have l: "u1 \<le> u1'" "u2 \<le> u2'" "u3 \<le> u3'" "u4 \<le> u4'" "c \<le> c'"
    "d \<le> d'"
    by (simp_all add: p p')
  have "js_le (Num 0) (calculateTransmissionLoss room p (Num d))"
    "js_le (calculateTransmissionLoss room p (Num d))
      (calculateTransmissionLoss room p' (Num d'))"
    using assms(6,7) r(1,2) p(1) p'(1) p(2) l(1) p(3) p'(2) p(4) l(2) p(5) p'(3) p(6)
      l(3) p(7) p'(4) p(8) l(4) p(12) l(6)
    by (rule calculateTransmissionLoss_mono)+
  then have t: "js_le (round_num (calculateTransmissionLoss room p (Num d)) 2)
      (round_num (calculateTransmissionLoss room p' (Num d')) 2)"
    by (rule round_num_mono)
  have "js_le (Num 0) (calculateVentilationLoss room p (Num d))"
    "js_le (calculateVentilationLoss room p (Num d))
      (calculateVentilationLoss room p' (Num d'))"
    using r(3,4) p(9) p'(5) p(10) l(5) p(12) l(6)
    by (rule calculateVentilationLoss_mono)+
  then have "js_le (round_num (calculateVentilationLoss room p (Num d)) 2)
      (round_num (calculateVentilationLoss room p' (Num d')) 2)"
    by (rule round_num_mono)
  with t show ?thesis
    unfolding calculateRoomHeatLoss_valid [OF assms(1)] calculateRoomHeatLoss_valid [OF assms(2)]
      p(11) p'(6)
    by simp
qed

theorem losses_monotone_witness:
  "validateInputs room1 params1 = Inr () \<and> validateInputs room1 params2 = Inr () \<and>
   finite_room room1 \<and> finite_params params1 \<and> finite_params params2 \<and>
   js_le (Num 0) (effectiveWallArea room1) \<and> js_le (Num 0) (effectiveWindowArea room1) \<and>
   js_le (wallUValue params1) (wallUValue params2) \<and>
   js_le (windowUValue params1) (windowUValue params2) \<and>
   js_le (floorUValue params1) (floorUValue params2) \<and>
   js_le (ceilingUValue params1) (ceilingUValue params2) \<and>
   js_le (airChangeRate params1) (airChangeRate params2) \<and>
   js_le (js_sub (indoorTemp params1) (outdoorTemp params1))
     (js_sub (indoorTemp params2) (outdoorTemp params2)) \<and>
   (\<exists>res res' w1 w1'.
      calculateRoomHeatLoss room1 params1 world0 = (Inr res, w1) \<and>
      calculateRoomHeatLoss room1 params2 world0 = (Inr res', w1') \<and>
      transmissionLoss res = binary64 145.82 \<and> transmissionLoss res' = binary64 182.62 \<and>
      ventilationLoss res = binary64 38.53 \<and> ventilationLoss res' = binary64 77.05 \<and>
      js_le (transmissionLoss res) (transmissionLoss res') \<and>
      js_le (ventilationLoss res) (ventilationLoss res'))"
proof -
  note defs = room1_def params1_def params2_def Room.simps CalculationParams.simps literals
  have f: "finite_room room1" "finite_params params1" "finite_params params2"
    by (simp_all only: finite_room_def finite_params_def finite_number_def defs jsnum.case
        exact_steps simp_thms)
  have a: "js_le (Num 0) (effectiveWallArea room1)"
    "js_le (Num 0) (effectiveWindowArea room1)"
    by (simp_all only: effectiveWallArea_def effectiveWindowArea_def defs room1_steps)
      simp_all
  have u: "js_le (wallUValue params1) (wallUValue params2)"
    "js_le (windowUValue params1) (windowUValue params2)"
    "js_le (floorUValue params1) (floorUValue params2)"
    "js_le (ceilingUValue params1) (ceilingUValue params2)"
    "js_le (airChangeRate params1) (airChangeRate params2)"
    by (simp_all only: defs) simp_all
  have d: "js_le (js_sub (indoorTemp params1) (outdoorTemp params1))
      (js_sub (indoorTemp params2) (outdoorTemp params2))"
    by (simp only: defs room1_steps) simp
  from losses_monotone [OF room1_1_valid room1_2_valid f a u d, of world0 world0]
  obtain res res' w1 w1'
    where c: "calculateRoomHeatLoss room1 params1 world0 = (Inr res, w1)"
      "calculateRoomHeatLoss room1 params2 world0 = (Inr res', w1')"
      and l: "js_le (transmissionLoss res) (transmissionLoss res')"
        "js_le (ventilationLoss res) (ventilationLoss res')"
    by blast
  from c(1) [unfolded room1_1_result, symmetric]
  have r: "transmissionLoss res = binary64 145.82" "ventilationLoss res = binary64 38.53"
    by simp_all
  from c(2) [unfolded room1_2_result, symmetric]
  have r': "transmissionLoss res' = binary64 182.62" "ventilationLoss res' = binary64 77.05"
    by simp_all
  from c r r' l
  have "\<exists>res res' w1 w1'.
      calculateRoomHeatLoss room1 params1 world0 = (Inr res, w1) \<and>
      calculateRoomHeatLoss room1 params2 world0 = (Inr res', w1') \<and>
      transmissionLoss res = binary64 145.82 \<and> transmissionLoss res' = binary64 182.62 \<and>
      ventilationLoss res = binary64 38.53 \<and> ventilationLoss res' = binary64 77.05 \<and>
      js_le (transmissionLoss res) (transmissionLoss res') \<and>
      js_le (ventilationLoss res) (ventilationLoss res')"
    by blast
  with room1_1_valid room1_2_valid f a u d show ?thesis by (intro conjI)
qed

text \<open>
  The claim as stated fails at the room of the test, whose areas are positive. With
  no air change the ventilation loss is 0 at the temperature difference 23 and at 24;
  and the transmission loss is 145.82 at the wall U-value \<^verbatim>\<open>0.3\<close> and at the next
  binary64 value above it, \<^verbatim>\<open>0.30000000000000004\<close>.
\<close>

theorem losses_strictly_monotone_counterexample:
  "validateInputs room1 params3 = Inr () \<and> validateInputs room1 params4 = Inr () \<and>
   js_lt (js_sub (indoorTemp params3) (outdoorTemp params3))
     (js_sub (indoorTemp params4) (outdoorTemp params4)) \<and>
   calculateRoomHeatLoss room1 params3 world0 =
     (Inr \<lparr>transmissionLoss = binary64 145.82, ventilationLoss = Num 0,
           totalHeatLoss = binary64 145.82, designHeatLoad = binary64 167.69,
           safetyFactor = binary64 1.15, method' = ''EN_12831'', calculationTimeMs = 3\<rparr>,
      world0\<lparr>ticks := 2\<rparr>) \<and>
   calculateRoomHeatLoss room1 params4 world0 =
     (Inr \<lparr>transmissionLoss = binary64 152.16, ventilationLoss = Num 0,
           totalHeatLoss = binary64 152.16, designHeatLoad = binary64 174.98,
           safetyFactor = binary64 1.15, method' = ''EN_12831'', calculationTimeMs = 3\<rparr>,
      world0\<lparr>ticks := 2\<rparr>) \<and>
   validateInputs room1 params1 = Inr () \<and> validateInputs room1 params5 = Inr () \<and>
   js_lt (wallUValue params1) (wallUValue params5) \<and>
   calculateRoomHeatLoss room1 params1 world0 =
     (Inr \<lparr>transmissionLoss = binary64 145.82, ventilationLoss = binary64 38.53,
           totalHeatLoss = binary64 184.35, designHeatLoad = Num 212,
           safetyFactor = binary64 1.15, method' = ''EN_12831'', calculationTimeMs = 3\<rparr>,
      world0\<lparr>ticks := 2\<rparr>) \<and>
   calculateRoomHeatLoss room1 params5 world0 =
     (Inr \<lparr>transmissionLoss = binary64 145.82, ventilationLoss = binary64 38.53,
           totalHeatLoss = binary64 184.35, designHeatLoad = Num 212,
           safetyFactor = binary64 1.15, method' = ''EN_12831'', calculationTimeMs = 3\<rparr>,
      world0\<lparr>ticks := 2\<rparr>)"
proof -
  note defs = params1_def params3_def params4_def params5_def CalculationParams.simps
    literals
  have "js_lt (js_sub (indoorTemp params3) (outdoorTemp params3))
      (js_sub (indoorTemp params4) (outdoorTemp params4))"
    by (simp only: defs room1_steps) simp
  moreover have "js_lt (wallUValue params1) (wallUValue params5)"
    by (simp only: defs room1_steps) simp
  ultimately show ?thesis
    using room1_1_valid room1_3_valid room1_4_valid room1_5_valid
      room1_1_result room1_3_result room1_4_result room1_5_result
    by (intro conjI)
qed

subsection \<open>C5: a building with a room that fails the validation\<close>

text \<open>
  Claim C5. If a room of the list fails the validation, \<open>calculateBuildingHeatLoss\<close>
  fails as a whole: its outcome is an error, so no list of results and no totals, and
  the error is the validation error of the first failing room of the list. When the
  failing rooms all fail with one error, that is the error of the call.
\<close>

theorem calculateBuildingHeatLoss_rejects:
  assumes "room \<in> set rooms" and "validateInputs room params = Inl e"
  shows "\<exists>r0 e0 w'.
     List.find (\<lambda>r. validateInputs r params \<noteq> Inr ()) rooms = Some r0 \<and>
     r0 \<in> set rooms \<and> validateInputs r0 params = Inl e0 \<and>
     calculateBuildingHeatLoss rooms params w = (Inl e0, w') \<and>
     ((\<forall>r \<in> set rooms. validateInputs r params = Inr () \<or> validateInputs r params = Inl e)
        \<longrightarrow> e0 = e)"
proof -
  from find_invalid_room [OF assms] obtain r0 e0
    where f: "List.find (\<lambda>r. validateInputs r params \<noteq> Inr ()) rooms = Some r0"
      and m: "r0 \<in> set rooms" and v: "validateInputs r0 params = Inl e0"
    by blast
  from f v have "Promise_all (fst (map_rooms rooms params w)) = Inl e0"
    by (rule Promise_all_first_error)
  then have "calculateBuildingHeatLoss rooms params w = (Inl e0, snd (map_rooms rooms params w))"
    by (simp add: calculateBuildingHeatLoss_def split_beta)
  moreover have "e0 = e"
    if "\<forall>r \<in> set rooms. validateInputs r params = Inr () \<or> validateInputs r params = Inl e"
    using that m v by auto
  ultimately show ?thesis using f m v by blast
qed

theorem calculateBuildingHeatLoss_rejects_witness:
  "room1\<lparr>area := Num 0\<rparr> \<in>
     set [room1, room1\<lparr>area := Num 0\<rparr>, room1\<lparr>volume := Num 0\<rparr>] \<and>
   validateInputs (room1\<lparr>area := Num 0\<rparr>) params1 =
     Inl (Error ''Room area must be greater than 0'') \<and>
   (\<exists>w'. calculateBuildingHeatLoss
      [room1, room1\<lparr>area := Num 0\<rparr>, room1\<lparr>volume := Num 0\<rparr>]
      params1 world0 = (Inl (Error ''Room area must be greater than 0''), w'))"
proof -
  have m: "room1\<lparr>area := Num 0\<rparr> \<in>
      set [room1, room1\<lparr>area := Num 0\<rparr>, room1\<lparr>volume := Num 0\<rparr>]"
    by simp
  have v: "validateInputs (room1\<lparr>area := Num 0\<rparr>) params1 =
      Inl (Error ''Room area must be greater than 0'')"
    by (simp add: validateInputs_area_0)
  have f: "List.find (\<lambda>r. validateInputs r params1 \<noteq> Inr ())
      [room1, room1\<lparr>area := Num 0\<rparr>, room1\<lparr>volume := Num 0\<rparr>] =
      Some (room1\<lparr>area := Num 0\<rparr>)"
    by (simp add: validateInputs_room1 v)
  from calculateBuildingHeatLoss_rejects [OF m v, of world0]
  have "\<exists>w'. calculateBuildingHeatLoss
      [room1, room1\<lparr>area := Num 0\<rparr>, room1\<lparr>volume := Num 0\<rparr>]
      params1 world0 = (Inl (Error ''Room area must be greater than 0''), w')"
    unfolding f using v by auto
  with m v show ?thesis by blast
qed

subsection \<open>C6: a building of valid rooms\<close>

text \<open>
  Claim C6, as amended. For a list of valid rooms \<open>calculateBuildingHeatLoss\<close> succeeds
  with one entry per room, in order: the identifier of the room and the very result
  that \<open>calculateRoomHeatLoss\<close> gives for that room at the clock reading reached; a
  call of \<open>calculateRoomHeatLoss\<close> for the room at any other reading gives the same
  result up to \<open>calculationTimeMs\<close>. The building's total heat loss is the rounded sum
  of the rooms' total heat losses, its total design load the rounded sum of their
  design heat loads, each sum being added in binary64 from the left, in the order of
  the rooms, starting at 0. A permutation of the rooms gives the same entries up to
  their order and \<open>calculationTimeMs\<close>; the totals of the two orders need not be
  equal.
\<close>

theorem calculateBuildingHeatLoss_valid:
  assumes "\<forall>r \<in> set rooms. validateInputs r params = Inr ()"
  shows "\<exists>agg. calculateBuildingHeatLoss rooms params w =
       (Inr agg, w\<lparr>ticks := ticks w + 2 * length rooms\<rparr>) \<and>
     length (rooms_bldg agg) = length rooms \<and>
     (\<forall>i<length rooms.
        roomId (rooms_bldg agg ! i) = id' (rooms ! i) \<and>
        calculateRoomHeatLoss (rooms ! i) params (w\<lparr>ticks := ticks w + 2 * i\<rparr>) =
          (Inr (result (rooms_bldg agg ! i)), w\<lparr>ticks := ticks w + 2 * i + 2\<rparr>) \<and>
        (\<forall>w0. \<exists>res0 w0'.
           calculateRoomHeatLoss (rooms ! i) params w0 = (Inr res0, w0') \<and>
           res0\<lparr>calculationTimeMs := calculationTimeMs (result (rooms_bldg agg ! i))\<rparr> =
             result (rooms_bldg agg ! i))) \<and>
     totalHeatLoss_bldg agg =
       round_num (foldl js_add (Num 0)
         (map (\<lambda>e. totalHeatLoss (result e)) (rooms_bldg agg))) 2 \<and>
     totalDesignLoad_bldg agg =
       round_num (foldl js_add (Num 0)
         (map (\<lambda>e. designHeatLoad (result e)) (rooms_bldg agg))) 2 \<and>
     (\<forall>rooms' w'. mset rooms' = mset rooms \<longrightarrow>
        (\<exists>agg' w''. calculateBuildingHeatLoss rooms' params w' = (Inr agg', w'') \<and>
           mset (map (\<lambda>e. (roomId e, timeless (result e))) (rooms_bldg agg')) =
           mset (map (\<lambda>e. (roomId e, timeless (result e))) (rooms_bldg agg))))"
proof -
  let ?f = "\<lambda>e. (roomId e, timeless (result e))"
  let ?g = "\<lambda>r. (id' r, timeless (projr (fst (calculateRoomHeatLoss r params w))))"
  let ?t = "\<lambda>es. round_num
    (foldl (\<lambda>sum r. js_add sum (totalHeatLoss (result r))) (Num 0) es) 2"
  let ?d = "\<lambda>es. round_num
    (foldl (\<lambda>sum r. js_add sum (designHeatLoad (result r))) (Num 0) es) 2"
  from calculateBuildingHeatLoss_all_valid [OF assms, of w w] obtain es
    where b: "calculateBuildingHeatLoss rooms params w =
       (Inr \<lparr>rooms_bldg = es, totalHeatLoss_bldg = ?t es, totalDesignLoad_bldg = ?d es\<rparr>,
        w\<lparr>ticks := ticks w + 2 * length rooms\<rparr>)"
      and l: "length es = length rooms"
      and n: "\<And>i. i < length rooms \<Longrightarrow>
        roomId (es ! i) = id' (rooms ! i) \<and>
        calculateRoomHeatLoss (rooms ! i) params (w\<lparr>ticks := ticks w + 2 * i\<rparr>) =
          (Inr (result (es ! i)), w\<lparr>ticks := ticks w + 2 * i + 2\<rparr>)"
      and t: "map ?f es = map ?g rooms"
    by blast
  let ?agg = "\<lparr>rooms_bldg = es, totalHeatLoss_bldg = ?t es, totalDesignLoad_bldg = ?d es\<rparr>"
  have k: "\<exists>res0 w0'.
       calculateRoomHeatLoss (rooms ! i) params w0 = (Inr res0, w0') \<and>
       res0\<lparr>calculationTimeMs := calculationTimeMs (result (es ! i))\<rparr> = result (es ! i)"
    if "i < length rooms" for i w0
  proof -
    from n [OF that]
    have "calculateRoomHeatLoss (rooms ! i) params (w\<lparr>ticks := ticks w + 2 * i\<rparr>) =
          (Inr (result (es ! i)), w\<lparr>ticks := ticks w + 2 * i + 2\<rparr>)"
      by blast
    then show ?thesis by (rule calculateRoomHeatLoss_clock)
  qed
  have p: "\<exists>agg' w''. calculateBuildingHeatLoss rooms' params w' = (Inr agg', w'') \<and>
       mset (map ?f (rooms_bldg agg')) = mset (map ?f (rooms_bldg ?agg))"
    if "mset rooms' = mset rooms" for rooms' w'
  proof -
    from that have "set rooms' = set rooms" by (rule mset_eq_setD)
    with assms have "\<forall>r \<in> set rooms'. validateInputs r params = Inr ()" by simp
    from calculateBuildingHeatLoss_all_valid [OF this, of w' w] obtain es'
      where b': "calculateBuildingHeatLoss rooms' params w' =
         (Inr \<lparr>rooms_bldg = es', totalHeatLoss_bldg = ?t es',
               totalDesignLoad_bldg = ?d es'\<rparr>,
          w'\<lparr>ticks := ticks w' + 2 * length rooms'\<rparr>)"
        and t': "map ?f es' = map ?g rooms'"
      by blast
    have "mset (map ?f es') = image_mset ?g (mset rooms')" unfolding t' by simp
    also have "\<dots> = image_mset ?g (mset rooms)" using that by simp
    also have "\<dots> = mset (map ?f es)" unfolding t by simp
    finally show ?thesis using b' by simp
  qed
  have f: "foldl (\<lambda>sum r. js_add sum (h r)) a xs = foldl js_add a (map h xs)"
    for h :: "RoomEntry \<Rightarrow> jsnum" and a xs
    by (induction xs arbitrary: a) simp_all
  have s: "rooms_bldg ?agg = es"
    "totalHeatLoss_bldg ?agg =
      round_num (foldl js_add (Num 0) (map (\<lambda>e. totalHeatLoss (result e)) es)) 2"
    "totalDesignLoad_bldg ?agg =
      round_num (foldl js_add (Num 0) (map (\<lambda>e. designHeatLoad (result e)) es)) 2"
    by (simp_all add: f)
  show ?thesis
  proof (rule exI [of _ ?agg], intro conjI allI impI)
    show "calculateBuildingHeatLoss rooms params w =
        (Inr ?agg, w\<lparr>ticks := ticks w + 2 * length rooms\<rparr>)"
      by (rule b)
    show "length (rooms_bldg ?agg) = length rooms"
      unfolding s by (rule l)
    show "totalHeatLoss_bldg ?agg =
        round_num (foldl js_add (Num 0)
          (map (\<lambda>e. totalHeatLoss (result e)) (rooms_bldg ?agg))) 2"
      unfolding s by (rule refl)
    show "totalDesignLoad_bldg ?agg =
        round_num (foldl js_add (Num 0)
          (map (\<lambda>e. designHeatLoad (result e)) (rooms_bldg ?agg))) 2"
      unfolding s by (rule refl)
  next
    fix i
    assume i: "i < length rooms"
    from n [OF i] show "roomId (rooms_bldg ?agg ! i) = id' (rooms ! i)"
      unfolding s by (rule conjunct1)
    from n [OF i]
    show "calculateRoomHeatLoss (rooms ! i) params (w\<lparr>ticks := ticks w + 2 * i\<rparr>) =
        (Inr (result (rooms_bldg ?agg ! i)), w\<lparr>ticks := ticks w + 2 * i + 2\<rparr>)"
      unfolding s by (rule conjunct2)
    fix w0
    from k [OF i, of w0]
    show "\<exists>res0 w0'.
        calculateRoomHeatLoss (rooms ! i) params w0 = (Inr res0, w0') \<and>
        res0\<lparr>calculationTimeMs := calculationTimeMs (result (rooms_bldg ?agg ! i))\<rparr> =
          result (rooms_bldg ?agg ! i)"
      unfolding s .
  next
    fix rooms' w'
    assume "mset rooms' = mset rooms"
    then show "\<exists>agg' w''. calculateBuildingHeatLoss rooms' params w' = (Inr agg', w'') \<and>
        mset (map ?f (rooms_bldg agg')) = mset (map ?f (rooms_bldg ?agg))"
      by (rule p)
  qed
qed

theorem calculateBuildingHeatLoss_valid_witness:
  "validateInputs room2 params1 = Inr () \<and> validateInputs room_tiny params1 = Inr () \<and>
   (\<exists>agg agg' w' w''.
      calculateBuildingHeatLoss [room2, room_tiny] params1 world0 = (Inr agg, w') \<and>
      map roomId (rooms_bldg agg) = [''room-1'', ''room-2''] \<and>
      map (\<lambda>e. totalHeatLoss (result e)) (rooms_bldg agg) =
        [binary64 93.73, binary64 3.88] \<and>
      map (\<lambda>e. designHeatLoad (result e)) (rooms_bldg agg) =
        [binary64 107.78, binary64 4.46] \<and>
      totalHeatLoss_bldg agg = binary64 97.61 \<and>
      totalDesignLoad_bldg agg = binary64 112.24 \<and>
      calculateBuildingHeatLoss [room_tiny, room2] params1 (world0\<lparr>ticks := 5\<rparr>) =
        (Inr agg', w'') \<and>
      mset (map (\<lambda>e. (roomId e, timeless (result e))) (rooms_bldg agg')) =
      mset (map (\<lambda>e. (roomId e, timeless (result e))) (rooms_bldg agg)))"
proof -
  let ?rooms = "[room2, room_tiny]"
  from room2_valid room_tiny1_valid
  have v: "\<forall>r \<in> set ?rooms. validateInputs r params1 = Inr ()" by simp
  from calculateBuildingHeatLoss_valid [OF v, of world0] obtain agg
    where b: "calculateBuildingHeatLoss ?rooms params1 world0 =
        (Inr agg, world0\<lparr>ticks := ticks world0 + 2 * length ?rooms\<rparr>)"
      and l: "length (rooms_bldg agg) = length ?rooms"
      and n: "\<And>i. i < length ?rooms \<Longrightarrow>
        roomId (rooms_bldg agg ! i) = id' (?rooms ! i) \<and>
        calculateRoomHeatLoss (?rooms ! i) params1 (world0\<lparr>ticks := ticks world0 + 2 * i\<rparr>) =
          (Inr (result (rooms_bldg agg ! i)), world0\<lparr>ticks := ticks world0 + 2 * i + 2\<rparr>)"
      and t: "totalHeatLoss_bldg agg =
        round_num (foldl js_add (Num 0)
          (map (\<lambda>e. totalHeatLoss (result e)) (rooms_bldg agg))) 2"
      and d: "totalDesignLoad_bldg agg =
        round_num (foldl js_add (Num 0)
          (map (\<lambda>e. designHeatLoad (result e)) (rooms_bldg agg))) 2"
      and p: "\<And>rooms' w'. mset rooms' = mset ?rooms \<Longrightarrow>
        \<exists>agg' w''. calculateBuildingHeatLoss rooms' params1 w' = (Inr agg', w'') \<and>
           mset (map (\<lambda>e. (roomId e, timeless (result e))) (rooms_bldg agg')) =
           mset (map (\<lambda>e. (roomId e, timeless (result e))) (rooms_bldg agg))"
    by blast
  from l obtain e0 e1 where es: "rooms_bldg agg = [e0, e1]"
    by (auto simp add: length_Suc_conv)
  from n [of 0] have i0: "roomId e0 = ''room-1''"
    and c0: "calculateRoomHeatLoss room2 params1 (world0\<lparr>ticks := ticks world0 + 2 * 0\<rparr>) =
      (Inr (result e0), world0\<lparr>ticks := ticks world0 + 2 * 0 + 2\<rparr>)"
    by (simp_all add: es room2_def room1_def)
  from c0 [unfolded room2_result_at, symmetric]
  have f0: "totalHeatLoss (result e0) = binary64 93.73"
    "designHeatLoad (result e0) = binary64 107.78"
    by simp_all
  from n [of 1] have i1: "roomId e1 = ''room-2''"
    and c1: "calculateRoomHeatLoss room_tiny params1 (world0\<lparr>ticks := ticks world0 + 2 * 1\<rparr>) =
      (Inr (result e1), world0\<lparr>ticks := ticks world0 + 2 * 1 + 2\<rparr>)"
    by (simp_all add: es room_tiny_def)
  from c1 [unfolded room_tiny1_result_at, symmetric]
  have f1: "totalHeatLoss (result e1) = binary64 3.88"
    "designHeatLoad (result e1) = binary64 4.46"
    by simp_all
  have s: "round_num (foldl js_add (Num 0) [binary64 93.73, binary64 3.88]) 2 =
      binary64 97.61"
    "round_num (foldl js_add (Num 0) [binary64 107.78, binary64 4.46]) 2 = binary64 112.24"
    by (simp_all only: foldl.simps round_num_def Math_pow_10_2 Let_def bldg_steps)
  have tt: "totalHeatLoss_bldg agg = binary64 97.61"
    unfolding t es list.map f0 f1 by (rule s)
  have dd: "totalDesignLoad_bldg agg = binary64 112.24"
    unfolding d es list.map f0 f1 by (rule s)
  have "mset [room_tiny, room2] = mset ?rooms" by simp
  from p [OF this, of "world0\<lparr>ticks := 5\<rparr>"] obtain agg' w''
    where q: "calculateBuildingHeatLoss [room_tiny, room2] params1 (world0\<lparr>ticks := 5\<rparr>) =
        (Inr agg', w'')"
      "mset (map (\<lambda>e. (roomId e, timeless (result e))) (rooms_bldg agg')) =
       mset (map (\<lambda>e. (roomId e, timeless (result e))) (rooms_bldg agg))"
    by blast
  have m: "map roomId (rooms_bldg agg) = [''room-1'', ''room-2'']"
    "map (\<lambda>e. totalHeatLoss (result e)) (rooms_bldg agg) = [binary64 93.73, binary64 3.88]"
    "map (\<lambda>e. designHeatLoad (result e)) (rooms_bldg agg) =
      [binary64 107.78, binary64 4.46]"
    unfolding es list.map i0 i1 f0 f1 by (rule refl)+
  from b m tt dd q
  have "calculateBuildingHeatLoss [room2, room_tiny] params1 world0 =
        (Inr agg, world0\<lparr>ticks := ticks world0 + 2 * length ?rooms\<rparr>) \<and>
      map roomId (rooms_bldg agg) = [''room-1'', ''room-2''] \<and>
      map (\<lambda>e. totalHeatLoss (result e)) (rooms_bldg agg) =
        [binary64 93.73, binary64 3.88] \<and>
      map (\<lambda>e. designHeatLoad (result e)) (rooms_bldg agg) =
        [binary64 107.78, binary64 4.46] \<and>
      totalHeatLoss_bldg agg = binary64 97.61 \<and>
      totalDesignLoad_bldg agg = binary64 112.24 \<and>
      calculateBuildingHeatLoss [room_tiny, room2] params1 (world0\<lparr>ticks := 5\<rparr>) =
        (Inr agg', w'') \<and>
      mset (map (\<lambda>e. (roomId e, timeless (result e))) (rooms_bldg agg')) =
      mset (map (\<lambda>e. (roomId e, timeless (result e))) (rooms_bldg agg))"
    by (intro conjI)
  then have "\<exists>agg agg' w' w''.
      calculateBuildingHeatLoss [room2, room_tiny] params1 world0 = (Inr agg, w') \<and>
      map roomId (rooms_bldg agg) = [''room-1'', ''room-2''] \<and>
      map (\<lambda>e. totalHeatLoss (result e)) (rooms_bldg agg) =
        [binary64 93.73, binary64 3.88] \<and>
      map (\<lambda>e. designHeatLoad (result e)) (rooms_bldg agg) =
        [binary64 107.78, binary64 4.46] \<and>
      totalHeatLoss_bldg agg = binary64 97.61 \<and>
      totalDesignLoad_bldg agg = binary64 112.24 \<and>
      calculateBuildingHeatLoss [room_tiny, room2] params1 (world0\<lparr>ticks := 5\<rparr>) =
        (Inr agg', w'') \<and>
      mset (map (\<lambda>e. (roomId e, timeless (result e))) (rooms_bldg agg')) =
      mset (map (\<lambda>e. (roomId e, timeless (result e))) (rooms_bldg agg))"
    by - (rule exI, rule exI, rule exI, rule exI, assumption)
  with room2_valid room_tiny1_valid show ?thesis by (intro conjI)
qed

text \<open>
  The claim as stated fails at the three valid rooms \<open>room_big\<close>, \<open>room_unit\<close> and
  \<open>room_unit2\<close>, with the total heat losses \<open>3 * 2 ^ 53\<close>, 1.5 and 1.5: with the big
  room first each 1.5 is lost in the rounding of the sum, with the big room last the
  sum 3 of the two is not, and the total heat losses of the two buildings differ by 4.
\<close>

theorem calculateBuildingHeatLoss_order_counterexample:
  "validateInputs room_big params_tiny = Inr () \<and>
   validateInputs room_unit params_tiny = Inr () \<and>
   validateInputs room_unit2 params_tiny = Inr () \<and>
   mset [room_unit, room_unit2, room_big] = mset [room_big, room_unit, room_unit2] \<and>
   building_totals [room_big, room_unit, room_unit2] params_tiny world0 =
     Some (Num 27021597764222976, Num 31074837428856424) \<and>
   building_totals [room_unit, room_unit2, room_big] params_tiny world0 =
     Some (Num 27021597764222980, Num 31074837428856428)"
proof -
  have "building_totals [room_big, room_unit, room_unit2] params_tiny world0 =
      Some (Num 27021597764222976, Num 31074837428856424)"
    by (simp only: building_totals_def calculateBuildingHeatLoss_def map_rooms_Cons
        map_rooms.simps(1) room_big_result_at room_unit_result_at room_unit2_result_at
        fst_conv snd_conv map_sum.simps Promise_all.simps sum.case prod.case Let_def
        foldl.simps RoomEntry.simps CalculationResult.simps BuildingResult.simps
        round_num_def Math_pow_10_2 literals order_steps)
  moreover
  have "building_totals [room_unit, room_unit2, room_big] params_tiny world0 =
      Some (Num 27021597764222980, Num 31074837428856428)"
    by (simp only: building_totals_def calculateBuildingHeatLoss_def map_rooms_Cons
        map_rooms.simps(1) room_big_result_at room_unit_result_at room_unit2_result_at
        fst_conv snd_conv map_sum.simps Promise_all.simps sum.case prod.case Let_def
        foldl.simps RoomEntry.simps CalculationResult.simps BuildingResult.simps
        round_num_def Math_pow_10_2 literals order_steps)
  moreover
  have "mset [room_unit, room_unit2, room_big] = mset [room_big, room_unit, room_unit2]"
    by simp
  ultimately show ?thesis
    using room_big_valid room_unit_valid room_unit2_valid by (intro conjI)
qed

subsection \<open>C7: the fields of the radiator sizing\<close>



subsection \<open>C8: the design heat load against the total heat loss\<close>

text \<open>
  Claim C8, as amended. For a valid room the returned design heat load is not below
  the returned total heat loss whenever the total is positive, and it is strictly
  above from a total of 0.08 on, as long as the total is finite; when both are finite,
  the design heat load differs from 1.15 times the total by at most 0.011 and a
  \<open>2 ^ 49\<close>-th of the total, the second for the binary64 roundings of the products.
  The example is the room of the test with the volume 2 and one exterior wall, with
  the total 93.73 and the design heat load 107.78.
\<close>

theorem designHeatLoad_totalHeatLoss:
  assumes "validateInputs room params = Inr ()"
  shows "\<exists>res w'. calculateRoomHeatLoss room params w = (Inr res, w') \<and>
     (js_lt (Num 0) (totalHeatLoss res) \<longrightarrow>
        js_le (totalHeatLoss res) (designHeatLoad res)) \<and>
     (\<forall>T. totalHeatLoss res = Num T \<and> 0.08 \<le> T \<longrightarrow>
        js_lt (totalHeatLoss res) (designHeatLoad res)) \<and>
     (\<forall>T D. totalHeatLoss res = Num T \<and> designHeatLoad res = Num D \<longrightarrow>
        \<bar>D - 1.15 * T\<bar> \<le> 0.011 + \<bar>T\<bar> / 2 ^ 49)"
proof -
  define t where "t = js_add
    (calculateTransmissionLoss room params (js_sub (indoorTemp params) (outdoorTemp params)))
    (calculateVentilationLoss room params (js_sub (indoorTemp params) (outdoorTemp params)))"
  have d: "is_double t" unfolding t_def by (rule is_double_js_add)
  have "js_le (round_num t 2) (round_num (js_mul t SAFETY_FACTOR) 2)"
    if "js_lt (Num 0) (round_num t 2)"
    using d that by (rule design_ge_total)
  moreover have "js_lt (round_num t 2) (round_num (js_mul t SAFETY_FACTOR) 2)"
    if "round_num t 2 = Num T" and "0.08 \<le> T" for T
    using d that by (rule design_gt_total)
  moreover have "\<bar>D - 1.15 * T\<bar> \<le> 0.011 + \<bar>T\<bar> / 2 ^ 49"
    if "round_num t 2 = Num T" and "round_num (js_mul t SAFETY_FACTOR) 2 = Num D" for T D
    using that by (rule design_total_bound)
  ultimately show ?thesis
    unfolding calculateRoomHeatLoss_valid [OF assms] t_def [symmetric] by simp
qed

theorem designHeatLoad_totalHeatLoss_witness:
  "validateInputs room2 params1 = Inr () \<and>
   (\<exists>res w'. calculateRoomHeatLoss room2 params1 world0 = (Inr res, w') \<and>
      totalHeatLoss res = binary64 93.73 \<and> designHeatLoad res = binary64 107.78 \<and>
      js_lt (Num 0) (totalHeatLoss res) \<and>
      js_le (totalHeatLoss res) (designHeatLoad res) \<and>
      js_lt (totalHeatLoss res) (designHeatLoad res))"
proof -
  from designHeatLoad_totalHeatLoss [OF room2_valid, of world0]
  obtain res w' where c: "calculateRoomHeatLoss room2 params1 world0 = (Inr res, w')"
    and 1: "js_lt (Num 0) (totalHeatLoss res) \<Longrightarrow>
      js_le (totalHeatLoss res) (designHeatLoad res)"
    and 2: "\<And>T. totalHeatLoss res = Num T \<Longrightarrow> 0.08 \<le> T \<Longrightarrow>
      js_lt (totalHeatLoss res) (designHeatLoad res)"
    by blast
  from c have f: "totalHeatLoss res = binary64 93.73" "designHeatLoad res = binary64 107.78"
    unfolding room2_result by auto
  from f(1) have "totalHeatLoss res = Num (6595662391772447 / 70368744177664)"
    by (simp only: room2_steps)
  moreover have "0.08 \<le> (6595662391772447 / 70368744177664 :: real)" by simp
  ultimately obtain T where n: "totalHeatLoss res = Num T" "0.08 \<le> T" by blast
  then have p: "js_lt (Num 0) (totalHeatLoss res)" by simp
  from n have "js_lt (totalHeatLoss res) (designHeatLoad res)" by (rule 2)
  with c f p 1 [OF p] room2_valid show ?thesis by blast
qed

text \<open>
  The claim as stated fails at \<open>room_tiny\<close>, whose total and design heat load are both
  0.01, and at \<open>room_small\<close>, whose total is 0.13 and whose design heat load 0.16 is
  more than 0.01 away from \<open>1.15 * 0.13\<close>.
\<close>

theorem designHeatLoad_totalHeatLoss_counterexample:
  "validateInputs room_tiny params_tiny = Inr () \<and>
   calculateRoomHeatLoss room_tiny params_tiny world0 =
     (Inr \<lparr>transmissionLoss = binary64 0.01, ventilationLoss = Num 0,
           totalHeatLoss = binary64 0.01, designHeatLoad = binary64 0.01,
           safetyFactor = binary64 1.15, method' = ''EN_12831'', calculationTimeMs = 3\<rparr>,
      world0\<lparr>ticks := 2\<rparr>) \<and>
   js_lt (Num 0) (binary64 0.01) \<and> \<not> js_lt (binary64 0.01) (binary64 0.01) \<and>
   validateInputs room_small params_tiny = Inr () \<and>
   calculateRoomHeatLoss room_small params_tiny world0 =
     (Inr \<lparr>transmissionLoss = binary64 0.13, ventilationLoss = Num 0,
           totalHeatLoss = binary64 0.13, designHeatLoad = binary64 0.16,
           safetyFactor = binary64 1.15, method' = ''EN_12831'', calculationTimeMs = 3\<rparr>,
      world0\<lparr>ticks := 2\<rparr>) \<and>
   binary64 0.13 = Num (1170935903116329 / 9007199254740992) \<and>
   binary64 0.16 = Num (5764607523034235 / 36028797018963968) \<and>
   0.01 < \<bar>5764607523034235 / 36028797018963968 -
     1.15 * (1170935903116329 / 9007199254740992) :: real\<bar>"
proof -
  have "js_lt (Num 0) (binary64 0.01)" "\<not> js_lt (binary64 0.01) (binary64 0.01)"
    by (simp_all only: tiny_steps) simp_all
  moreover have "binary64 0.13 = Num (1170935903116329 / 9007199254740992)"
    "binary64 0.16 = Num (5764607523034235 / 36028797018963968)"
    by (simp_all only: small_steps)
  moreover have "0.01 < \<bar>5764607523034235 / 36028797018963968 -
      1.15 * (1170935903116329 / 9007199254740992) :: real\<bar>"
    by simp
  ultimately show ?thesis
    using room_tiny_valid room_tiny_result room_small_valid room_small_result
    by (intro conjI)
qed

subsection \<open>C9: the informational fields of a room\<close>

text \<open>
  Claim C9. Two rooms with the same area, volume, ceiling height, number of exterior
  walls and window area (so differing at most in \<open>doorCount\<close>, \<open>targetTemp\<close>, \<open>id\<close>
  and \<open>name\<close>), with the same parameters, are either both rejected with the same error
  or both get results with the same transmission loss, ventilation loss, total heat
  loss, design heat load, safety factor and method, whatever the clock reads.
\<close>

theorem calculateRoomHeatLoss_informational:
  assumes "area r2 = area r1" and "volume r2 = volume r1"
    and "ceilingHeight r2 = ceilingHeight r1" and "exteriorWalls r2 = exteriorWalls r1"
    and "windowArea r2 = windowArea r1"
  shows "(\<exists>e. fst (calculateRoomHeatLoss r1 params w1) = Inl e \<and>
            fst (calculateRoomHeatLoss r2 params w2) = Inl e) \<or>
         (\<exists>res1 res2.
            fst (calculateRoomHeatLoss r1 params w1) = Inr res1 \<and>
            fst (calculateRoomHeatLoss r2 params w2) = Inr res2 \<and>
            transmissionLoss res2 = transmissionLoss res1 \<and>
            ventilationLoss res2 = ventilationLoss res1 \<and>
            totalHeatLoss res2 = totalHeatLoss res1 \<and>
            designHeatLoad res2 = designHeatLoad res1 \<and>
            safetyFactor res2 = safetyFactor res1 \<and>
            method' res2 = method' res1)"
proof -
  have v: "validateInputs r2 params = validateInputs r1 params"
    using assms(1-3) by (rule validateInputs_informational)
  have t: "calculateTransmissionLoss r2 params dT = calculateTransmissionLoss r1 params dT"
    for dT
    using assms by (simp add: calculateTransmissionLoss_def)
  have l: "calculateVentilationLoss r2 params dT = calculateVentilationLoss r1 params dT"
    for dT
    using assms by (simp add: calculateVentilationLoss_def)
  show ?thesis
  proof (cases "validateInputs r1 params")
    case (Inl e)
    with v show ?thesis by (simp add: calculateRoomHeatLoss_invalid)
  next
    case (Inr u)
    then have "validateInputs r1 params = Inr ()" by simp
    with v show ?thesis by (simp add: calculateRoomHeatLoss_valid t l)
  qed
qed

theorem calculateRoomHeatLoss_informational_witness:
  "\<exists>res1 res2.
     fst (calculateRoomHeatLoss room1 params1 world0) = Inr res1 \<and>
     fst (calculateRoomHeatLoss
       (room1\<lparr>id' := ''room-9'', name := ''Study'', doorCount := Num 3, targetTemp := Num 18\<rparr>)
       params1 (world0\<lparr>ticks := 7\<rparr>)) = Inr res2 \<and>
     transmissionLoss res2 = transmissionLoss res1 \<and>
     ventilationLoss res2 = ventilationLoss res1 \<and>
     totalHeatLoss res2 = totalHeatLoss res1 \<and>
     designHeatLoad res2 = designHeatLoad res1 \<and>
     safetyFactor res2 = safetyFactor res1 \<and>
     method' res2 = method' res1"
proof -
  have "\<exists>res. fst (calculateRoomHeatLoss room1 params1 world0) = Inr res"
    using validateInputs_room1 by (rule fst_calculateRoomHeatLoss_Inr)
  then have "\<not> (\<exists>e. fst (calculateRoomHeatLoss room1 params1 world0) = Inl e)" by auto
  with calculateRoomHeatLoss_informational
    [of "room1\<lparr>id' := ''room-9'', name := ''Study'', doorCount := Num 3, targetTemp := Num 18\<rparr>"
      room1 params1 world0 "world0\<lparr>ticks := 7\<rparr>"]
  show ?thesis by simp
qed

subsection \<open>C10: a building with no rooms\<close>

text \<open>
  Claim C10. For any parameters, valid or not, \<open>calculateBuildingHeatLoss\<close> on the
  empty list of rooms succeeds with an empty list of results and both totals 0: the
  parameters are only looked at by the validation of a room.
\<close>

theorem calculateBuildingHeatLoss_empty:
  "calculateBuildingHeatLoss [] params w =
     (Inr \<lparr>rooms_bldg = [], totalHeatLoss_bldg = Num 0, totalDesignLoad_bldg = Num 0\<rparr>, w)"
  by (simp add: calculateBuildingHeatLoss_def round_num_0)

end
